(* ===== verification/Prelude.thy ===== *)
theory Prelude
  imports Complex_Main "HOL-Library.Word" "HOL-Library.Sublist"
begin

text \<open>
  Shared vocabulary of the development: the Go types the model reads the program's
  values at (\<open>int\<close> is 64 bits wide on the platforms the service targets, so it is a
  \<open>64 word\<close>, read back with \<open>sint\<close>), the character constants that the program's
  code templates are spelt with, the named collections of simplification rules the
  component theories fill, and generic lemmas on lists, prefixes and words that several
  components share.
\<close>

section \<open>Types\<close>

type_synonym go_int = "64 word"
  \<comment> \<open>Go's \<open>int\<close>, and \<open>int64\<close>-based types such as \<open>time.Duration\<close> (nanoseconds)\<close>

type_synonym go_uint = nat
  \<comment> \<open>Go's \<open>uint\<close> used for database identifiers; never decremented or wrapped in the code\<close>

type_synonym go_time = int
  \<comment> \<open>a \<open>time.Time\<close> value, read as a count of nanoseconds; the code only stores it\<close>

text \<open>
  Go's \<open>float64\<close> by the class of its value: a finite number, \<open>NaN\<close>, or an infinity
  (\<open>True\<close> for \<open>+Inf\<close>). Division and multiplication follow the special cases of
  IEEE 754 (\<open>0/0\<close> and \<open>Inf/Inf\<close> are \<open>NaN\<close>, a non-zero number over zero is an
  infinity of its sign, \<open>0 * Inf\<close> is \<open>NaN\<close>); on finite operands they are exact real
  arithmetic, so rounding to 53 bits is not modelled, nor the sign of zero (a zero
  divisor counts as \<open>+0\<close>, which is what \<open>float64\<close> of an integer gives).
\<close>

datatype float64 = F64 real | F64NaN | F64Inf bool

definition float64_of_int :: "go_int \<Rightarrow> float64" where
  "float64_of_int i = F64 (of_int (sint i))"

fun go_fdiv :: "float64 \<Rightarrow> float64 \<Rightarrow> float64" where
  "go_fdiv (F64 a) (F64 b) = (if b = 0 then (if a = 0 then F64NaN else F64Inf (0 < a)) else F64 (a / b))"
| "go_fdiv (F64 a) (F64Inf s) = F64 0"
| "go_fdiv (F64Inf s) (F64 b) = F64Inf (s = (0 \<le> b))"
| "go_fdiv _ _ = F64NaN"

fun go_fmul :: "float64 \<Rightarrow> float64 \<Rightarrow> float64" where
  "go_fmul (F64 a) (F64 b) = F64 (a * b)"
| "go_fmul (F64 a) (F64Inf s) = (if a = 0 then F64NaN else F64Inf (s = (0 < a)))"
| "go_fmul (F64Inf s) (F64 b) = (if b = 0 then F64NaN else F64Inf (s = (0 < b)))"
| "go_fmul (F64Inf s) (F64Inf t) = F64Inf (s = t)"
| "go_fmul _ _ = F64NaN"

section \<open>Rule collections\<close>

named_theorems go_lits
  "definitions of the character constants of the program's string templates"

named_theorems model_simps
  "equations characterising the operations of the model, used by the end-to-end proofs"

section \<open>Character constants\<close>

text \<open>
  Inner-syntax string literals cannot contain a quote, an apostrophe, a backtick or a tab,
  so the templates of the code executor are written with these one-character strings.
\<close>

definition go_nl :: string where
  "go_nl = ''\<newline>''"

definition go_tab :: string where
  "go_tab = [CHR 0x09]"

definition go_dq :: string where
  "go_dq = [CHR 0x22]"

definition go_sq :: string where
  "go_sq = [CHR 0x27]"

definition go_bq :: string where
  "go_bq = [CHR 0x60]"

declare go_nl_def [go_lits] go_tab_def [go_lits] go_dq_def [go_lits]
  go_sq_def [go_lits] go_bq_def [go_lits]

text \<open>
  Case folding of ASCII letters, the one case mapping that SQLite's \<open>LOWER\<close> and
  \<open>LIKE\<close> and Go's \<open>strings.ToLower\<close> agree on: \<open>A\<close>..\<open>Z\<close> become
  \<open>a\<close>..\<open>z\<close>, every other byte is kept.
\<close>

definition ascii_lower :: "char \<Rightarrow> char" where
  "ascii_lower c =
     (if (65::nat) \<le> of_char c \<and> of_char c \<le> (90::nat) then char_of (of_char c + (32::nat)) else c)"

definition is_ascii :: "char \<Rightarrow> bool" where
  "is_ascii c \<longleftrightarrow> of_char c < (128::nat)"

lemma ascii_lower_idem [simp]: "ascii_lower (ascii_lower c) = ascii_lower c"
  by (simp add: ascii_lower_def)

lemma ascii_lower_ascii [simp]: "is_ascii (ascii_lower c) \<longleftrightarrow> is_ascii c"
  by (auto simp: ascii_lower_def is_ascii_def)

lemma ascii_lower_eq_fixed: "of_char c \<notin> {65..90::nat} \<Longrightarrow> ascii_lower c = c"
  by (auto simp: ascii_lower_def)

lemma ascii_lower_fixed_eq: "of_char d \<notin> {65..90::nat} \<Longrightarrow> of_char d \<notin> {97..122::nat} \<Longrightarrow> ascii_lower c = d \<longleftrightarrow> c = d"
  by (auto simp: ascii_lower_def)

section \<open>Time\<close>

text \<open>
  A \<open>time.Time\<close> is read as nanoseconds since the Unix epoch. Its zero value, which a
  struct field holds until it is set, is 1 January of year 1, 62135596800 seconds before
  the epoch; \<open>Unix()\<close> gives whole seconds, rounded down.
\<close>

definition go_zero_time :: go_time where
  "go_zero_time = - 62135596800 * 1000000000"

definition go_unix :: "go_time \<Rightarrow> go_int" where
  "go_unix t = word_of_int (t div 1000000000)"

section \<open>Stripping a prefix code\<close>

text \<open>
  Trimming whitespace strips, as long as one applies, a prefix that is one of a set of
  encodings. The loop is written once here over an arbitrary list of encodings \<open>ps\<close>;
  the encodings of Go's white space are filled in by \<open>GoStrings\<close>.
\<close>

definition match_prefix :: "string list \<Rightarrow> string \<Rightarrow> string option" where
  "match_prefix ps s = find (\<lambda>p. p \<noteq> [] \<and> prefix p s) ps"

function strip_prefixes :: "string list \<Rightarrow> string \<Rightarrow> string" where
  "strip_prefixes ps s =
     (case match_prefix ps s of
        None \<Rightarrow> s
      | Some p \<Rightarrow> strip_prefixes ps (drop (length p) s))"
  by pat_completeness auto
termination
proof (relation "measure (\<lambda>(ps, s). length s)")
  fix ps s p
  assume "match_prefix ps s = Some p"
  then have "p \<noteq> []" and "length p \<le> length s"
    by (auto simp: match_prefix_def find_Some_iff dest: prefix_length_le)
  then show "((ps, drop (length p) s), ps, s) \<in> measure (\<lambda>(ps, s). length s)"
    by (cases p) auto
qed simp

text \<open>A set of encodings is a prefix code when no encoding is a prefix of another.\<close>

definition prefix_code :: "string list \<Rightarrow> bool" where
  "prefix_code ps \<longleftrightarrow> [] \<notin> set ps \<and> (\<forall>p \<in> set ps. \<forall>q \<in> set ps. prefix p q \<longrightarrow> p = q)"

subsection \<open>Lemmas\<close>

declare strip_prefixes.simps [simp del]

lemma match_prefix_SomeD:
  "match_prefix ps s = Some p \<Longrightarrow> p \<in> set ps \<and> p \<noteq> [] \<and> prefix p s"
  by (auto simp: match_prefix_def find_Some_iff)

lemma match_prefix_None_iff:
  "match_prefix ps s = None \<longleftrightarrow> (\<forall>p \<in> set ps. p \<noteq> [] \<longrightarrow> \<not> prefix p s)"
  by (auto simp: match_prefix_def find_None_iff)


lemma strip_prefixes_no_match:
  "match_prefix ps (strip_prefixes ps s) = None"
proof (induction ps s rule: strip_prefixes.induct)
  case (1 ps s)
  then show ?case
    by (cases "match_prefix ps s") (simp_all add: strip_prefixes.simps [of ps s])
qed

lemma strip_prefixes_idle:
  "match_prefix ps s = None \<Longrightarrow> strip_prefixes ps s = s"
  by (simp add: strip_prefixes.simps [of ps s])

lemma strip_prefixes_idem [simp]:
  "strip_prefixes ps (strip_prefixes ps s) = strip_prefixes ps s"
  by (rule strip_prefixes_idle [OF strip_prefixes_no_match])

lemma strip_prefixes_suffix:
  "suffix (strip_prefixes ps s) s"
proof (induction ps s rule: strip_prefixes.induct)
  case (1 ps s)
  show ?case
  proof (cases "match_prefix ps s")
    case None
    then show ?thesis by (simp add: strip_prefixes.simps [of ps s])
  next
    case (Some p)
    with "1" have "suffix (strip_prefixes ps (drop (length p) s)) (drop (length p) s)"
      by simp
    then show ?thesis
      using Some by (simp add: strip_prefixes.simps [of ps s] suffix_drop suffix_order.trans)
  qed
qed

text \<open>In a prefix code, an encoding at the front is the one the loop finds.\<close>

lemma match_prefix_code:
  assumes "prefix_code ps" and "w \<in> set ps"
  shows "match_prefix ps (w @ s) = Some w"
proof -
  obtain p where p: "match_prefix ps (w @ s) = Some p"
    using assms match_prefix_None_iff [of ps "w @ s"] by (fastforce simp: prefix_code_def)
  then have "p \<in> set ps" "prefix p (w @ s)"
    by (auto dest: match_prefix_SomeD)
  then have "prefix p w \<or> prefix w p"
    using prefix_same_cases [of p "w @ s" w] by simp
  with assms \<open>p \<in> set ps\<close> have "p = w"
    unfolding prefix_code_def by blast
  with p show ?thesis by simp
qed

lemma strip_prefixes_Cons_code:
  "prefix_code ps \<Longrightarrow> w \<in> set ps \<Longrightarrow> strip_prefixes ps (w @ s) = strip_prefixes ps s"
  by (simp add: strip_prefixes.simps [of ps "w @ s"] match_prefix_code)

lemma strip_prefixes_concat_code:
  "prefix_code ps \<Longrightarrow> set ws \<subseteq> set ps \<Longrightarrow>
   strip_prefixes ps (concat ws @ s) = strip_prefixes ps s"
  by (induction ws) (simp_all add: strip_prefixes_Cons_code)

lemma prefix_code_rev:
  "prefix_code ps \<Longrightarrow> prefix_code (map rev ps) \<longleftrightarrow>
     (\<forall>p \<in> set ps. \<forall>q \<in> set ps. suffix p q \<longrightarrow> p = q)"
  by (auto simp: prefix_code_def suffix_to_prefix [symmetric])

section \<open>Sums of 64-bit words\<close>

text \<open>
  A Go loop \<open>total += x\<close> over \<open>int\<close> values wraps around at 64 bits. Its signed
  reading is the mathematical sum exactly when that sum fits into a signed 64-bit integer,
  whatever the intermediate partial sums did.
\<close>

lemma sum_list_word_of_sint:
  "sum_list (xs :: go_int list) = word_of_int (sum_list (map sint xs))"
  by (induction xs) simp_all

lemma sint_sum_list:
  assumes "- (2 ^ 63) \<le> sum_list (map sint (xs :: go_int list))"
    and "sum_list (map sint xs) < 2 ^ 63"
  shows "sint (sum_list xs) = sum_list (map sint xs)"
  using assms
  by (simp add: sum_list_word_of_sint sint_sbintrunc' signed_take_bit_int_eq_self)

lemma unat_sum_list:
  "unat (sum_list (xs :: go_int list)) = sum_list (map unat xs) mod 2 ^ 64"
  by (induction xs) (simp_all add: unat_word_ariths mod_add_right_eq)

text \<open>
  The offset of a page, \<open>(page - 1) * limit\<close> in Go's \<open>int\<close>: the exact product when
  it fits in 63 bits.
\<close>

lemma sint_wrapped_product:
  fixes a b :: go_int
  shows "sint ((a - 1) * b) = ((sint a - 1) * sint b + 2 ^ 63) mod 2 ^ 64 - 2 ^ 63"
proof -
  have sb: "signed_take_bit 63 (sint b) = sint b"
    by (simp add: sint_uint)
  have "sint ((a - 1) * b) = signed_take_bit 63 (signed_take_bit 63 (sint a - 1) * sint b)"
    by (simp add: sint_word_ariths)
  also have "\<dots> = signed_take_bit 63 ((sint a - 1) * sint b)"
    by (metis sb signed_take_bit_mult)
  also have "\<dots> = ((sint a - 1) * sint b + 2 ^ 63) mod 2 ^ 64 - 2 ^ 63"
    by (simp add: signed_take_bit_eq_take_bit_shift take_bit_eq_mod)
  finally show ?thesis .
qed

lemma sint_page_offset:
  fixes a b :: go_int
  assumes "1 \<le> sint a" and "0 \<le> sint b" and "(sint a - 1) * sint b < 2 ^ 63"
  shows "sint ((a - 1) * b) = (sint a - 1) * sint b"
proof -
  have "sint (a - 1) = sint a - 1"
    using assms(1) sint_range_size [of a]
    by (simp add: sint_word_ariths word_size signed_take_bit_int_eq_self)
  moreover have "0 \<le> (sint a - 1) * sint b"
    using assms(1,2) by simp
  ultimately show ?thesis
    using assms(3) by (simp add: sint_word_ariths signed_take_bit_int_eq_self)
qed

section \<open>Lists\<close>

lemma length_filter_eq_length_iff:
  "length (filter P xs) = length xs \<longleftrightarrow> list_all P xs"
proof (induction xs)
  case (Cons x xs)
  have "length (filter P xs) \<noteq> Suc (length xs)"
    using length_filter_le [of P xs] by linarith
  with Cons.IH show ?case by auto
qed simp

lemma find_SomeD: "find P xs = Some x \<Longrightarrow> P x \<and> x \<in> set xs"
  by (induction xs) (auto split: if_splits)

text \<open>The next row id of SQLite: one more than the largest id, 1 on an empty table.\<close>

lemma fold_max_ge: "x \<in> set xs \<Longrightarrow> x \<le> fold max xs (a::nat)"
  by (metis Max.set_eq_fold List.finite_set Max_ge list.set_intros(2))

lemma distinct_map_insort_key:
  "distinct (map g (insort_key f x xs)) \<longleftrightarrow> g x \<notin> g ` set xs \<and> distinct (map g xs)"
  by (induction xs) (auto simp: set_insort_key)

text \<open>
  A join that can match at most once: when the elements satisfying \<open>P\<close> agree on a key
  that is unique in the list, collecting \<open>c\<close> for each of them yields \<open>c\<close> at most
  once.
\<close>

lemma concat_map_unique:
  assumes "distinct (map f xs)" and "\<forall>x \<in> set xs. \<forall>y \<in> set xs. P x \<longrightarrow> P y \<longrightarrow> f x = f y"
  shows "concat (map (\<lambda>x. if P x then [c] else []) xs) = (if \<exists>x \<in> set xs. P x then [c] else [])"
  using assms
proof (induction xs)
  case (Cons x xs)
  then have "\<not> (P x \<and> (\<exists>y \<in> set xs. P y))"
    by (metis distinct.simps(2) image_eqI list.set_intros(1,2) list.simps(9) set_map)
  with Cons show ?case by auto
qed simp

end
