(* ===== verification/ProblemDomain.thy ===== *)
theory ProblemDomain
  imports Complex_Main Prelude
begin

text \<open>
  The problem entity of \<open>internal/domain/problem/entity.go\<close> and the query options of
  \<open>internal/domain/problem/repository.go\<close>: the \<open>Topic\<close>, \<open>Problem\<close> and
  \<open>TestCase\<close> structs, \<open>NewProblem\<close>, \<open>AddTestCase\<close>, \<open>AddTopic\<close>,
  \<open>VisibleTestCases\<close> (the filter that decides which test cases the run flow executes)
  and \<open>CalculateAcceptanceRate\<close>. \<open>Difficulty\<close> and \<open>Category\<close> are Go string
  types, so they are strings and their constants are definitions. The acceptance rate is
  a \<open>float64\<close> in the code and a real number here: rounding is not modelled.
\<close>

section \<open>Data\<close>

type_synonym difficulty = string
type_synonym category = string

definition Easy :: difficulty where "Easy = ''Easy''"
definition Medium :: difficulty where "Medium = ''Medium''"
definition Hard :: difficulty where "Hard = ''Hard''"

definition CategoryAlgorithms :: category where "CategoryAlgorithms = ''algorithms''"
definition CategoryDatabase :: category where "CategoryDatabase = ''database''"
definition CategoryShell :: category where "CategoryShell = ''shell''"
definition CategoryConcurrency :: category where "CategoryConcurrency = ''concurrency''"
definition CategoryJavaScript :: category where "CategoryJavaScript = ''javascript''"

record topic =
  topic_id :: go_uint
  topic_name :: string
  topic_slug :: string
  topic_count :: go_int

record test_case =
  tc_id :: go_uint
  tc_problem_id :: go_uint
  tc_input :: string
  tc_expected :: string
  tc_is_hidden :: bool

record problem =
  p_id :: go_uint
  p_slug :: string
  p_title :: string
  p_difficulty :: difficulty
  p_category :: category
  p_description :: string
  p_examples :: string
  p_constraints :: string
  p_starter_code :: string
  p_acceptance_rate :: real
  p_submissions :: go_int
  p_accepted :: go_int
  p_topics :: "topic list"
  p_test_cases :: "test_case list"
  p_is_premium :: bool
  p_created_at :: go_time
  p_updated_at :: go_time

record find_options =
  fo_page :: go_int
  fo_limit :: go_int
  fo_difficulty :: difficulty
  fo_category :: category
  fo_topic_slug :: string
  fo_search :: string

section \<open>Operations\<close>

text \<open>
  \<open>NewProblem\<close> reads the clock twice, once per time stamp; the readings are the
  arguments \<open>now1\<close> and \<open>now2\<close>. Fields it does not set keep Go's zero values.
\<close>

definition NewProblem ::
  "string \<Rightarrow> string \<Rightarrow> difficulty \<Rightarrow> category \<Rightarrow> string \<Rightarrow> go_time \<Rightarrow> go_time \<Rightarrow> problem" where
  "NewProblem slug title difficulty category description now1 now2 =
     \<lparr>p_id = 0, p_slug = slug, p_title = title, p_difficulty = difficulty,
      p_category = category, p_description = description, p_examples = [],
      p_constraints = [], p_starter_code = [], p_acceptance_rate = 0, p_submissions = 0,
      p_accepted = 0, p_topics = [], p_test_cases = [], p_is_premium = False,
      p_created_at = now1, p_updated_at = now2\<rparr>"

definition AddTestCase :: "problem \<Rightarrow> string \<Rightarrow> string \<Rightarrow> bool \<Rightarrow> problem" where
  "AddTestCase p input expected isHidden =
     p\<lparr>p_test_cases := p_test_cases p @
        [\<lparr>tc_id = 0, tc_problem_id = p_id p, tc_input = input, tc_expected = expected,
          tc_is_hidden = isHidden\<rparr>]\<rparr>"

definition AddTopic :: "problem \<Rightarrow> topic \<Rightarrow> problem" where
  "AddTopic p t = p\<lparr>p_topics := p_topics p @ [t]\<rparr>"

text \<open>The loop of \<open>VisibleTestCases\<close>, appending to the slice \<open>visible\<close>.\<close>

fun visible_loop :: "test_case list \<Rightarrow> test_case list \<Rightarrow> test_case list" where
  "visible_loop visible [] = visible"
| "visible_loop visible (tc # tcs) =
     visible_loop (if \<not> tc_is_hidden tc then visible @ [tc] else visible) tcs"

definition VisibleTestCases :: "problem \<Rightarrow> test_case list" where
  "VisibleTestCases p = visible_loop [] (p_test_cases p)"

definition CalculateAcceptanceRate :: "problem \<Rightarrow> float64" where
  "CalculateAcceptanceRate p =
     (if p_submissions p = 0 then F64 0
      else go_fmul (go_fdiv (float64_of_int (p_accepted p)) (float64_of_int (p_submissions p))) (F64 100))"

definition DefaultFindOptions :: find_options where
  "DefaultFindOptions =
     \<lparr>fo_page = 1, fo_limit = 50, fo_difficulty = [], fo_category = [], fo_topic_slug = [],
      fo_search = []\<rparr>"

section \<open>Lemmas\<close>

lemma visible_loop_eq:
  "visible_loop visible tcs = visible @ filter (\<lambda>tc. \<not> tc_is_hidden tc) tcs"
  by (induction tcs arbitrary: visible) simp_all

lemma VisibleTestCases_eq [model_simps]:
  "VisibleTestCases p = filter (\<lambda>tc. \<not> tc_is_hidden tc) (p_test_cases p)"
  by (simp add: VisibleTestCases_def visible_loop_eq)

section \<open>Properties of problems\<close>

text \<open>
  \<open>VisibleTestCases\<close> keeps the test cases that are not hidden, all of them and only
  them, in their order: it is a subsequence of the problem's test cases with no hidden
  one, that misses no visible one.
\<close>

lemma VisibleTestCases_filter:
  "subseq (VisibleTestCases p) (p_test_cases p) \<and>
   (\<forall>tc \<in> set (VisibleTestCases p). \<not> tc_is_hidden tc) \<and>
   (\<forall>tc \<in> set (p_test_cases p). \<not> tc_is_hidden tc \<longrightarrow> tc \<in> set (VisibleTestCases p))"
  by (simp add: VisibleTestCases_eq)

text \<open>
  \<open>AddTestCase\<close> appends one test case, bound to the problem's
  identifier; it becomes visible exactly when it is not hidden, and the visible test cases
  before it are unchanged.
\<close>

theorem AddTestCase_visible:
  "p_test_cases (AddTestCase p input expected isHidden) =
     p_test_cases p @ [\<lparr>tc_id = 0, tc_problem_id = p_id p, tc_input = input,
                        tc_expected = expected, tc_is_hidden = isHidden\<rparr>] \<and>
   VisibleTestCases (AddTestCase p input expected isHidden) =
     VisibleTestCases p @
       (if isHidden then []
        else [\<lparr>tc_id = 0, tc_problem_id = p_id p, tc_input = input, tc_expected = expected,
               tc_is_hidden = False\<rparr>])"
  by (simp add: AddTestCase_def VisibleTestCases_eq)

text \<open>
  (C35) The acceptance rate is a finite percentage, never \<open>NaN\<close> or
  an infinity: it is \<open>0\<close> when there are no submissions (the guard of the code keeps
  \<open>0/0\<close> from being computed), and otherwise \<open>100 * Accepted / Submissions\<close>, which lies
  between 0 and 100 whenever the accepted count lies between 0 and the number of
  submissions.
\<close>

theorem CalculateAcceptanceRate_bounds:
  assumes "0 \<le> sint (p_accepted p)" and "sint (p_accepted p) \<le> sint (p_submissions p)"
  shows "\<exists>r. CalculateAcceptanceRate p = F64 r \<and> 0 \<le> r \<and> r \<le> 100 \<and>
             r = (if p_submissions p = 0 then 0
                  else of_int (sint (p_accepted p)) / of_int (sint (p_submissions p)) * 100)"
proof (cases "p_submissions p = 0")
  case True
  then show ?thesis by (simp add: CalculateAcceptanceRate_def)
next
  case False
  then have "sint (p_submissions p) \<noteq> 0"
    by (metis signed_word_eqI sint_0)
  then have pos: "0 < sint (p_submissions p)"
    using assms by linarith
  have ratio: "0 \<le> of_int a / (of_int b :: real) \<and> of_int a / (of_int b :: real) \<le> 1"
    if "0 \<le> a" "a \<le> b" "0 < b" for a b :: int
    using that by (simp add: divide_le_eq_1)
  define x where "x = (of_int (sint (p_accepted p)) / of_int (sint (p_submissions p)) :: real)"
  have "(signed (p_submissions p) :: real) \<noteq> 0"
    using \<open>sint (p_submissions p) \<noteq> 0\<close> by (metis of_int_sint of_int_eq_0_iff)
  then have rate: "CalculateAcceptanceRate p = F64 (x * 100)"
    using False by (simp add: CalculateAcceptanceRate_def float64_of_int_def x_def)
  have x: "0 \<le> x \<and> x \<le> 1"
    unfolding x_def by (rule ratio [OF assms pos])
  show ?thesis
  proof (intro exI conjI)
    show "CalculateAcceptanceRate p = F64 (x * 100)" by (rule rate)
    show "0 \<le> x * 100" and "x * 100 \<le> 100" using x by simp_all
    show "x * 100 = (if p_submissions p = 0 then 0
                     else of_int (sint (p_accepted p)) / of_int (sint (p_submissions p)) * 100)"
      using False by (simp add: x_def)
  qed
qed

section \<open>Witnesses\<close>

theorem CalculateAcceptanceRate_bounds_witness:
  "CalculateAcceptanceRate (NewProblem ''a'' ''A'' Easy CategoryShell [] 0 0
       \<lparr>p_submissions := 4, p_accepted := 3\<rparr>) = F64 75 \<and>
   CalculateAcceptanceRate (NewProblem ''a'' ''A'' Easy CategoryShell [] 0 0) = F64 0"
proof -
  have "\<exists>r. CalculateAcceptanceRate (NewProblem ''a'' ''A'' Easy CategoryShell [] 0 0
       \<lparr>p_submissions := 4, p_accepted := 3\<rparr>) = F64 r \<and> r = 3 / 4 * 100"
    using CalculateAcceptanceRate_bounds [of "NewProblem ''a'' ''A'' Easy CategoryShell [] 0 0
       \<lparr>p_submissions := 4, p_accepted := 3\<rparr>"]
    by (simp add: NewProblem_def)
  moreover have "\<exists>r. CalculateAcceptanceRate (NewProblem ''a'' ''A'' Easy CategoryShell [] 0 0) = F64 r \<and> r = 0"
    using CalculateAcceptanceRate_bounds [of "NewProblem ''a'' ''A'' Easy CategoryShell [] 0 0"]
    by (simp add: NewProblem_def)
  ultimately show ?thesis by auto
qed

end
