(* ===== verification/SubmissionDomain.thy ===== *)
theory SubmissionDomain
  imports Prelude
begin

text \<open>
  The submission entity of \<open>internal/domain/submission/entity.go\<close>: the status
  strings, the \<open>TestResult\<close> and \<open>Submission\<close> structs, the constructor
  \<open>NewSubmission\<close> and the methods that derive a submission's verdict from its test
  results (\<open>SetResults\<close>, \<open>calculateStatus\<close>, \<open>calculateTotalRuntime\<close>,
  \<open>PassedCount\<close>, \<open>TotalCount\<close>). This is the verdict aggregator of the judging engine.
  \<open>Status\<close> is a Go string type, so a status is a string and the six constants are
  definitions; a \<open>Runtime\<close> is a Go \<open>int\<close>, a 64-bit word that wraps on overflow.
\<close>

section \<open>Data\<close>

type_synonym status = string

definition StatusPending :: status where "StatusPending = ''Pending''"
definition StatusRunning :: status where "StatusRunning = ''Running''"
definition StatusAccepted :: status where "StatusAccepted = ''Accepted''"
definition StatusWrong :: status where "StatusWrong = ''Wrong Answer''"
definition StatusError :: status where "StatusError = ''Runtime Error''"
definition StatusTimeout :: status where "StatusTimeout = ''Time Limit Exceeded''"

lemmas status_defs = StatusPending_def StatusRunning_def StatusAccepted_def StatusWrong_def
  StatusError_def StatusTimeout_def

record test_result =
  tr_input :: string
  tr_expected :: string
  tr_actual :: string
  tr_passed :: bool
  tr_runtime :: go_int

record submission =
  sub_id :: string
  sub_problem_id :: go_uint
  sub_language :: string
  sub_code :: string
  sub_status :: status
  sub_runtime :: go_int
  sub_memory :: go_int
  sub_output :: string
  sub_results :: "test_result list"
  sub_created_at :: go_time

section \<open>Operations\<close>

text \<open>\<open>NewSubmission\<close>; the clock reading of \<open>time.Now()\<close> is the argument \<open>now\<close>.\<close>

definition NewSubmission :: "string \<Rightarrow> go_uint \<Rightarrow> string \<Rightarrow> string \<Rightarrow> go_time \<Rightarrow> submission" where
  "NewSubmission i problemID language code now =
     \<lparr>sub_id = i, sub_problem_id = problemID, sub_language = language, sub_code = code,
      sub_status = StatusPending, sub_runtime = 0, sub_memory = 0, sub_output = [],
      sub_results = [], sub_created_at = now\<rparr>"

text \<open>The loop of \<open>calculateStatus\<close>: the first failed result returns \<open>StatusWrong\<close>.\<close>

fun status_scan :: "test_result list \<Rightarrow> status" where
  "status_scan [] = StatusAccepted"
| "status_scan (r # rs) = (if \<not> tr_passed r then StatusWrong else status_scan rs)"

definition calculateStatus :: "submission \<Rightarrow> status" where
  "calculateStatus s = status_scan (sub_results s)"

text \<open>The loop of \<open>calculateTotalRuntime\<close>, with its accumulator \<open>total\<close> (named \<open>tot\<close>).\<close>

fun runtime_loop :: "go_int \<Rightarrow> test_result list \<Rightarrow> go_int" where
  "runtime_loop tot [] = tot"
| "runtime_loop tot (r # rs) = runtime_loop (tot + tr_runtime r) rs"

definition calculateTotalRuntime :: "submission \<Rightarrow> go_int" where
  "calculateTotalRuntime s = runtime_loop 0 (sub_results s)"

text \<open>
  \<open>SetResults\<close> stores the results first; the status and the runtime are then computed
  from the stored results, in this order.
\<close>

definition SetResults :: "submission \<Rightarrow> test_result list \<Rightarrow> submission" where
  "SetResults s results =
     (let s1 = s\<lparr>sub_results := results\<rparr>;
          s2 = s1\<lparr>sub_status := calculateStatus s1\<rparr>
      in s2\<lparr>sub_runtime := calculateTotalRuntime s2\<rparr>)"

text \<open>
  The loop of \<open>PassedCount\<close>. Its counter is a Go \<open>int\<close> that is incremented at most
  \<open>len(Results)\<close> times, so it cannot wrap; it is read as a \<open>nat\<close>, as is \<open>len\<close>.
\<close>

fun passed_loop :: "nat \<Rightarrow> test_result list \<Rightarrow> nat" where
  "passed_loop count [] = count"
| "passed_loop count (r # rs) = passed_loop (if tr_passed r then Suc count else count) rs"

definition PassedCount :: "submission \<Rightarrow> nat" where
  "PassedCount s = passed_loop 0 (sub_results s)"

definition TotalCount :: "submission \<Rightarrow> nat" where
  "TotalCount s = length (sub_results s)"

section \<open>The life cycle of a submission\<close>

text \<open>
  The only transitions the code makes on a submission: it is created by
  \<open>NewSubmission\<close> and its results are set by \<open>SetResults\<close> (the services call it
  once; nothing prevents a second call).
\<close>

inductive sub_reachable :: "submission \<Rightarrow> bool" where
  created: "sub_reachable (NewSubmission i pid lang code now)"
| results_set: "sub_reachable s \<Longrightarrow> sub_reachable (SetResults s rs)"

definition sub_consistent :: "submission \<Rightarrow> bool" where
  "sub_consistent s \<longleftrightarrow>
     sub_status s = calculateStatus s \<and> sub_runtime s = calculateTotalRuntime s"

section \<open>Lemmas\<close>

subsection \<open>The status scan and its reference\<close>

lemma status_strings_distinct [simp]:
  "StatusAccepted \<noteq> StatusWrong" "StatusWrong \<noteq> StatusAccepted"
  "StatusPending \<noteq> StatusAccepted" "StatusPending \<noteq> StatusWrong"
  "StatusAccepted \<noteq> StatusTimeout" "StatusWrong \<noteq> StatusTimeout"
  "StatusAccepted \<noteq> StatusError" "StatusWrong \<noteq> StatusError"
  "StatusAccepted \<noteq> StatusRunning" "StatusWrong \<noteq> StatusRunning"
  "StatusPending \<noteq> StatusTimeout" "StatusPending \<noteq> StatusError"
  "StatusPending \<noteq> StatusRunning"
  by (simp_all add: status_defs)

lemma status_scan_eq [model_simps]:
  "status_scan rs = (if list_all tr_passed rs then StatusAccepted else StatusWrong)"
  by (induction rs) simp_all

lemma runtime_loop_eq:
  "runtime_loop tot rs = tot + sum_list (map tr_runtime rs)"
  by (induction rs arbitrary: tot) (simp_all add: algebra_simps)

lemma passed_loop_eq:
  "passed_loop count rs = count + length (filter tr_passed rs)"
  by (induction rs arbitrary: count) simp_all

lemma calculateTotalRuntime_eq [model_simps]:
  "calculateTotalRuntime s = sum_list (map tr_runtime (sub_results s))"
  by (simp add: calculateTotalRuntime_def runtime_loop_eq)

lemma PassedCount_eq [model_simps]:
  "PassedCount s = length (filter tr_passed (sub_results s))"
  by (simp add: PassedCount_def passed_loop_eq)

subsection \<open>Setting the results\<close>

lemma SetResults_fields [model_simps]:
  "sub_results (SetResults s rs) = rs"
  "sub_status (SetResults s rs) = status_scan rs"
  "sub_runtime (SetResults s rs) = sum_list (map tr_runtime rs)"
  "sub_id (SetResults s rs) = sub_id s"
  "sub_problem_id (SetResults s rs) = sub_problem_id s"
  "sub_language (SetResults s rs) = sub_language s"
  "sub_code (SetResults s rs) = sub_code s"
  "sub_memory (SetResults s rs) = sub_memory s"
  "sub_output (SetResults s rs) = sub_output s"
  "sub_created_at (SetResults s rs) = sub_created_at s"
  by (simp_all add: SetResults_def calculateStatus_def calculateTotalRuntime_eq Let_def)

lemma SetResults_consistent: "sub_consistent (SetResults s rs)"
  by (simp add: sub_consistent_def SetResults_fields calculateStatus_def calculateTotalRuntime_eq)

lemma NewSubmission_fields [model_simps]:
  "sub_status (NewSubmission i pid lang code now) = StatusPending"
  "sub_results (NewSubmission i pid lang code now) = []"
  "sub_runtime (NewSubmission i pid lang code now) = 0"
  "sub_id (NewSubmission i pid lang code now) = i"
  "sub_problem_id (NewSubmission i pid lang code now) = pid"
  "sub_language (NewSubmission i pid lang code now) = lang"
  "sub_code (NewSubmission i pid lang code now) = code"
  "sub_created_at (NewSubmission i pid lang code now) = now"
  by (simp_all add: NewSubmission_def)

lemma status_scan_range: "status_scan rs = StatusAccepted \<or> status_scan rs = StatusWrong"
  by (simp add: status_scan_eq)

lemma SetResults_reach_inv:
  "sub_reachable s \<Longrightarrow>
   (sub_status s = StatusPending \<and> sub_results s = [] \<and> sub_runtime s = 0) \<or> sub_consistent s"
proof (induction rule: sub_reachable.induct)
  case (created i pid lang code now)
  then show ?case by (simp add: NewSubmission_fields)
next
  case (results_set s rs)
  then show ?case by (simp add: SetResults_consistent)
qed

section \<open>Properties of the verdict\<close>

text \<open>
  (C4) The scan of \<open>calculateStatus\<close> agrees with its
  reference: a submission is accepted exactly when every one of its results passed.
\<close>

theorem calculateStatus_accepted_iff:
  "calculateStatus s = StatusAccepted \<longleftrightarrow> list_all tr_passed (sub_results s)"
  by (simp add: calculateStatus_def status_scan_eq)

text \<open>
  (C12) \<open>calculateStatus\<close> only ever yields \<open>Accepted\<close> or
  \<open>Wrong Answer\<close>: \<open>Runtime Error\<close>, \<open>Time Limit Exceeded\<close>, \<open>Pending\<close> and
  \<open>Running\<close> are never the verdict of a submission whose results are set.
\<close>

theorem calculateStatus_range:
  "calculateStatus s \<in> {StatusAccepted, StatusWrong} \<and>
   calculateStatus s \<notin> {StatusError, StatusTimeout, StatusPending, StatusRunning}"
  using status_scan_range [of "sub_results s"]
  by (auto simp: calculateStatus_def) (simp_all add: status_defs)

text \<open>
  (C16) The total runtime is the wrapping 64-bit sum of the
  results' runtimes; read as a signed Go \<open>int\<close>, it is their mathematical sum whenever that
  sum fits into 64 bits, however the partial sums wrapped.
\<close>

theorem calculateTotalRuntime_sint:
  assumes "- (2 ^ 63) \<le> (\<Sum>r \<leftarrow> sub_results s. sint (tr_runtime r))"
    and "(\<Sum>r \<leftarrow> sub_results s. sint (tr_runtime r)) < 2 ^ 63"
  shows "sint (calculateTotalRuntime s) = (\<Sum>r \<leftarrow> sub_results s. sint (tr_runtime r))"
proof -
  have "sint (sum_list (map tr_runtime (sub_results s))) =
        sum_list (map sint (map tr_runtime (sub_results s)))"
    by (rule sint_sum_list) (use assms in \<open>simp_all add: comp_def\<close>)
  then show ?thesis
    by (simp add: calculateTotalRuntime_eq comp_def)
qed

text \<open>
  (C15) The count of passed results never exceeds the count of
  results, and the two are equal exactly when \<open>calculateStatus\<close> accepts.
\<close>

theorem PassedCount_TotalCount:
  "PassedCount s \<le> TotalCount s \<and>
   (PassedCount s = TotalCount s \<longleftrightarrow> calculateStatus s = StatusAccepted)"
  by (simp add: PassedCount_eq TotalCount_def calculateStatus_def status_scan_eq
      length_filter_eq_length_iff)

text \<open>
  (C17) In every submission the code can build, the status and the
  runtime agree with the stored results, unless it is a fresh submission, which is
  pending, with no results and zero runtime; no reachable submission is \<open>Running\<close>,
  \<open>Runtime Error\<close> or \<open>Time Limit Exceeded\<close>.
\<close>

theorem sub_reachable_consistent:
  assumes "sub_reachable s"
  shows "((sub_status s = StatusPending \<and> sub_results s = [] \<and> sub_runtime s = 0) \<or>
          sub_consistent s) \<and>
         sub_status s \<in> {StatusPending, StatusAccepted, StatusWrong}"
proof -
  have inv: "(sub_status s = StatusPending \<and> sub_results s = [] \<and> sub_runtime s = 0) \<or>
             sub_consistent s"
    using assms by (rule SetResults_reach_inv)
  then have "sub_status s \<in> {StatusPending, StatusAccepted, StatusWrong}"
    using status_scan_range [of "sub_results s"]
    by (auto simp: sub_consistent_def calculateStatus_def)
  with inv show ?thesis by blast
qed

text \<open>
  Setting results again leaves nothing of the earlier results:
  the status and runtime are those of the new results alone.
\<close>

theorem SetResults_overwrites:
  "SetResults (SetResults s rs) rs' = SetResults s rs'"
  by (simp add: SetResults_def calculateStatus_def calculateTotalRuntime_def Let_def)

section \<open>Witnesses\<close>

theorem calculateTotalRuntime_sint_witness:
  "sint (calculateTotalRuntime (SetResults (NewSubmission ''id'' 1 ''python'' ''pass'' 0)
      [\<lparr>tr_input = [], tr_expected = [], tr_actual = [], tr_passed = True, tr_runtime = 5\<rparr>,
       \<lparr>tr_input = [], tr_expected = [], tr_actual = [], tr_passed = False, tr_runtime = - 7\<rparr>])) = - 2"
  using calculateTotalRuntime_sint [of "SetResults (NewSubmission ''id'' 1 ''python'' ''pass'' 0)
      [\<lparr>tr_input = [], tr_expected = [], tr_actual = [], tr_passed = True, tr_runtime = 5\<rparr>,
       \<lparr>tr_input = [], tr_expected = [], tr_actual = [], tr_passed = False, tr_runtime = - 7\<rparr>]"]
  by (simp add: SetResults_fields)

theorem sub_reachable_consistent_witness:
  "sub_status (SetResults (NewSubmission ''id'' 1 ''go'' ''x'' 0)
      [\<lparr>tr_input = [], tr_expected = [], tr_actual = [], tr_passed = False, tr_runtime = 3\<rparr>])
     \<in> {StatusPending, StatusAccepted, StatusWrong}"
  using sub_reachable_consistent [OF sub_reachable.results_set [OF sub_reachable.created,
      of "''id''" 1 "''go''" "''x''" 0
      "[\<lparr>tr_input = [], tr_expected = [], tr_actual = [], tr_passed = False, tr_runtime = 3\<rparr>]"]]
  by blast

end
