(* ===== verification/Repositories.thy ===== *)
theory Repositories
  imports ProblemDomain SubmissionDomain
begin

text \<open>
  The repository interfaces of \<open>internal/domain/problem/repository.go\<close> and
  \<open>internal/domain/submission/repository.go\<close>, as records of operations over an
  abstract store \<open>'s\<close>: a read returns a value or an error, a write a new store or an
  error. A Go \<open>error\<close> returned by a repository is a \<open>store_error\<close>. The
  \<open>context.Context\<close> argument of every method carries no data the model uses and is
  left out; the clock readings GORM takes inside \<open>Create\<close>, \<open>Update\<close> and
  \<open>Delete\<close> are the argument \<open>now\<close>. \<open>Create\<close> writes the assigned identifier back
  through its pointer argument, so the model returns the updated problem.
\<close>

section \<open>Errors\<close>

datatype store_error = RecordNotFound | DuplicateKey | DbFailure string

section \<open>Interfaces\<close>

record 's problem_repo =
  pr_find_all :: "'s \<Rightarrow> find_options \<Rightarrow> store_error + (problem list \<times> go_int)"
  pr_find_by_slug :: "'s \<Rightarrow> string \<Rightarrow> store_error + problem"
  pr_find_by_id :: "'s \<Rightarrow> go_uint \<Rightarrow> store_error + problem"
  pr_create :: "'s \<Rightarrow> go_time \<Rightarrow> problem \<Rightarrow> store_error + (problem \<times> 's)"
  pr_update :: "'s \<Rightarrow> go_time \<Rightarrow> problem \<Rightarrow> store_error + 's"
  pr_delete :: "'s \<Rightarrow> go_time \<Rightarrow> go_uint \<Rightarrow> store_error + 's"
  pr_get_topics :: "'s \<Rightarrow> store_error + topic list"

record 's submission_repo =
  sr_find_by_id :: "'s \<Rightarrow> string \<Rightarrow> store_error + submission"
  sr_create :: "submission \<Rightarrow> 's \<Rightarrow> store_error + 's"
  sr_update :: "submission \<Rightarrow> 's \<Rightarrow> store_error + 's"

section \<open>Contracts\<close>

text \<open>
  What a client needs of a submission repository to get back what it stored: after a
  successful \<open>Create\<close>, \<open>FindByID\<close> on the new store returns the submission as the
  repository represents it, \<open>normal\<close> of it. An in-memory map has \<open>normal = id\<close>; the
  SQLite repository has a \<open>normal\<close> that forgets what its table does not keep.
\<close>

definition create_find_contract :: "'s submission_repo \<Rightarrow> (submission \<Rightarrow> submission) \<Rightarrow> bool" where
  "create_find_contract repo normal \<longleftrightarrow>
     (\<forall>sub st st'. sr_create repo sub st = Inr st' \<longrightarrow> sr_find_by_id repo st' (sub_id sub) = Inr (normal sub))"

text \<open>
  What a client of the problem repository relies on when it reads a problem by slug:
  the problem found carries the slug asked for.
\<close>

definition slug_contract :: "'s problem_repo \<Rightarrow> bool" where
  "slug_contract repo \<longleftrightarrow>
     (\<forall>st slug p. pr_find_by_slug repo st slug = Inr p \<longrightarrow> p_slug p = slug)"

end
