(* ===== verification/SubmissionService.thy ===== *)
theory SubmissionService
  imports Repositories
begin

text \<open>
  The submission use cases of \<open>internal/application/submission/service.go\<close>:
  \<open>RunCode\<close> (run against the visible test cases), \<open>SubmitCode\<close> (run against all of
  them) and \<open>GetSubmission\<close>. The service talks to three interfaces, and so does the
  model: the two repositories are the records of \<open>Repositories\<close>, and the
  \<open>CodeExecutor\<close> interface is a function from language, code and test cases to
  results. The lemmas here hold for every implementation; the SQLite theories and
  \<open>Executor\<close> provide the implementations, and the root theory composes them.
\<close>

section \<open>Interfaces\<close>

type_synonym code_executor = "string \<Rightarrow> string \<Rightarrow> test_case list \<Rightarrow> test_result list"

record 's Service =
  svc_submission_repo :: "'s submission_repo"
  svc_problem_repo :: "'s problem_repo"
  svc_executor :: code_executor

section \<open>Operations\<close>

definition NewService :: "'s submission_repo \<Rightarrow> 's problem_repo \<Rightarrow> code_executor \<Rightarrow> 's Service" where
  "NewService submissionRepo problemRepo executor =
     \<lparr>svc_submission_repo = submissionRepo, svc_problem_repo = problemRepo,
      svc_executor = executor\<rparr>"

text \<open>
  \<open>RunCode\<close> and \<open>SubmitCode\<close> take the fresh \<open>uuid.New().String()\<close> and the clock
  reading of \<open>NewSubmission\<close> as the arguments \<open>uid\<close> and \<open>now\<close>. The store is
  threaded: the problem is read from \<open>st\<close>, the submission created in it.
\<close>

definition RunCode ::
  "'s Service \<Rightarrow> 's \<Rightarrow> string \<Rightarrow> go_time \<Rightarrow> go_uint \<Rightarrow> string \<Rightarrow> string \<Rightarrow>
   store_error + (submission \<times> 's)" where
  "RunCode s st uid now problemID language code =
     (case pr_find_by_id (svc_problem_repo s) st problemID of
        Inl err \<Rightarrow> Inl err
      | Inr problem \<Rightarrow>
          (let visibleTests = VisibleTestCases problem;
               submission = NewSubmission uid problemID language code now;
               results = svc_executor s language code visibleTests;
               submission = SetResults submission results
           in case sr_create (svc_submission_repo s) submission st of
                Inl err \<Rightarrow> Inl err
              | Inr st' \<Rightarrow> Inr (submission, st')))"

definition SubmitCode ::
  "'s Service \<Rightarrow> 's \<Rightarrow> string \<Rightarrow> go_time \<Rightarrow> go_uint \<Rightarrow> string \<Rightarrow> string \<Rightarrow>
   store_error + (submission \<times> 's)" where
  "SubmitCode s st uid now problemID language code =
     (case pr_find_by_id (svc_problem_repo s) st problemID of
        Inl err \<Rightarrow> Inl err
      | Inr problem \<Rightarrow>
          (let submission = NewSubmission uid problemID language code now;
               results = svc_executor s language code (p_test_cases problem);
               submission = SetResults submission results
           in case sr_create (svc_submission_repo s) submission st of
                Inl err \<Rightarrow> Inl err
              | Inr st' \<Rightarrow> Inr (submission, st')))"

definition GetSubmission :: "'s Service \<Rightarrow> 's \<Rightarrow> string \<Rightarrow> store_error + submission" where
  "GetSubmission s st i = sr_find_by_id (svc_submission_repo s) st i"

section \<open>An in-memory store\<close>

text \<open>
  A store of problems by identifier and submissions by identifier, with repositories that
  read and write it; creating a submission whose identifier is taken fails, as the primary
  key of the \<open>submissions\<close> table makes it fail. Used to exercise the service, which
  only reads problems by identifier: the other problem operations of this test double
  fail.
\<close>

type_synonym mem_store = "(go_uint \<rightharpoonup> problem) \<times> (string \<rightharpoonup> submission)"

definition mem_problem_repo :: "mem_store problem_repo" where
  "mem_problem_repo =
     \<lparr>pr_find_all = (\<lambda>st opts. Inl (DbFailure ''unsupported'')),
      pr_find_by_slug = (\<lambda>st slug. Inl (DbFailure ''unsupported'')),
      pr_find_by_id = (\<lambda>st i. case fst st i of None \<Rightarrow> Inl RecordNotFound | Some p \<Rightarrow> Inr p),
      pr_create = (\<lambda>st now p. Inl (DbFailure ''unsupported'')),
      pr_update = (\<lambda>st now p. Inl (DbFailure ''unsupported'')),
      pr_delete = (\<lambda>st now i. Inl (DbFailure ''unsupported'')),
      pr_get_topics = (\<lambda>st. Inl (DbFailure ''unsupported''))\<rparr>"

definition mem_submission_repo :: "mem_store submission_repo" where
  "mem_submission_repo =
     \<lparr>sr_find_by_id = (\<lambda>st i. case snd st i of None \<Rightarrow> Inl RecordNotFound | Some sub \<Rightarrow> Inr sub),
      sr_create = (\<lambda>sub st. if sub_id sub \<in> dom (snd st) then Inl DuplicateKey
                             else Inr (fst st, (snd st)(sub_id sub \<mapsto> sub))),
      sr_update = (\<lambda>sub st. Inr (fst st, (snd st)(sub_id sub \<mapsto> sub)))\<rparr>"

text \<open>
  A demonstration: an executor that reports every test case as passed in 1 ms, and a
  store holding problem 1 with one hidden and one visible test case.
\<close>

definition echo_executor :: code_executor where
  "echo_executor language code tcs =
     map (\<lambda>tc. \<lparr>tr_input = tc_input tc, tr_expected = tc_expected tc, tr_actual = tc_expected tc,
                tr_passed = True, tr_runtime = 1\<rparr>) tcs"

definition demo_problem :: problem where
  "demo_problem =
     AddTestCase (AddTestCase (NewProblem ''two-sum'' ''Two Sum'' ''Easy'' ''algorithms'' [] 0 0)
       ''[3,3],6'' ''[0,1]'' True) ''[2,7,11,15],9'' ''[0,1]'' False"

definition demo_store :: mem_store where
  "demo_store = ([1 \<mapsto> demo_problem], Map.empty)"

definition demo_service :: "mem_store Service" where
  "demo_service = NewService mem_submission_repo mem_problem_repo echo_executor"

lemmas demo_defs = echo_executor_def demo_problem_def demo_store_def demo_service_def
  NewService_def mem_problem_repo_def mem_submission_repo_def AddTestCase_def NewProblem_def

section \<open>Lemmas\<close>

lemma RunCode_Inr:
  "RunCode s st uid now pid language code = Inr (sub, st') \<longleftrightarrow>
   (\<exists>p. pr_find_by_id (svc_problem_repo s) st pid = Inr p \<and>
        sub = SetResults (NewSubmission uid pid language code now)
                (svc_executor s language code (VisibleTestCases p)) \<and>
        sr_create (svc_submission_repo s) sub st = Inr st')"
  by (auto simp: RunCode_def Let_def split: sum.splits)

lemma SubmitCode_Inr:
  "SubmitCode s st uid now pid language code = Inr (sub, st') \<longleftrightarrow>
   (\<exists>p. pr_find_by_id (svc_problem_repo s) st pid = Inr p \<and>
        sub = SetResults (NewSubmission uid pid language code now)
                (svc_executor s language code (p_test_cases p)) \<and>
        sr_create (svc_submission_repo s) sub st = Inr st')"
  by (auto simp: SubmitCode_def Let_def split: sum.splits)

lemma mem_submission_repo_contract: "create_find_contract mem_submission_repo id"
  by (simp add: create_find_contract_def mem_submission_repo_def split: if_splits)

section \<open>Properties of the service\<close>

text \<open>
  (C18) When the problem cannot be read, \<open>RunCode\<close> and
  \<open>SubmitCode\<close> return the repository's error and create no submission.
\<close>

theorem RunCode_not_found:
  assumes "pr_find_by_id (svc_problem_repo s) st pid = Inl err"
  shows "RunCode s st uid now pid language code = Inl err \<and>
         SubmitCode s st uid now pid language code = Inl err"
  using assms by (simp add: RunCode_def SubmitCode_def)

text \<open>
  (C19) \<open>RunCode\<close> hands the executor exactly the visible test cases of
  the problem, in their order, and \<open>SubmitCode\<close> all of them; the submission returned
  carries the executor's results, with its status and runtime derived from them.
\<close>

theorem RunCode_runs_visible:
  assumes "pr_find_by_id (svc_problem_repo s) st pid = Inr p"
  shows "(RunCode s st uid now pid language code = Inr (sub, st') \<longrightarrow>
           sub_results sub = svc_executor s language code (filter (\<lambda>tc. \<not> tc_is_hidden tc) (p_test_cases p)) \<and>
           sub_consistent sub) \<and>
         (SubmitCode s st uid now pid language code = Inr (sub, st') \<longrightarrow>
           sub_results sub = svc_executor s language code (p_test_cases p) \<and> sub_consistent sub)"
  using assms
  by (auto simp: RunCode_Inr SubmitCode_Inr SetResults_fields VisibleTestCases_eq
      SetResults_consistent)

text \<open>
  The client side of the repository interface: with a submission repository that meets
  \<open>create_find_contract\<close>, \<open>GetSubmission\<close> with the new submission's identifier
  returns the submission \<open>SubmitCode\<close> (or \<open>RunCode\<close>) returned, as the
  repository represents it. The implementations discharge the contract:
  \<open>mem_submission_repo_contract\<close> here, \<open>SqliteRepo.sqlite_submission_contract\<close>
  for the SQLite table.
\<close>

lemma SubmitCode_get_contract:
  assumes "create_find_contract (svc_submission_repo s) normal"
  shows "(SubmitCode s st uid now pid language code = Inr (sub, st') \<longrightarrow>
            GetSubmission s st' uid = Inr (normal sub)) \<and>
         (RunCode s st uid now pid language code = Inr (sub, st') \<longrightarrow>
            GetSubmission s st' uid = Inr (normal sub))"
proof -
  have key: "GetSubmission s st' uid = Inr (normal sub)"
    if "sr_create (svc_submission_repo s) sub st = Inr st'"
      and "sub = SetResults (NewSubmission uid pid language code now) rs" for sub st' rs
  proof -
    have "sub_id sub = uid"
      using that(2) by (simp add: SetResults_fields NewSubmission_fields)
    with assms that(1) show ?thesis
      unfolding create_find_contract_def GetSubmission_def by metis
  qed
  show ?thesis
    by (auto simp: SubmitCode_Inr RunCode_Inr intro: key)
qed

text \<open>
  (C25) When the submission cannot be created, \<open>SubmitCode\<close>
  returns the repository's error even though the code has already been executed, and the
  store is left as it was.
\<close>

theorem SubmitCode_create_fails:
  assumes "pr_find_by_id (svc_problem_repo s) st pid = Inr p"
    and "sr_create (svc_submission_repo s)
           (SetResults (NewSubmission uid pid language code now)
              (svc_executor s language code (p_test_cases p))) st = Inl err"
  shows "SubmitCode s st uid now pid language code = Inl err"
  using assms by (simp add: SubmitCode_def)

section \<open>Witnesses\<close>

lemma demo_runs:
  "\<exists>x. RunCode demo_service demo_store ''u1'' 0 1 ''python'' ''pass'' = Inr x"
  "\<exists>x. SubmitCode demo_service demo_store ''u1'' 0 1 ''python'' ''pass'' = Inr x"
  by (simp_all add: RunCode_def SubmitCode_def demo_defs Let_def SetResults_fields
      NewSubmission_fields)

theorem RunCode_not_found_witness:
  "RunCode demo_service demo_store ''u1'' 0 7 ''python'' ''pass'' = Inl RecordNotFound \<and>
   SubmitCode demo_service demo_store ''u1'' 0 7 ''python'' ''pass'' = Inl RecordNotFound"
  by (rule RunCode_not_found) (simp add: demo_defs)

theorem RunCode_runs_visible_witness:
  "\<exists>sub st'. RunCode demo_service demo_store ''u1'' 0 1 ''python'' ''pass'' = Inr (sub, st') \<and>
     map tr_input (sub_results sub) = [''[2,7,11,15],9'']"
proof -
  obtain sub st' where r: "RunCode demo_service demo_store ''u1'' 0 1 ''python'' ''pass'' = Inr (sub, st')"
    using demo_runs(1) by auto
  have "pr_find_by_id (svc_problem_repo demo_service) demo_store 1 = Inr demo_problem"
    by (simp add: demo_defs)
  then have "sub_results sub =
      svc_executor demo_service ''python'' ''pass'' (filter (\<lambda>tc. \<not> tc_is_hidden tc) (p_test_cases demo_problem))"
    using RunCode_runs_visible [of demo_service demo_store 1 demo_problem] r by blast
  then have "map tr_input (sub_results sub) = [''[2,7,11,15],9'']"
    by (simp add: demo_defs)
  with r show ?thesis by (intro exI conjI)
qed

theorem SubmitCode_create_fails_witness:
  "SubmitCode demo_service (fst demo_store, [''u1'' \<mapsto> NewSubmission ''u1'' 1 ''go'' [] 0])
     ''u1'' 0 1 ''python'' ''pass'' = Inl DuplicateKey"
  by (rule SubmitCode_create_fails [where p = demo_problem])
     (simp_all add: demo_defs SetResults_fields NewSubmission_fields)

end
