(* ===== verification/ProblemService.thy ===== *)
theory ProblemService
  imports Repositories
begin

text \<open>
  The problem use cases of \<open>internal/application/problem/service.go\<close>: \<open>ListProblems\<close>
  and \<open>GetTopics\<close> pass through to the repository, \<open>GetProblemWithAllTests\<close> reads by
  identifier, and \<open>GetProblem\<close> reads by slug and keeps only the visible test cases,
  the filter that keeps hidden test cases out of the public API. The service is stated
  over the repository interface of \<open>Repositories\<close>, so its lemmas hold for every
  implementation.
\<close>

section \<open>Service\<close>

record 's problem_service =
  ps_repo :: "'s problem_repo"

definition NewProblemService :: "'s problem_repo \<Rightarrow> 's problem_service" where
  "NewProblemService repo = \<lparr>ps_repo = repo\<rparr>"

definition ListProblems ::
  "'s problem_service \<Rightarrow> 's \<Rightarrow> find_options \<Rightarrow> store_error + (problem list \<times> go_int)" where
  "ListProblems s st opts = pr_find_all (ps_repo s) st opts"

definition GetProblem :: "'s problem_service \<Rightarrow> 's \<Rightarrow> string \<Rightarrow> store_error + problem" where
  "GetProblem s st slug =
     (case pr_find_by_slug (ps_repo s) st slug of
        Inl err \<Rightarrow> Inl err
      | Inr problem \<Rightarrow> Inr (problem\<lparr>p_test_cases := VisibleTestCases problem\<rparr>))"

definition GetProblemWithAllTests :: "'s problem_service \<Rightarrow> 's \<Rightarrow> go_uint \<Rightarrow> store_error + problem" where
  "GetProblemWithAllTests s st i = pr_find_by_id (ps_repo s) st i"

definition GetTopics :: "'s problem_service \<Rightarrow> 's \<Rightarrow> store_error + topic list" where
  "GetTopics s st = pr_get_topics (ps_repo s) st"

section \<open>Lemmas\<close>

lemma GetProblem_Inr:
  "GetProblem s st slug = Inr p \<longleftrightarrow>
   (\<exists>q. pr_find_by_slug (ps_repo s) st slug = Inr q \<and> p = q\<lparr>p_test_cases := VisibleTestCases q\<rparr>)"
  by (auto simp: GetProblem_def split: sum.splits)

lemma GetProblem_Inl:
  "GetProblem s st slug = Inl err \<longleftrightarrow> pr_find_by_slug (ps_repo s) st slug = Inl err"
  by (auto simp: GetProblem_def split: sum.splits)

end
