(* ===== verification/HttpResponses.thy ===== *)
theory HttpResponses
  imports SubmissionService ProblemService "HOL-Library.List_Lexorder" "HOL-Library.Char_ord"
begin

text \<open>
  The response side of \<open>internal/interfaces/http\<close>: the response structs of
  \<open>submission_handler.go\<close> (\<open>SubmissionResponse\<close>, \<open>TestResultResponse\<close>) and
  \<open>problem_handler.go\<close> (\<open>ProblemResponse\<close>, \<open>TopicResponse\<close>,
  \<open>TestCaseResponse\<close>), the mappers \<open>toSubmissionResponse\<close> and \<open>toProblemResponse\<close>,
  and the JSON value Gin's \<open>c.JSON\<close> writes for each: struct fields in declaration
  order under their \<open>json\<close> tags, a field tagged \<open>omitempty\<close> left out when it is
  \<open>0\<close>, \<open>""\<close>, \<open>false\<close> or an empty or \<open>nil\<close> slice, and the keys of a \<open>gin.H\<close>
  map sorted byte-wise, as \<open>encoding/json\<close> sorts map keys. A response is a status code
  and a body; the body is the JSON value, not its text (the text is
  \<open>encoding/json\<close>'s, see \<open>GoJson\<close>).
\<close>

section \<open>JSON values and responses\<close>

datatype json =
    JNull
  | JBool bool
  | JInt int
  | JFloat real
  | JString string
  | JArray "json list"
  | JObject "(string \<times> json) list"

datatype http_body = NoBody | JsonBody json | TextBody string

record http_response =
  resp_status :: nat
  resp_body :: http_body

text \<open>\<open>gin.H\<close>, a \<open>map[string]any\<close>: \<open>encoding/json\<close> writes its keys in sorted order.\<close>

definition gin_H :: "(string \<times> json) list \<Rightarrow> json" where
  "gin_H kvs = JObject (sort_key fst kvs)"

definition c_JSON :: "nat \<Rightarrow> json \<Rightarrow> http_response" where
  "c_JSON code j = \<lparr>resp_status = code, resp_body = JsonBody j\<rparr>"

definition error_json :: "string \<Rightarrow> json" where
  "error_json msg = gin_H [(''error'', JString msg)]"

definition StatusOK :: nat where "StatusOK = 200"
definition StatusBadRequest :: nat where "StatusBadRequest = 400"
definition StatusNotFound :: nat where "StatusNotFound = 404"
definition StatusInternalServerError :: nat where "StatusInternalServerError = 500"

lemmas status_code_defs = StatusOK_def StatusBadRequest_def StatusNotFound_def
  StatusInternalServerError_def

text \<open>
  \<open>err.Error()\<close> of a repository error: GORM's \<open>ErrRecordNotFound\<close> reads
  \<open>record not found\<close>; SQLite's unique-index error starts with
  \<open>UNIQUE constraint failed\<close> (it goes on with the table and column, which the model of
  the error does not keep).
\<close>

definition store_error_message :: "store_error \<Rightarrow> string" where
  "store_error_message e =
     (case e of RecordNotFound \<Rightarrow> ''record not found''
      | DuplicateKey \<Rightarrow> ''UNIQUE constraint failed''
      | DbFailure m \<Rightarrow> m)"

text \<open>The fields of a struct, with \<open>omitempty\<close> written out per field.\<close>

definition omitempty :: "string \<Rightarrow> json \<Rightarrow> bool \<Rightarrow> (string \<times> json) list" where
  "omitempty k v is_empty = (if is_empty then [] else [(k, v)])"

section \<open>Submissions\<close>

record TestResultResponse =
  trr_input :: string
  trr_expected :: string
  trr_actual :: string
  trr_passed :: bool
  trr_runtime :: go_int

record SubmissionResponse =
  sresp_submission_id :: string
  sresp_status :: string
  sresp_passed :: go_int
  sresp_total :: go_int
  sresp_results :: "TestResultResponse list"

definition toTestResultResponse :: "test_result \<Rightarrow> TestResultResponse" where
  "toTestResultResponse r =
     \<lparr>trr_input = tr_input r, trr_expected = tr_expected r, trr_actual = tr_actual r,
      trr_passed = tr_passed r, trr_runtime = tr_runtime r\<rparr>"

definition toSubmissionResponse :: "submission \<Rightarrow> SubmissionResponse" where
  "toSubmissionResponse s =
     \<lparr>sresp_submission_id = sub_id s, sresp_status = sub_status s, sresp_passed = 0,
      sresp_total = 0, sresp_results = map toTestResultResponse (sub_results s)\<rparr>"

definition test_result_response_json :: "TestResultResponse \<Rightarrow> json" where
  "test_result_response_json r =
     JObject [(''input'', JString (trr_input r)), (''expected'', JString (trr_expected r)),
              (''actual'', JString (trr_actual r)), (''passed'', JBool (trr_passed r)),
              (''runtime'', JInt (sint (trr_runtime r)))]"

definition submission_response_json :: "SubmissionResponse \<Rightarrow> json" where
  "submission_response_json r =
     JObject ([(''submissionId'', JString (sresp_submission_id r)), (''status'', JString (sresp_status r))]
              @ omitempty ''passed'' (JInt (sint (sresp_passed r))) (sresp_passed r = 0)
              @ omitempty ''total'' (JInt (sint (sresp_total r))) (sresp_total r = 0)
              @ [(''results'', JArray (map test_result_response_json (sresp_results r)))])"

section \<open>Problems\<close>

record TopicResponse =
  tresp_id :: go_uint
  tresp_name :: string
  tresp_slug :: string
  tresp_count :: go_int

record TestCaseResponse =
  tcresp_id :: go_uint
  tcresp_input :: string
  tcresp_expected :: string

record ProblemResponse =
  presp_id :: go_uint
  presp_slug :: string
  presp_title :: string
  presp_difficulty :: string
  presp_category :: string
  presp_acceptance_rate :: real
  presp_is_premium :: bool
  presp_description :: string
  presp_examples :: string
  presp_constraints :: string
  presp_starter_code :: string
  presp_topics :: "TopicResponse list"
  presp_test_cases :: "TestCaseResponse list"

text \<open>
  \<open>toProblemResponse\<close>: topics without their counts; the description, examples,
  constraints, starter code and test cases only with \<open>includeDetails\<close>. Go's \<open>nil\<close>
  and empty slices are both the empty list; \<open>omitempty\<close> leaves both out.
\<close>

definition toProblemResponse :: "problem \<Rightarrow> bool \<Rightarrow> ProblemResponse" where
  "toProblemResponse p includeDetails =
     (let resp = \<lparr>presp_id = p_id p, presp_slug = p_slug p, presp_title = p_title p,
                  presp_difficulty = p_difficulty p, presp_category = p_category p,
                  presp_acceptance_rate = p_acceptance_rate p, presp_is_premium = p_is_premium p,
                  presp_description = [], presp_examples = [], presp_constraints = [],
                  presp_starter_code = [], presp_topics = [], presp_test_cases = []\<rparr>;
          resp = (if length (p_topics p) > 0 then
                    resp\<lparr>presp_topics := map (\<lambda>t. \<lparr>tresp_id = topic_id t, tresp_name = topic_name t,
                                                    tresp_slug = topic_slug t, tresp_count = 0\<rparr>) (p_topics p)\<rparr>
                  else resp)
      in if includeDetails then
           resp\<lparr>presp_description := p_description p, presp_examples := p_examples p,
                presp_constraints := p_constraints p, presp_starter_code := p_starter_code p,
                presp_test_cases := map (\<lambda>tc. \<lparr>tcresp_id = tc_id tc, tcresp_input = tc_input tc,
                                                 tcresp_expected = tc_expected tc\<rparr>) (p_test_cases p)\<rparr>
         else resp)"

definition topic_response_json :: "TopicResponse \<Rightarrow> json" where
  "topic_response_json t =
     JObject ([(''id'', JInt (int (tresp_id t))), (''name'', JString (tresp_name t)),
               (''slug'', JString (tresp_slug t))]
              @ omitempty ''count'' (JInt (sint (tresp_count t))) (tresp_count t = 0))"

definition test_case_response_json :: "TestCaseResponse \<Rightarrow> json" where
  "test_case_response_json tc =
     JObject [(''id'', JInt (int (tcresp_id tc))), (''input'', JString (tcresp_input tc)),
              (''expected'', JString (tcresp_expected tc))]"

definition problem_response_json :: "ProblemResponse \<Rightarrow> json" where
  "problem_response_json r =
     JObject ([(''id'', JInt (int (presp_id r))), (''slug'', JString (presp_slug r)),
               (''title'', JString (presp_title r)), (''difficulty'', JString (presp_difficulty r))]
              @ omitempty ''category'' (JString (presp_category r)) (presp_category r = [])
              @ [(''acceptanceRate'', JFloat (presp_acceptance_rate r)), (''isPremium'', JBool (presp_is_premium r))]
              @ omitempty ''description'' (JString (presp_description r)) (presp_description r = [])
              @ omitempty ''examples'' (JString (presp_examples r)) (presp_examples r = [])
              @ omitempty ''constraints'' (JString (presp_constraints r)) (presp_constraints r = [])
              @ omitempty ''starterCode'' (JString (presp_starter_code r)) (presp_starter_code r = [])
              @ omitempty ''topics'' (JArray (map topic_response_json (presp_topics r))) (presp_topics r = [])
              @ omitempty ''testCases'' (JArray (map test_case_response_json (presp_test_cases r)))
                  (presp_test_cases r = []))"

end
