(* ===== verification/GoJson.thy ===== *)
theory GoJson
  imports Prelude
begin

text \<open>
  The parts of Go's standard library that turn values into text and back where the
  program relies on them: \<open>strconv.Itoa\<close> and \<open>strconv.Atoi\<close> (query parameters, JSON
  numbers), \<open>unicode/utf8\<close>'s decoding of one character, and the string escaping of
  \<open>encoding/json\<close> with the unquoting of its decoder. The encoder follows
  \<open>encodeState.string\<close> with \<open>escapeHTML\<close> set, as \<open>json.Marshal\<close> does: \<open>"\<close> and
  \<open>\\\<close> are escaped, \<open>\b \f \n \r \t\<close> get their short escapes (Go 1.22 and later),
  other control bytes and \<open>< > &\<close> become \<open>\u00XX\<close>, U+2028 and U+2029 become
  the escapes \<open>\u2028\<close> and \<open>\u2029\<close>, and every byte that does not start a
  well-formed UTF-8 sequence becomes the escape \<open>\ufffd\<close>. The decoder follows \<open>unquote\<close>: the escapes above,
  \<open>\/\<close>, \<open>\uXXXX\<close> with surrogate pairs, and U+FFFD for every malformed byte.
  Strings are byte lists, one \<open>char\<close> per byte.
\<close>

section \<open>Decimal integers\<close>

fun nat_digits :: "nat \<Rightarrow> string" where
  "nat_digits n = (if n < 10 then [char_of (48 + n)] else nat_digits (n div 10) @ [char_of (48 + n mod 10)])"

declare nat_digits.simps [simp del]

definition go_itoa :: "int \<Rightarrow> string" where
  "go_itoa i = (if i < 0 then CHR ''-'' # nat_digits (nat (- i)) else nat_digits (nat i))"

definition is_digit :: "char \<Rightarrow> bool" where
  "is_digit c \<longleftrightarrow> (48::nat) \<le> of_char c \<and> of_char c \<le> (57::nat)"

definition digits_value :: "string \<Rightarrow> nat" where
  "digits_value s = foldl (\<lambda>a c. 10 * a + (of_char c - 48)) 0 s"

text \<open>
  \<open>strconv.Atoi\<close> on a 64-bit platform: an optional sign and at least one decimal digit,
  and a value that fits in \<open>int\<close>; anything else is an error.
\<close>

definition go_atoi :: "string \<Rightarrow> go_int option" where
  "go_atoi s =
     (let (neg, ds) = (case s of c # r \<Rightarrow> if c = CHR ''-'' then (True, r)
                                         else if c = CHR ''+'' then (False, r) else (False, s)
                               | [] \<Rightarrow> (False, []));
          v = (if neg then - int (digits_value ds) else int (digits_value ds))
      in if ds = [] \<or> \<not> list_all is_digit ds then None
         else if v < - (2 ^ 63) \<or> 2 ^ 63 \<le> v then None
         else Some (word_of_int v))"

section \<open>UTF-8\<close>

definition byte_in :: "nat \<Rightarrow> nat \<Rightarrow> char \<Rightarrow> bool" where
  "byte_in lo hi c \<longleftrightarrow> lo \<le> (of_char c :: nat) \<and> (of_char c :: nat) \<le> hi"

text \<open>
  The length of the well-formed UTF-8 sequence that starts the string, as
  \<open>utf8.DecodeRune\<close> accepts it (no overlong forms, no surrogates, nothing above
  U+10FFFF), and 0 when the first byte does not start one.
\<close>

definition utf8_seq_len :: "string \<Rightarrow> nat" where
  "utf8_seq_len s =
     (case s of [] \<Rightarrow> 0
      | c # t \<Rightarrow>
          (let b = of_char c :: nat;
               cont = (\<lambda>k lo hi. k < length t \<and> byte_in lo hi (t ! k))
           in if b < 128 then 1
              else if 194 \<le> b \<and> b \<le> 223 then (if cont 0 128 191 then 2 else 0)
              else if b = 224 then (if cont 0 160 191 \<and> cont 1 128 191 then 3 else 0)
              else if (225 \<le> b \<and> b \<le> 236) \<or> b = 238 \<or> b = 239 then
                (if cont 0 128 191 \<and> cont 1 128 191 then 3 else 0)
              else if b = 237 then (if cont 0 128 159 \<and> cont 1 128 191 then 3 else 0)
              else if b = 240 then (if cont 0 144 191 \<and> cont 1 128 191 \<and> cont 2 128 191 then 4 else 0)
              else if 241 \<le> b \<and> b \<le> 243 then
                (if cont 0 128 191 \<and> cont 1 128 191 \<and> cont 2 128 191 then 4 else 0)
              else if b = 244 then (if cont 0 128 143 \<and> cont 1 128 191 \<and> cont 2 128 191 then 4 else 0)
              else 0))"

definition replacement_char :: string where
  "replacement_char = [CHR 0xEF, CHR 0xBF, CHR 0xBD]"

lemma utf8_seq_len_le: "utf8_seq_len s \<le> length s"
  by (cases s) (auto simp: utf8_seq_len_def Let_def Suc_le_eq linorder_not_less)

lemma utf8_seq_len_ascii [simp]: "of_char c < (128::nat) \<Longrightarrow> utf8_seq_len (c # s) = 1"
  by (simp add: utf8_seq_len_def)

text \<open>
  One step of a loop over UTF-8 text: the well-formed sequence at the start of the
  string, or the replacement character for a bad first byte, and what follows.
\<close>

definition utf8_step :: "char \<Rightarrow> string \<Rightarrow> string \<times> string" where
  "utf8_step c s =
     (let n = utf8_seq_len (c # s)
      in if n = 0 then (replacement_char, s) else (take n (c # s), drop (n - 1) s))"

lemma utf8_step_shorter: "utf8_step c s = (out, rest) \<Longrightarrow> length rest \<le> length s"
  by (auto simp: utf8_step_def Let_def split: if_splits)

text \<open>What the encoder makes of malformed UTF-8: each bad byte becomes U+FFFD.\<close>

function utf8_sanitize :: "string \<Rightarrow> string" where
  "utf8_sanitize [] = []"
| "utf8_sanitize (c # s) = (case utf8_step c s of (out, rest) \<Rightarrow> out @ utf8_sanitize rest)"
  by pat_completeness auto
termination
  by (relation "measure length") (auto dest: utf8_step_shorter[OF sym])

text \<open>\<open>utf8.EncodeRune\<close>: surrogates and values beyond U+10FFFF become U+FFFD.\<close>

definition utf8_encode :: "nat \<Rightarrow> string" where
  "utf8_encode r =
     (if r < 128 then [char_of r]
      else if r < 2048 then [char_of (192 + r div 64), char_of (128 + r mod 64)]
      else if 55296 \<le> r \<and> r < 57344 then replacement_char
      else if r < 65536 then
        [char_of (224 + r div 4096), char_of (128 + r div 64 mod 64), char_of (128 + r mod 64)]
      else if r < 1114112 then
        [char_of (240 + r div 262144), char_of (128 + r div 4096 mod 64),
         char_of (128 + r div 64 mod 64), char_of (128 + r mod 64)]
      else replacement_char)"

section \<open>Quoting strings\<close>

definition hex_digit :: "nat \<Rightarrow> char" where
  "hex_digit n = ''0123456789abcdef'' ! n"

definition json_bs :: char where "json_bs = CHR 0x5C"

text \<open>The bytes \<open>json.Marshal\<close> writes unescaped: printable ASCII but \<open>" \ < > &\<close>.\<close>

definition html_safe :: "char \<Rightarrow> bool" where
  "html_safe c \<longleftrightarrow>
     (32::nat) \<le> of_char c \<and> of_char c < (128::nat) \<and> c \<notin> {CHR 0x22, CHR 0x5C, CHR 0x3C, CHR 0x3E, CHR 0x26}"

definition short_escape :: "char \<Rightarrow> char option" where
  "short_escape c =
     (if c = CHR 0x22 then Some (CHR 0x22) else if c = CHR 0x5C then Some (CHR 0x5C)
      else if c = CHR 0x08 then Some (CHR ''b'') else if c = CHR 0x0C then Some (CHR ''f'')
      else if c = CHR 0x0A then Some (CHR ''n'') else if c = CHR 0x0D then Some (CHR ''r'')
      else if c = CHR 0x09 then Some (CHR ''t'') else None)"

definition u_escape :: "nat \<Rightarrow> string" where
  "u_escape n = [json_bs, CHR ''u'', hex_digit (n div 4096 mod 16), hex_digit (n div 256 mod 16),
                 hex_digit (n div 16 mod 16), hex_digit (n mod 16)]"

text \<open>One iteration of the loop of \<open>encodeState.string\<close>.\<close>

definition quote_step :: "char \<Rightarrow> string \<Rightarrow> string \<times> string" where
  "quote_step c s =
     (if of_char c < (128::nat) then
        (if html_safe c then ([c], s)
         else (case short_escape c of
                 Some e \<Rightarrow> ([json_bs, e], s)
               | None \<Rightarrow> (u_escape (of_char c), s)))
      else if take 3 (c # s) = [CHR 0xE2, CHR 0x80, CHR 0xA8] then (u_escape 8232, drop 2 s)
      else if take 3 (c # s) = [CHR 0xE2, CHR 0x80, CHR 0xA9] then (u_escape 8233, drop 2 s)
      else if utf8_seq_len (c # s) = 0 then (u_escape 65533, s)
      else utf8_step c s)"

lemma quote_step_shorter: "quote_step c s = (out, rest) \<Longrightarrow> length rest \<le> length s"
  by (auto simp: quote_step_def split: if_splits option.splits dest: utf8_step_shorter)

function json_quote :: "string \<Rightarrow> string" where
  "json_quote [] = []"
| "json_quote (c # s) = (case quote_step c s of (out, rest) \<Rightarrow> out @ json_quote rest)"
  by pat_completeness auto
termination
  by (relation "measure length") (auto dest: quote_step_shorter[OF sym])

section \<open>Unquoting strings\<close>

definition hex_value :: "char \<Rightarrow> nat option" where
  "hex_value c =
     (let b = of_char c :: nat
      in if 48 \<le> b \<and> b \<le> 57 then Some (b - 48)
         else if 97 \<le> b \<and> b \<le> 102 then Some (b - 87)
         else if 65 \<le> b \<and> b \<le> 70 then Some (b - 55) else None)"

text \<open>\<open>getu4\<close>: the value of \<open>\uXXXX\<close> at the start of the string.\<close>

definition getu4 :: "string \<Rightarrow> nat option" where
  "getu4 s =
     (case s of
        b # u # h1 # h2 # h3 # h4 # _ \<Rightarrow>
          if b = json_bs \<and> u = CHR ''u'' then
            (case (hex_value h1, hex_value h2, hex_value h3, hex_value h4) of
               (Some a, Some b, Some c, Some d) \<Rightarrow> Some (a * 4096 + b * 256 + c * 16 + d)
             | _ \<Rightarrow> None)
          else None
      | _ \<Rightarrow> None)"

definition prepend :: "string \<Rightarrow> (string \<times> string) option \<Rightarrow> (string \<times> string) option" where
  "prepend xs r = map_option (\<lambda>(a, rest). (xs @ a, rest)) r"

definition is_surrogate :: "nat \<Rightarrow> bool" where
  "is_surrogate r \<longleftrightarrow> 55296 \<le> r \<and> r < 57344"

text \<open>\<open>utf16.DecodeRune\<close>: the code point of a surrogate pair, if it is one.\<close>

definition surrogate_pair :: "nat \<Rightarrow> nat option \<Rightarrow> nat option" where
  "surrogate_pair r1 r2 =
     (case r2 of
        Some r2 \<Rightarrow> if 55296 \<le> r1 \<and> r1 < 56320 \<and> 56320 \<le> r2 \<and> r2 < 57344
                   then Some ((r1 - 55296) * 1024 + (r2 - 56320) + 65536) else None
      | None \<Rightarrow> None)"

text \<open>
  One iteration of the loop of \<open>unquote\<close> on a byte that is not the closing quote:
  the bytes it appends and the text that remains, or \<open>None\<close> for a syntax error.
\<close>

definition unquote_step :: "char \<Rightarrow> string \<Rightarrow> (string \<times> string) option" where
  "unquote_step c s =
     (if c = json_bs then
        (case s of
           [] \<Rightarrow> None
         | e # s' \<Rightarrow>
             if e = CHR 0x22 \<or> e = json_bs \<or> e = CHR ''/'' then Some ([e], s')
             else if e = CHR ''b'' then Some ([CHR 0x08], s')
             else if e = CHR ''f'' then Some ([CHR 0x0C], s')
             else if e = CHR ''n'' then Some ([CHR 0x0A], s')
             else if e = CHR ''r'' then Some ([CHR 0x0D], s')
             else if e = CHR ''t'' then Some ([CHR 0x09], s')
             else if e = CHR ''u'' then
               (case getu4 (c # s) of
                  None \<Rightarrow> None
                | Some r \<Rightarrow>
                    if is_surrogate r then
                      (case surrogate_pair r (getu4 (drop 5 s)) of
                         Some r' \<Rightarrow> Some (utf8_encode r', drop 11 s)
                       | None \<Rightarrow> Some (replacement_char, drop 5 s))
                    else Some (utf8_encode r, drop 5 s))
             else None)
      else if of_char c < (32::nat) then None
      else if of_char c < (128::nat) then Some ([c], s)
      else Some (utf8_step c s))"

lemma unquote_step_shorter: "unquote_step c s = Some (out, rest) \<Longrightarrow> length rest \<le> length s"
  by (auto simp: unquote_step_def split: if_splits option.splits list.splits dest: utf8_step_shorter)

text \<open>
  The decoder reads a string body after its opening quote and returns the decoded bytes
  and the text after the closing quote; \<open>None\<close> is a syntax error.
\<close>

function json_unquote :: "string \<Rightarrow> (string \<times> string) option" where
  "json_unquote [] = None"
| "json_unquote (c # s) =
     (if c = CHR 0x22 then Some ([], s)
      else (case unquote_step c s of
              None \<Rightarrow> None
            | Some (out, rest) \<Rightarrow> prepend out (json_unquote rest)))"
  by pat_completeness auto
termination
  by (relation "measure length") (auto dest: unquote_step_shorter)

section \<open>Decoding what the encoder writes\<close>

lemma utf8_seq_len_prefix:
  assumes "utf8_seq_len x = n" "0 < n"
  shows "utf8_seq_len (take n x @ t) = n"
  using assms
  by (cases x) (auto simp: utf8_seq_len_def Let_def nth_append split: if_splits)

lemma hex_value_hex_digit [simp]: "n < 16 \<Longrightarrow> hex_value (hex_digit n) = Some n"
  by (auto simp: hex_value_def hex_digit_def numeral_eq_Suc less_Suc_eq)
lemma hex4_digits:
  fixes n :: nat
  assumes "n < 65536"
  shows "n div 4096 * 4096 + (n div 256 mod 16) * 256 + (n div 16 mod 16) * 16 + n mod 16 = n"
proof -
  have a: "n div 4096 mod 16 = n div 4096" using assms by simp
  have e1: "n div 4096 = n div 256 div 16" using div_mult2_eq [of n 256 16] by simp
  have e2: "n div 256 = n div 16 div 16" using div_mult2_eq [of n 16 16] by simp
  have b: "n div 256 = n div 4096 * 16 + n div 256 mod 16"
    using div_mult_mod_eq [of "n div 256" 16] e1 by simp
  have c: "n div 16 = n div 256 * 16 + n div 16 mod 16"
    using div_mult_mod_eq [of "n div 16" 16] e2 by simp
  have d: "n = n div 16 * 16 + n mod 16" by simp
  show ?thesis using a b c d by linarith
qed
lemma getu4_u_escape:
  "n < 65536 \<Longrightarrow> getu4 (u_escape n @ t) = Some n"
  by (simp add: getu4_def u_escape_def json_bs_def hex4_digits)

lemma utf8_step_ascii: "of_char c < (128::nat) \<Longrightarrow> utf8_step c s = ([c], s)"
  by (simp add: utf8_step_def)

lemma json_unquote_Cons:
  "c \<noteq> CHR 0x22 \<Longrightarrow> json_unquote (c # s) =
     (case unquote_step c s of None \<Rightarrow> None | Some (out, rest) \<Rightarrow> prepend out (json_unquote rest))"
  by simp

lemma unquote_u_escape:
  assumes "n < 65536" "\<not> is_surrogate n"
  shows "json_unquote (u_escape n @ t) = prepend (utf8_encode n) (json_unquote t)"
proof -
  obtain h t' where u: "u_escape n @ t = json_bs # h # t'" and h: "h = CHR ''u''" and t': "drop 5 (h # t') = t"
    by (simp add: u_escape_def)
  have "getu4 (json_bs # h # t') = Some n" using getu4_u_escape [OF assms(1), of t] u by simp
  then show ?thesis using assms(2) u t'
    by (simp add: json_unquote_Cons unquote_step_def h json_bs_def)
qed

lemma unquote_short_escape:
  "short_escape c = Some e \<Longrightarrow> json_unquote (json_bs # e # t) = prepend [c] (json_unquote t)"
  by (auto simp: short_escape_def json_bs_def unquote_step_def split: if_splits)

lemma unquote_utf8_seq:
  assumes n: "utf8_seq_len (c # s) = n" "0 < n" and c: "\<not> of_char c < (128::nat)"
  shows "json_unquote (take n (c # s) @ t) = prepend (take n (c # s)) (json_unquote t)"
proof -
  have n2: "2 \<le> n" using n c by (auto simp: utf8_seq_len_def Let_def split: if_splits)
  have len: "n \<le> Suc (length s)" using utf8_seq_len_le [of "c # s"] n by simp
  have tk: "take n (c # s) @ t = c # (take (n - 1) s @ t)" using n2 by (cases n) auto
  have l: "utf8_seq_len (c # (take (n - 1) s @ t)) = n"
    using utf8_seq_len_prefix [OF n, of t] tk by simp
  have "utf8_step c (take (n - 1) s @ t) = (take n (c # s), t)"
  proof -
    obtain m where m: "n = Suc m" using n(2) by (cases n) auto
    have "take m (take m s @ t) = take m s" "drop m (take m s @ t) = t" using len m by auto
    then show ?thesis using l m by (simp add: utf8_step_def)
  qed
  moreover have "c \<noteq> CHR 0x22" "c \<noteq> json_bs" using c by (auto simp: json_bs_def)
  ultimately show ?thesis using c tk by (simp add: json_unquote_Cons unquote_step_def)
qed

lemma line_sep_cases:
  assumes "take 3 (c # s) = [CHR 0xE2, CHR 0x80, CHR 0xA8] \<or> take 3 (c # s) = [CHR 0xE2, CHR 0x80, CHR 0xA9]"
  obtains d s' where "c = CHR 0xE2" "s = CHR 0x80 # d # s'" "d = CHR 0xA8 \<or> d = CHR 0xA9"
  using assms by (cases s; cases "tl s") auto

lemma utf8_step_line_sep:
  "d = CHR 0xA8 \<or> d = CHR 0xA9 \<Longrightarrow> utf8_step (CHR 0xE2) (CHR 0x80 # d # s') = ([CHR 0xE2, CHR 0x80, d], s')"
  by (auto simp: utf8_step_def utf8_seq_len_def byte_in_def)

lemma utf8_encode_line_sep:
  "utf8_encode 8232 = [CHR 0xE2, CHR 0x80, CHR 0xA8]" "utf8_encode 8233 = [CHR 0xE2, CHR 0x80, CHR 0xA9]"
  "utf8_encode 65533 = replacement_char"
  by (simp_all add: utf8_encode_def replacement_char_def char_of_def bit_0)

lemma quote_step_multibyte:
  assumes "\<not> of_char c < (128::nat)"
    and "\<not> (take 3 (c # s) = [CHR 0xE2, CHR 0x80, CHR 0xA8] \<or> take 3 (c # s) = [CHR 0xE2, CHR 0x80, CHR 0xA9])"
  shows "quote_step c s = (if utf8_seq_len (c # s) = 0 then (u_escape 65533, s) else utf8_step c s)"
  using assms unfolding quote_step_def by (simp only: de_Morgan_disj if_False)

lemma unquote_quote_step:
  "json_unquote (fst (quote_step c s) @ t) = prepend (fst (utf8_step c s)) (json_unquote t)"
proof (cases "of_char c < (128::nat)")
  case True
  then have step: "utf8_step c s = ([c], s)" by (rule utf8_step_ascii)
  show ?thesis
  proof (cases "html_safe c")
    case True
    then have "c \<noteq> CHR 0x22" "c \<noteq> json_bs" "\<not> of_char c < (32::nat)"
      by (auto simp: html_safe_def json_bs_def)
    then show ?thesis using \<open>of_char c < 128\<close> True step
      by (simp add: quote_step_def json_unquote_Cons unquote_step_def)
  next
    case False
    show ?thesis
    proof (cases "short_escape c")
      case None
      have "utf8_encode (of_char c) = [c]" using \<open>of_char c < 128\<close> by (simp add: utf8_encode_def)
      then show ?thesis using \<open>of_char c < 128\<close> False None step
        by (simp add: quote_step_def unquote_u_escape is_surrogate_def)
    next
      case (Some e)
      have q: "fst (quote_step c s) @ t = json_bs # e # t"
        using \<open>of_char c < 128\<close> False Some by (simp add: quote_step_def)
      show ?thesis unfolding q step fst_conv by (rule unquote_short_escape [OF Some])
    qed
  qed
next
  case False
  show ?thesis
  proof (cases "take 3 (c # s) = [CHR 0xE2, CHR 0x80, CHR 0xA8] \<or> take 3 (c # s) = [CHR 0xE2, CHR 0x80, CHR 0xA9]")
    case True
    then obtain d s' where c: "c = CHR 0xE2" "s = CHR 0x80 # d # s'" "d = CHR 0xA8 \<or> d = CHR 0xA9"
      by (rule line_sep_cases)
    then show ?thesis
      by (auto simp: quote_step_def utf8_step_line_sep utf8_encode_line_sep unquote_u_escape is_surrogate_def)
  next
    case ls: False
    show ?thesis
    proof (cases "utf8_seq_len (c # s) = 0")
      case True
      then show ?thesis using quote_step_multibyte [OF False ls]
        by (simp add: utf8_step_def utf8_encode_line_sep unquote_u_escape is_surrogate_def)
    next
      case nz: False
      then show ?thesis using quote_step_multibyte [OF False ls] unquote_utf8_seq [OF refl _ False, of s t]
        by (simp add: utf8_step_def Let_def)
    qed
  qed
qed

lemma quote_step_rest: "snd (quote_step c s) = snd (utf8_step c s)"
proof (cases "of_char c < (128::nat)")
  case True
  then show ?thesis by (simp add: quote_step_def utf8_step_ascii split: option.split)
next
  case False
  show ?thesis
  proof (cases "take 3 (c # s) = [CHR 0xE2, CHR 0x80, CHR 0xA8] \<or> take 3 (c # s) = [CHR 0xE2, CHR 0x80, CHR 0xA9]")
    case True
    then obtain d s' where "c = CHR 0xE2" "s = CHR 0x80 # d # s'" "d = CHR 0xA8 \<or> d = CHR 0xA9"
      by (rule line_sep_cases)
    then show ?thesis by (auto simp: quote_step_def utf8_step_line_sep)
  next
    case ls: False
    then show ?thesis using quote_step_multibyte [OF False ls] by (simp add: utf8_step_def Let_def)
  qed
qed


lemma json_quote_Cons': "json_quote (c # s) = fst (quote_step c s) @ json_quote (snd (utf8_step c s))"
  by (simp add: split_beta quote_step_rest)

lemma utf8_sanitize_Cons': "utf8_sanitize (c # s) = fst (utf8_step c s) @ utf8_sanitize (snd (utf8_step c s))"
  by (simp add: split_beta)

lemma json_unquote_quote: "json_unquote (json_quote s @ CHR 0x22 # r) = Some (utf8_sanitize s, r)"
proof (induction s rule: utf8_sanitize.induct)
  case 1
  then show ?case by simp
next
  case (2 c s)
  have "json_unquote (json_quote (c # s) @ CHR 0x22 # r) =
        prepend (fst (utf8_step c s)) (json_unquote (json_quote (snd (utf8_step c s)) @ CHR 0x22 # r))"
    by (simp only: json_quote_Cons' append_assoc unquote_quote_step)
  also have "\<dots> = Some (utf8_sanitize (c # s), r)"
    using "2.IH" [of "fst (utf8_step c s)" "snd (utf8_step c s)"] by (simp add: prepend_def utf8_sanitize_Cons' del: utf8_sanitize.simps)
  finally show ?case .
qed

section \<open>Decimal round trip\<close>

lemma of_char_digit: "d < 10 \<Longrightarrow> of_char (char_of (48 + d)) = (48 + d :: nat)"
  by (simp add: of_char_of)

lemma nat_digits_nonempty: "nat_digits n \<noteq> []"
  by (subst nat_digits.simps) simp

lemma nat_digits_digits: "list_all is_digit (nat_digits n)"
proof (induction n rule: nat_digits.induct)
  case (1 n)
  have "is_digit (char_of (48 + d))" if "d < 10" for d :: nat
    using that by (simp add: is_digit_def of_char_digit)
  then show ?case using 1 by (subst nat_digits.simps) simp
qed

lemma digits_value_snoc: "digits_value (xs @ [d]) = 10 * digits_value xs + (of_char d - 48)"
  by (simp add: digits_value_def)


lemma digits_value_nat_digits: "digits_value (nat_digits n) = n"
proof (induction n rule: nat_digits.induct)
  case (1 n)
  show ?case
  proof (cases "n < 10")
    case True
    then show ?thesis by (simp add: nat_digits.simps digits_value_def of_char_digit)
  next
    case False
    then have "digits_value (nat_digits n) = 10 * (n div 10) + n mod 10"
      using 1 by (simp add: nat_digits.simps [of n] digits_value_snoc of_char_digit)
    then show ?thesis by simp
  qed
qed

lemma nat_digits_hd: "hd (nat_digits n) \<noteq> CHR ''-'' \<and> hd (nat_digits n) \<noteq> CHR ''+''"
  using nat_digits_digits [of n] nat_digits_nonempty [of n]
  by (cases "nat_digits n") (auto simp: is_digit_def)


lemma go_atoi_itoa: "go_atoi (go_itoa (sint w)) = Some (w :: go_int)"
proof -
  have r: "- (2 ^ 63) \<le> sint w" "sint w < 2 ^ 63"
    using sint_ge [of w] sint_lt [of w] by simp_all
  obtain d ds where nd: "nat_digits (nat \<bar>sint w\<bar>) = d # ds"
    using nat_digits_nonempty by (cases "nat_digits (nat \<bar>sint w\<bar>)") auto
  have d: "d \<noteq> CHR ''-''" "d \<noteq> CHR ''+''" using nat_digits_hd [of "nat \<bar>sint w\<bar>"] nd by simp_all
  have ok: "list_all is_digit (d # ds)" "digits_value (d # ds) = nat \<bar>sint w\<bar>"
    using nat_digits_digits [of "nat \<bar>sint w\<bar>"] digits_value_nat_digits [of "nat \<bar>sint w\<bar>"] nd by simp_all
  show ?thesis
  proof (cases "sint w < 0")
    case True
    then have "go_itoa (sint w) = CHR ''-'' # d # ds" using nd by (simp add: go_itoa_def)
    then show ?thesis using True r ok by (simp add: go_atoi_def)
  next
    case False
    then have "go_itoa (sint w) = d # ds" using nd by (simp add: go_itoa_def)
    then show ?thesis using False r ok d by (simp add: go_atoi_def)
  qed
qed

end
