(* ===== verification/GoStrings.thy ===== *)
theory GoStrings
  imports Prelude
begin

text \<open>
  The one library routine whose behaviour the judging depends on: Go's
  \<open>strings.TrimSpace\<close>, which the executor applies to the program's output and to the
  expected output before comparing them. A Go string is a byte sequence, here a
  \<open>char\<close> list (a HOL \<open>char\<close> is a byte). \<open>TrimSpace\<close> removes leading and trailing
  runes for which \<open>unicode.IsSpace\<close> holds: the six ASCII spaces and the UTF-8
  encodings of U+0085, U+00A0, U+1680, U+2000--U+200A, U+2028, U+2029, U+202F, U+205F
  and U+3000. Its ASCII fast path and its fallback to \<open>TrimFunc\<close> at the first
  non-ASCII byte compute the same function; the model is that function, written as the
  stripping of a prefix code from the front and, on the reversed string, from the back.
  Invalid UTF-8 decodes to U+FFFD, which is not a space, so it stops the trimming as a
  byte sequence matching no encoding does here.
\<close>

definition go_ascii_spaces :: "string list" where
  "go_ascii_spaces = [[CHR 0x09], [CHR 0x0A], [CHR 0x0B], [CHR 0x0C], [CHR 0x0D], [CHR 0x20]]"

definition go_unicode_spaces :: "string list" where
  "go_unicode_spaces =
     [[CHR 0xC2, CHR 0x85], [CHR 0xC2, CHR 0xA0], [CHR 0xE1, CHR 0x9A, CHR 0x80],
      [CHR 0xE2, CHR 0x80, CHR 0x80], [CHR 0xE2, CHR 0x80, CHR 0x81],
      [CHR 0xE2, CHR 0x80, CHR 0x82], [CHR 0xE2, CHR 0x80, CHR 0x83],
      [CHR 0xE2, CHR 0x80, CHR 0x84], [CHR 0xE2, CHR 0x80, CHR 0x85],
      [CHR 0xE2, CHR 0x80, CHR 0x86], [CHR 0xE2, CHR 0x80, CHR 0x87],
      [CHR 0xE2, CHR 0x80, CHR 0x88], [CHR 0xE2, CHR 0x80, CHR 0x89],
      [CHR 0xE2, CHR 0x80, CHR 0x8A], [CHR 0xE2, CHR 0x80, CHR 0xA8],
      [CHR 0xE2, CHR 0x80, CHR 0xA9], [CHR 0xE2, CHR 0x80, CHR 0xAF],
      [CHR 0xE2, CHR 0x81, CHR 0x9F], [CHR 0xE3, CHR 0x80, CHR 0x80]]"

definition go_space_encs :: "string list" where
  "go_space_encs = go_ascii_spaces @ go_unicode_spaces"

definition go_trim_space :: "string \<Rightarrow> string" where
  "go_trim_space s =
     rev (strip_prefixes (map rev go_space_encs) (rev (strip_prefixes go_space_encs s)))"

text \<open>
  \<open>strings.ToLower\<close> on ASCII text: \<open>A\<close>..\<open>Z\<close> become \<open>a\<close>..\<open>z\<close>. Go also
  lower-cases letters beyond ASCII; that mapping (Unicode case tables) is not modelled, and
  non-ASCII bytes are kept, which is exact on ASCII strings.
\<close>

definition go_to_lower :: "string \<Rightarrow> string" where
  "go_to_lower s = map ascii_lower s"

section \<open>Self-synchronising codes\<close>

text \<open>
  UTF-8 is self-synchronising: no byte after the first of an encoding can begin an
  encoding. Hence a string that does not start with a space cannot be made to start with
  one by appending spaces, which is what trimming at the back relies on.
\<close>

definition sync_code :: "string list \<Rightarrow> bool" where
  "sync_code ps \<longleftrightarrow> (\<forall>e \<in> set ps. \<forall>q \<in> set ps. \<forall>c \<in> set (tl e). q \<noteq> [] \<longrightarrow> c \<noteq> hd q)"

section \<open>Lemmas on self-synchronising codes\<close>

lemma match_prefix_append_sync:
  assumes code: "prefix_code ps" "sync_code ps"
    and ws: "set ws \<subseteq> set ps"
    and t: "match_prefix ps t = None" "t \<noteq> []"
  shows "match_prefix ps (t @ concat ws) = None"
proof (rule ccontr)
  assume "match_prefix ps (t @ concat ws) \<noteq> None"
  then obtain e where e: "e \<in> set ps" "e \<noteq> []" "prefix e (t @ concat ws)"
    by (auto dest: match_prefix_SomeD)
  have "\<not> prefix e t"
    using t(1) e by (auto simp: match_prefix_None_iff)
  with e(3) obtain r where r: "e = t @ r" "r \<noteq> []" "prefix r (concat ws)"
    by (auto simp: prefix_append)
  then obtain q ws' where "ws = q # ws'"
    by (cases ws) auto
  moreover have "q \<noteq> []"
    using ws code(1) \<open>ws = q # ws'\<close> by (auto simp: prefix_code_def)
  ultimately have q: "q \<in> set ws" "q \<noteq> []" "hd (concat ws) = hd q"
    by auto
  have "hd r = hd (concat ws)"
    using r(2,3) by (auto simp: prefix_def)
  moreover have "hd r \<in> set (tl e)"
    using r(1,2) t(2) by (cases t) auto
  ultimately show False
    using code(2) e(1) q ws unfolding sync_code_def by auto
qed

lemma match_prefix_code_append:
  assumes "prefix_code ps" and "match_prefix ps s = Some p"
  shows "match_prefix ps (s @ u) = Some p"
proof -
  from assms(2) have "p \<in> set ps" and "prefix p s"
    by (auto dest: match_prefix_SomeD)
  then obtain s' where "s = p @ s'"
    by (auto simp: prefix_def)
  with assms(1) \<open>p \<in> set ps\<close> show ?thesis
    by (simp add: match_prefix_code)
qed

lemma strip_prefixes_Nil [simp]: "strip_prefixes ps [] = []"
  by (rule strip_prefixes_idle) (simp add: match_prefix_None_iff)

lemma strip_prefixes_append_code:
  assumes "prefix_code ps" "sync_code ps" "set ws \<subseteq> set ps"
  shows "strip_prefixes ps (s @ concat ws) =
           (if strip_prefixes ps s = [] then [] else strip_prefixes ps s @ concat ws)"
  using assms
proof (induction ps s rule: strip_prefixes.induct)
  case (1 ps s)
  show ?case
  proof (cases "match_prefix ps s")
    case None
    show ?thesis
    proof (cases "s = []")
      case True
      with "1.prems" show ?thesis
        using strip_prefixes_concat_code [of ps ws "[]"] by simp
    next
      case False
      with None "1.prems" have "match_prefix ps (s @ concat ws) = None"
        by (simp add: match_prefix_append_sync)
      with None False show ?thesis
        by (simp add: strip_prefixes_idle)
    qed
  next
    case (Some p)
    then have "length p \<le> length s"
      by (auto dest: match_prefix_SomeD prefix_length_le)
    moreover have "match_prefix ps (s @ concat ws) = Some p"
      using "1.prems"(1) Some by (rule match_prefix_code_append)
    ultimately show ?thesis
      using "1.IH" [OF Some] "1.prems" Some
      by (simp add: strip_prefixes.simps [of ps s] strip_prefixes.simps [of ps "s @ concat ws"])
  qed
qed

section \<open>The white space of Go\<close>

lemma go_space_encs_prefix_code: "prefix_code go_space_encs"
  by (simp add: prefix_code_def go_space_encs_def go_ascii_spaces_def go_unicode_spaces_def)

lemma go_space_encs_suffix_code: "prefix_code (map rev go_space_encs)"
  by (simp add: prefix_code_def go_space_encs_def go_ascii_spaces_def go_unicode_spaces_def)

lemma go_space_encs_sync: "sync_code go_space_encs"
  by (simp add: sync_code_def go_space_encs_def go_ascii_spaces_def go_unicode_spaces_def)

lemmas go_space_code = go_space_encs_prefix_code go_space_encs_suffix_code go_space_encs_sync

text \<open>
  Trimming ignores any run of white space added at either end of a string: this is what
  makes the comparison of outputs insensitive to leading and trailing white space.
\<close>

lemma go_trim_space_pad:
  assumes "set ws1 \<subseteq> set go_space_encs" and "set ws2 \<subseteq> set go_space_encs"
  shows "go_trim_space (concat ws1 @ s @ concat ws2) = go_trim_space s"
proof -
  let ?L = "strip_prefixes go_space_encs" and ?R = "strip_prefixes (map rev go_space_encs)"
  have left: "?L (concat ws1 @ s @ concat ws2) = (if ?L s = [] then [] else ?L s @ concat ws2)"
    using assms go_space_code
    by (simp add: strip_prefixes_concat_code strip_prefixes_append_code)
  have "set (map rev (rev ws2)) \<subseteq> set (map rev go_space_encs)"
    using assms(2) by auto
  then have "?R (concat (map rev (rev ws2)) @ rev (?L s)) = ?R (rev (?L s))"
    using go_space_code by (simp add: strip_prefixes_concat_code)
  then show ?thesis
    using left by (simp add: go_trim_space_def rev_concat)
qed

lemma go_trim_space_idem [simp]: "go_trim_space (go_trim_space s) = go_trim_space s"
proof -
  let ?L = "strip_prefixes go_space_encs" and ?R = "strip_prefixes (map rev go_space_encs)"
  define u where "u = ?R (rev (?L s))"
  have "prefix (rev u) (?L s)"
    using strip_prefixes_suffix [of "map rev go_space_encs" "rev (?L s)"]
    by (simp add: u_def suffix_to_prefix)
  then have "match_prefix go_space_encs (rev u) = None"
    using strip_prefixes_no_match [of go_space_encs s]
    by (auto simp: match_prefix_None_iff dest: prefix_order.trans)
  then have L: "?L (rev u) = rev u"
    by (rule strip_prefixes_idle)
  have "go_trim_space s = rev u"
    by (simp add: go_trim_space_def u_def)
  then have "go_trim_space (go_trim_space s) = rev (?R (rev (?L (rev u))))"
    by (simp add: go_trim_space_def)
  also have "\<dots> = rev (?R u)"
    by (simp only: L rev_rev_ident)
  also have "?R u = u"
    by (simp add: u_def)
  finally show ?thesis
    using \<open>go_trim_space s = rev u\<close> by simp
qed

end
