(* ===== verification/HttpHandlers.thy ===== *)
theory HttpHandlers
  imports HttpResponses GoJson GoStrings
begin

text \<open>
  The handlers of \<open>internal/interfaces/http\<close>: \<open>SubmissionHandler.Run\<close>, \<open>Submit\<close>
  and \<open>Get\<close> (\<open>submission_handler.go\<close>) and \<open>ProblemHandler.List\<close>, \<open>Get\<close> and
  \<open>GetTopics\<close> (\<open>problem_handler.go\<close>). A handler takes the application service, the
  store, and what it reads of the \<open>gin.Context\<close> (the request body, a path parameter,
  the query string) and returns the response \<open>c.JSON\<close> writes with the new store. The
  identifier \<open>uuid.New()\<close> and the clock \<open>time.Now()\<close> the submission service reads are
  arguments, as in \<open>SubmissionService\<close>.

  \<open>c.ShouldBindJSON(&req)\<close> decodes the body with \<open>encoding/json\<close> into a zero
  \<open>RunRequest\<close> and then runs the \<open>binding:"required"\<close> checks. The body is the
  decoder's error message (\<open>Inl\<close>, for a body that is not JSON; \<open>EOF\<close> for an empty
  one) or the JSON value (\<open>Inr\<close>). Decoding an object matches each key to a field by
  its tag, exactly or up to ASCII case; a later key overwrites an earlier one; \<open>null\<close>
  leaves a field alone; unknown keys are skipped; a value of the wrong type is an
  \<open>UnmarshalTypeError\<close>, of which the first is returned after the whole object has been
  read. \<open>required\<close> fails on a zero \<open>ProblemID\<close> and on an empty \<open>Language\<close> or
  \<open>Code\<close>, and the validator reports every failing field.
\<close>

section \<open>Binding the request body\<close>

record RunRequest =
  rr_problem_id :: go_uint
  rr_language :: string
  rr_code :: string

definition json_kind :: "json \<Rightarrow> string" where
  "json_kind v =
     (case v of JNull \<Rightarrow> ''null'' | JBool _ \<Rightarrow> ''bool'' | JInt n \<Rightarrow> ''number '' @ go_itoa n
      | JFloat _ \<Rightarrow> ''number'' | JString _ \<Rightarrow> ''string'' | JArray _ \<Rightarrow> ''array'' | JObject _ \<Rightarrow> ''object'')"

definition unmarshal_type_error :: "json \<Rightarrow> string \<Rightarrow> string \<Rightarrow> string" where
  "unmarshal_type_error v field ty =
     ''json: cannot unmarshal '' @ json_kind v @ '' into Go struct field RunRequest.'' @ field @ '' of type '' @ ty"

definition key_matches :: "string \<Rightarrow> string \<Rightarrow> bool" where
  "key_matches tag k \<longleftrightarrow> go_to_lower k = go_to_lower tag"

text \<open>One key of the object: the request with the field set, and the first error so far.\<close>

definition bind_field ::
  "RunRequest \<times> string option \<Rightarrow> string \<times> json \<Rightarrow> RunRequest \<times> string option" where
  "bind_field acc kv =
     (let (req, err) = acc; (k, v) = kv;
          fail = (\<lambda>field ty. (req, case err of None \<Rightarrow> Some (unmarshal_type_error v field ty) | Some e \<Rightarrow> Some e))
      in if key_matches ''problemId'' k then
           (case v of JNull \<Rightarrow> (req, err)
            | JInt n \<Rightarrow> if 0 \<le> n \<and> n < 2 ^ 64 then (req\<lparr>rr_problem_id := nat n\<rparr>, err) else fail ''problemId'' ''uint''
            | _ \<Rightarrow> fail ''problemId'' ''uint'')
         else if key_matches ''language'' k then
           (case v of JNull \<Rightarrow> (req, err) | JString s \<Rightarrow> (req\<lparr>rr_language := s\<rparr>, err)
            | _ \<Rightarrow> fail ''language'' ''string'')
         else if key_matches ''code'' k then
           (case v of JNull \<Rightarrow> (req, err) | JString s \<Rightarrow> (req\<lparr>rr_code := s\<rparr>, err)
            | _ \<Rightarrow> fail ''code'' ''string'')
         else (req, err))"

definition zero_RunRequest :: RunRequest where
  "zero_RunRequest = \<lparr>rr_problem_id = 0, rr_language = [], rr_code = []\<rparr>"

definition required_message :: "string \<Rightarrow> string" where
  "required_message f =
     ''Key: '' @ go_sq @ ''RunRequest.'' @ f @ go_sq @ '' Error:Field validation for '' @ go_sq @ f @ go_sq
     @ '' failed on the '' @ go_sq @ ''required'' @ go_sq @ '' tag''"

text \<open>\<open>ValidationErrors.Error()\<close>: one message per failing field, one per line.\<close>

fun join_lines :: "string list \<Rightarrow> string" where
  "join_lines [] = []"
| "join_lines [m] = m"
| "join_lines (m # ms) = m @ go_nl @ join_lines ms"

definition validate_RunRequest :: "RunRequest \<Rightarrow> string list" where
  "validate_RunRequest req =
     (if rr_problem_id req = 0 then [''ProblemID''] else [])
     @ (if rr_language req = [] then [''Language''] else [])
     @ (if rr_code req = [] then [''Code''] else [])"

definition ShouldBindJSON :: "string + json \<Rightarrow> string + RunRequest" where
  "ShouldBindJSON body =
     (case body of
        Inl msg \<Rightarrow> Inl msg
      | Inr v \<Rightarrow>
          (let decoded =
             (case v of
                JObject kvs \<Rightarrow> (case foldl bind_field (zero_RunRequest, None) kvs of
                                  (req, None) \<Rightarrow> Inr req | (_, Some e) \<Rightarrow> Inl e)
              | JNull \<Rightarrow> Inr zero_RunRequest
              | _ \<Rightarrow> Inl (''json: cannot unmarshal '' @ json_kind v @ '' into Go value of type http.RunRequest''))
           in case decoded of
                Inl e \<Rightarrow> Inl e
              | Inr req \<Rightarrow>
                  (case validate_RunRequest req of
                     [] \<Rightarrow> Inr req
                   | fs \<Rightarrow> Inl (join_lines (map required_message fs)))))"

section \<open>Submission handlers\<close>

definition SubmissionHandler_Run ::
  "'s Service \<Rightarrow> 's \<Rightarrow> string \<Rightarrow> go_time \<Rightarrow> string + json \<Rightarrow> http_response \<times> 's" where
  "SubmissionHandler_Run svc st uid now body =
     (case ShouldBindJSON body of
        Inl msg \<Rightarrow> (c_JSON StatusBadRequest (error_json msg), st)
      | Inr req \<Rightarrow>
          (case RunCode svc st uid now (rr_problem_id req) (rr_language req) (rr_code req) of
             Inl err \<Rightarrow> (c_JSON StatusInternalServerError (error_json (store_error_message err)), st)
           | Inr (sub, st') \<Rightarrow> (c_JSON StatusOK (submission_response_json (toSubmissionResponse sub)), st')))"

definition SubmissionHandler_Submit ::
  "'s Service \<Rightarrow> 's \<Rightarrow> string \<Rightarrow> go_time \<Rightarrow> string + json \<Rightarrow> http_response \<times> 's" where
  "SubmissionHandler_Submit svc st uid now body =
     (case ShouldBindJSON body of
        Inl msg \<Rightarrow> (c_JSON StatusBadRequest (error_json msg), st)
      | Inr req \<Rightarrow>
          (case SubmitCode svc st uid now (rr_problem_id req) (rr_language req) (rr_code req) of
             Inl err \<Rightarrow> (c_JSON StatusInternalServerError (error_json (store_error_message err)), st)
           | Inr (sub, st') \<Rightarrow>
               (let resp = toSubmissionResponse sub;
                    resp = resp\<lparr>sresp_passed := of_nat (PassedCount sub)\<rparr>;
                    resp = resp\<lparr>sresp_total := of_nat (TotalCount sub)\<rparr>
                in (c_JSON StatusOK (submission_response_json resp), st'))))"

definition SubmissionHandler_Get :: "'s Service \<Rightarrow> 's \<Rightarrow> string \<Rightarrow> http_response" where
  "SubmissionHandler_Get svc st i =
     (case GetSubmission svc st i of
        Inl _ \<Rightarrow> c_JSON StatusNotFound (error_json ''Submission not found'')
      | Inr sub \<Rightarrow> c_JSON StatusOK (submission_response_json (toSubmissionResponse sub)))"

section \<open>Problem handlers\<close>

text \<open>
  \<open>c.Query\<close> and \<open>c.DefaultQuery\<close> read the first value of a key of the query string
  (the pairs in the order of the URL); a key given with an empty value is present.
\<close>

definition gin_GetQuery :: "(string \<times> string) list \<Rightarrow> string \<Rightarrow> string option" where
  "gin_GetQuery q k = map_option snd (find (\<lambda>kv. fst kv = k) q)"

definition gin_Query :: "(string \<times> string) list \<Rightarrow> string \<Rightarrow> string" where
  "gin_Query q k = (case gin_GetQuery q k of Some v \<Rightarrow> v | None \<Rightarrow> [])"

definition gin_DefaultQuery :: "(string \<times> string) list \<Rightarrow> string \<Rightarrow> string \<Rightarrow> string" where
  "gin_DefaultQuery q k d = (case gin_GetQuery q k of Some v \<Rightarrow> v | None \<Rightarrow> d)"

text \<open>The options \<open>List\<close> builds from the query string before it calls the service.\<close>

definition list_options :: "(string \<times> string) list \<Rightarrow> find_options" where
  "list_options q =
     (let opts = DefaultFindOptions;
          opts = (case go_atoi (gin_DefaultQuery q ''page'' ''1'') of Some page \<Rightarrow> opts\<lparr>fo_page := page\<rparr> | None \<Rightarrow> opts);
          opts = (case go_atoi (gin_DefaultQuery q ''limit'' ''50'') of Some lmt \<Rightarrow> opts\<lparr>fo_limit := lmt\<rparr> | None \<Rightarrow> opts);
          d = gin_Query q ''difficulty''; opts = (if d \<noteq> [] then opts\<lparr>fo_difficulty := d\<rparr> else opts);
          c = gin_Query q ''category''; opts = (if c \<noteq> [] then opts\<lparr>fo_category := c\<rparr> else opts);
          t = gin_Query q ''topic''; opts = (if t \<noteq> [] then opts\<lparr>fo_topic_slug := t\<rparr> else opts);
          s = gin_Query q ''search''
      in if s \<noteq> [] then opts\<lparr>fo_search := s\<rparr> else opts)"

definition ProblemHandler_List :: "'s problem_service \<Rightarrow> 's \<Rightarrow> (string \<times> string) list \<Rightarrow> http_response" where
  "ProblemHandler_List svc st q =
     (let opts = list_options q
      in case ListProblems svc st opts of
           Inl err \<Rightarrow> c_JSON StatusInternalServerError (error_json (store_error_message err))
         | Inr (problems, total_count) \<Rightarrow>
             c_JSON StatusOK
               (gin_H [(''problems'', JArray (map (\<lambda>p. problem_response_json (toProblemResponse p False)) problems)),
                       (''total'', JInt (sint total_count)), (''page'', JInt (sint (fo_page opts))),
                       (''limit'', JInt (sint (fo_limit opts)))]))"

definition ProblemHandler_Get :: "'s problem_service \<Rightarrow> 's \<Rightarrow> string \<Rightarrow> http_response" where
  "ProblemHandler_Get svc st slug =
     (case GetProblem svc st slug of
        Inl _ \<Rightarrow> c_JSON StatusNotFound (error_json ''Problem not found'')
      | Inr p \<Rightarrow> c_JSON StatusOK (problem_response_json (toProblemResponse p True)))"

definition ProblemHandler_GetTopics :: "'s problem_service \<Rightarrow> 's \<Rightarrow> http_response" where
  "ProblemHandler_GetTopics svc st =
     (case ProblemService.GetTopics svc st of
        Inl err \<Rightarrow> c_JSON StatusInternalServerError (error_json (store_error_message err))
      | Inr topics \<Rightarrow>
          c_JSON StatusOK
            (gin_H [(''topics'', JArray (map (\<lambda>t. topic_response_json
                       \<lparr>tresp_id = topic_id t, tresp_name = topic_name t, tresp_slug = topic_slug t,
                        tresp_count = topic_count t\<rparr>) topics))]))"

end
