(* ===== verification/HttpRouter.thy ===== *)
theory HttpRouter
  imports HttpResponses
begin

text \<open>
  The Gin engine of \<open>internal/interfaces/http/router.go\<close>. \<open>Router.Setup\<close> registers
  six routes under the group \<open>/api\<close> and the CORS middleware of \<open>gin-contrib/cors\<close>
  with three allowed origins. The model of Gin's \<open>engine.handleHTTPRequest\<close> is
  \<open>engine_serve\<close>: it looks the path up in the routes of the request's method (a literal
  segment matches itself, a \<open>:name\<close> segment any non-empty segment); on a hit it runs
  the middleware and then the handler; on a miss it first tries the path with its
  trailing slash removed (\<open>RedirectTrailingSlash\<close>, on by default: 301 for \<open>GET\<close>,
  307 otherwise, no middleware run), and otherwise runs the middleware and Gin's
  \<open>404 page not found\<close> text (\<open>HandleMethodNotAllowed\<close> is off by default, so a known
  path with another method is a 404 too). The CORS middleware leaves requests without an
  \<open>Origin\<close> header, or from the server's own origin, alone; aborts with 403 for an
  origin not in the list; answers an allowed \<open>OPTIONS\<close> preflight with 204; and lets
  other allowed requests through (the headers it sets are not modelled). The
  \<open>Logger\<close> and \<open>Recovery\<close> middleware of \<open>gin.Default()\<close> do not change responses of
  handlers that do not panic, and these do not.
\<close>

section \<open>Requests and routes\<close>

record http_request =
  rq_method :: string
  rq_path :: string
  rq_host :: string
  rq_origin :: string
  rq_query :: "(string \<times> string) list"
  rq_body :: "string + json"

datatype handler_name = ProblemList | ProblemGet | TopicsGet | SubmissionRun | SubmissionSubmit | SubmissionGet

datatype segment = Lit string | Param string

text \<open>\<open>Router.Setup\<close>: the routes in the order they are registered.\<close>

definition routes :: "(string \<times> segment list \<times> handler_name) list" where
  "routes =
     [(''GET'', [Lit ''api'', Lit ''problems''], ProblemList),
      (''GET'', [Lit ''api'', Lit ''problems'', Param ''slug''], ProblemGet),
      (''GET'', [Lit ''api'', Lit ''topics''], TopicsGet),
      (''POST'', [Lit ''api'', Lit ''run''], SubmissionRun),
      (''POST'', [Lit ''api'', Lit ''submit''], SubmissionSubmit),
      (''GET'', [Lit ''api'', Lit ''submissions'', Param ''id''], SubmissionGet)]"

definition AllowOrigins :: "string list" where
  "AllowOrigins = [''http://localhost:3001'', ''http://localhost:3003'', ''http://localhost:5173'']"

section \<open>Matching a path\<close>

fun split_segments :: "string \<Rightarrow> string \<Rightarrow> string list" where
  "split_segments acc [] = [rev acc]"
| "split_segments acc (c # s) = (if c = CHR ''/'' then rev acc # split_segments [] s else split_segments (c # acc) s)"

definition path_segments :: "string \<Rightarrow> string list option" where
  "path_segments p = (case p of c # s \<Rightarrow> if c = CHR ''/'' then Some (split_segments [] s) else None | [] \<Rightarrow> None)"

fun match_segments :: "segment list \<Rightarrow> string list \<Rightarrow> (string \<times> string) list option" where
  "match_segments [] [] = Some []"
| "match_segments (Lit l # ps) (x # xs) = (if l = x then match_segments ps xs else None)"
| "match_segments (Param n # ps) (x # xs) =
     (if x \<noteq> [] then map_option (\<lambda>params. (n, x) # params) (match_segments ps xs) else None)"
| "match_segments _ _ = None"

definition route_matches :: "string \<Rightarrow> string \<Rightarrow> string \<times> segment list \<times> handler_name \<Rightarrow> bool" where
  "route_matches meth path r \<longleftrightarrow>
     fst r = meth \<and>
     (case path_segments path of Some xs \<Rightarrow> match_segments (fst (snd r)) xs \<noteq> None | None \<Rightarrow> False)"

definition lookup_route :: "string \<Rightarrow> string \<Rightarrow> (handler_name \<times> (string \<times> string) list) option" where
  "lookup_route meth path =
     (case find (route_matches meth path) routes of
        None \<Rightarrow> None
      | Some r \<Rightarrow> (case path_segments path of
                    Some xs \<Rightarrow> map_option (Pair (snd (snd r))) (match_segments (fst (snd r)) xs)
                  | None \<Rightarrow> None))"

definition param :: "(string \<times> string) list \<Rightarrow> string \<Rightarrow> string" where
  "param ps n = (case map_of ps n of Some v \<Rightarrow> v | None \<Rightarrow> [])"

section \<open>Disjoint routes\<close>

text \<open>
  An executable check that no two routes of one method can match the same path: two
  patterns are disjoint when their lengths differ or they have different literals at
  one position.
\<close>

fun segs_disjoint :: "segment list \<Rightarrow> segment list \<Rightarrow> bool" where
  "segs_disjoint [] [] = False"
| "segs_disjoint (Lit a # ps) (Lit b # qs) = (a \<noteq> b \<or> segs_disjoint ps qs)"
| "segs_disjoint (_ # ps) (_ # qs) = segs_disjoint ps qs"
| "segs_disjoint _ _ = True"

primrec routes_disjoint :: "(string \<times> segment list \<times> handler_name) list \<Rightarrow> bool" where
  "routes_disjoint [] = True"
| "routes_disjoint (r # rs) =
     (list_all (\<lambda>r'. fst r \<noteq> fst r' \<or> segs_disjoint (fst (snd r)) (fst (snd r'))) rs \<and> routes_disjoint rs)"

section \<open>The engine\<close>

text \<open>The CORS middleware: \<open>None\<close> lets the request through, \<open>Some r\<close> aborts with \<open>r\<close>.\<close>

definition cors_middleware :: "http_request \<Rightarrow> http_response option" where
  "cors_middleware rq =
     (let origin = rq_origin rq
      in if origin = [] then None
         else if origin = ''http://'' @ rq_host rq \<or> origin = ''https://'' @ rq_host rq then None
         else if origin \<notin> set AllowOrigins then Some \<lparr>resp_status = 403, resp_body = NoBody\<rparr>
         else if rq_method rq = ''OPTIONS'' then Some \<lparr>resp_status = 204, resp_body = NoBody\<rparr>
         else None)"

definition strip_trailing_slash :: "string \<Rightarrow> string option" where
  "strip_trailing_slash p =
     (if p \<noteq> [] \<and> p \<noteq> ''/'' \<and> last p = CHR ''/'' then Some (butlast p) else None)"

definition not_found_text :: http_response where
  "not_found_text = \<lparr>resp_status = 404, resp_body = TextBody ''404 page not found''\<rparr>"

definition engine_serve ::
  "(handler_name \<Rightarrow> (string \<times> string) list \<Rightarrow> http_request \<Rightarrow> 's \<Rightarrow> http_response \<times> 's) \<Rightarrow>
   http_request \<Rightarrow> 's \<Rightarrow> http_response \<times> 's" where
  "engine_serve run rq st =
     (case lookup_route (rq_method rq) (rq_path rq) of
        Some (h, ps) \<Rightarrow> (case cors_middleware rq of Some r \<Rightarrow> (r, st) | None \<Rightarrow> run h ps rq st)
      | None \<Rightarrow>
          (case strip_trailing_slash (rq_path rq) of
             Some p' \<Rightarrow> if lookup_route (rq_method rq) p' \<noteq> None
                       then (\<lparr>resp_status = (if rq_method rq = ''GET'' then 301 else 307), resp_body = NoBody\<rparr>, st)
                       else (case cors_middleware rq of Some r \<Rightarrow> (r, st) | None \<Rightarrow> (not_found_text, st))
           | None \<Rightarrow> (case cors_middleware rq of Some r \<Rightarrow> (r, st) | None \<Rightarrow> (not_found_text, st))))"

section \<open>Lemmas\<close>

lemma split_segments_plain: "CHR ''/'' \<notin> set s \<Longrightarrow> split_segments acc s = [rev acc @ s]"
  by (induction s arbitrary: acc) auto

lemma path_segments_param:
  assumes "CHR ''/'' \<notin> set x"
  shows "path_segments (''/api/problems/'' @ x) = Some [''api'', ''problems'', x]"
    and "path_segments (''/api/submissions/'' @ x) = Some [''api'', ''submissions'', x]"
  using assms by (simp_all add: path_segments_def split_segments_plain)

lemma match_segments_Some_length: "match_segments ps xs = Some r \<Longrightarrow> length ps = length xs"
  by (induction ps xs arbitrary: r rule: match_segments.induct) (auto split: if_splits)

lemma match_segments_Nil_iff: "match_segments [] xs = (if xs = [] then Some [] else None)"
  by (cases xs) simp_all

lemma segs_disjoint_match:
  "segs_disjoint ps qs \<Longrightarrow> match_segments ps xs \<noteq> None \<Longrightarrow> match_segments qs xs = None"
proof (induction xs arbitrary: ps qs)
  case Nil
  then show ?case by (cases ps; cases qs) simp_all
next
  case (Cons x xs)
  then show ?case
    by (cases ps; cases qs; cases "hd ps"; cases "hd qs") (auto split: if_splits)
qed

lemma routes_disjoint_filter:
  "routes_disjoint rs \<Longrightarrow> length (filter (route_matches meth path) rs) \<le> 1"
proof (induction rs)
  case (Cons r rs)
  show ?case
  proof (cases "route_matches meth path r")
    case True
    then have "filter (route_matches meth path) rs = []"
      using Cons.prems segs_disjoint_match
      by (fastforce simp: route_matches_def filter_empty_conv list_all_iff split: option.splits)
    then show ?thesis by simp
  next
    case False
    then show ?thesis using Cons by simp
  qed
qed simp

text \<open>
  The route table of \<open>Router.Setup\<close> is unambiguous: for
  every method and path at most one registered route matches, so the handler a request
  reaches does not depend on the order of registration.
\<close>

lemma routes_unambiguous: "length (filter (route_matches meth path) routes) \<le> 1"
  by (rule routes_disjoint_filter) (simp add: routes_def)


lemma lookup_route_problem:
  "x \<noteq> [] \<Longrightarrow> CHR ''/'' \<notin> set x \<Longrightarrow>
   lookup_route ''GET'' (''/api/problems/'' @ x) = Some (ProblemGet, [(''slug'', x)])"
  by (simp add: lookup_route_def route_matches_def routes_def path_segments_param [simplified])

lemma lookup_route_submission:
  "x \<noteq> [] \<Longrightarrow> CHR ''/'' \<notin> set x \<Longrightarrow>
   lookup_route ''GET'' (''/api/submissions/'' @ x) = Some (SubmissionGet, [(''id'', x)])"
  by (simp add: lookup_route_def route_matches_def routes_def path_segments_param [simplified])

lemma lookup_route_post:
  "lookup_route ''POST'' ''/api/run'' = Some (SubmissionRun, [])"
  "lookup_route ''POST'' ''/api/submit'' = Some (SubmissionSubmit, [])"
  by (simp_all add: lookup_route_def route_matches_def routes_def path_segments_def)

end
