(* ===== verification/ApiSchema.thy ===== *)
theory ApiSchema
  imports HttpHandlers
begin

text \<open>
  The shape of every JSON body the API sends, as a type system on \<open>json\<close> values:
  \<open>has_type v t\<close> says that \<open>v\<close> has the type \<open>t\<close>, where an object type lists its keys
  in the order they are written, each with the type of its value and whether it is
  always present (a field tagged \<open>omitempty\<close> is not). The schemas below are read off the
  response structs of \<open>internal/interfaces/http\<close> and the \<open>gin.H\<close> maps the handlers
  build; the lemmas show that each handler's body has the schema of its status code.
\<close>

section \<open>Types of JSON values\<close>

datatype jtype =
    TNull
  | TBool
  | TInt
  | TFloat
  | TString
  | TArray jtype
  | TObject "(string \<times> jtype \<times> bool) list"

fun has_type :: "json \<Rightarrow> jtype \<Rightarrow> bool"
  and all_have_type :: "json list \<Rightarrow> jtype \<Rightarrow> bool"
  and fields_conform :: "(string \<times> json) list \<Rightarrow> (string \<times> jtype \<times> bool) list \<Rightarrow> bool" where
  "has_type JNull TNull = True"
| "has_type (JBool _) TBool = True"
| "has_type (JInt _) TInt = True"
| "has_type (JFloat _) TFloat = True"
| "has_type (JString _) TString = True"
| "has_type (JArray vs) (TArray t) = all_have_type vs t"
| "has_type (JObject kvs) (TObject fs) = fields_conform kvs fs"
| "has_type _ _ = False"
| "all_have_type [] t = True"
| "all_have_type (v # vs) t = (has_type v t \<and> all_have_type vs t)"
| "fields_conform [] fs = list_all (\<lambda>f. \<not> snd (snd f)) fs"
| "fields_conform (kv # kvs) [] = False"
| "fields_conform (kv # kvs) (f # fs) =
     (if fst kv = fst f then has_type (snd kv) (fst (snd f)) \<and> fields_conform kvs fs
      else \<not> snd (snd f) \<and> fields_conform (kv # kvs) fs)"

section \<open>Schemas of the API\<close>

definition error_schema :: jtype where
  "error_schema = TObject [(''error'', TString, True)]"

definition test_result_schema :: jtype where
  "test_result_schema =
     TObject [(''input'', TString, True), (''expected'', TString, True), (''actual'', TString, True),
              (''passed'', TBool, True), (''runtime'', TInt, True)]"

definition submission_schema :: jtype where
  "submission_schema =
     TObject [(''submissionId'', TString, True), (''status'', TString, True), (''passed'', TInt, False),
              (''total'', TInt, False), (''results'', TArray test_result_schema, True)]"

definition topic_schema :: jtype where
  "topic_schema =
     TObject [(''id'', TInt, True), (''name'', TString, True), (''slug'', TString, True), (''count'', TInt, False)]"

definition test_case_schema :: jtype where
  "test_case_schema = TObject [(''id'', TInt, True), (''input'', TString, True), (''expected'', TString, True)]"

definition problem_schema :: jtype where
  "problem_schema =
     TObject [(''id'', TInt, True), (''slug'', TString, True), (''title'', TString, True),
              (''difficulty'', TString, True), (''category'', TString, False),
              (''acceptanceRate'', TFloat, True), (''isPremium'', TBool, True),
              (''description'', TString, False), (''examples'', TString, False),
              (''constraints'', TString, False), (''starterCode'', TString, False),
              (''topics'', TArray topic_schema, False), (''testCases'', TArray test_case_schema, False)]"

definition problem_list_schema :: jtype where
  "problem_list_schema =
     TObject [(''limit'', TInt, True), (''page'', TInt, True), (''problems'', TArray problem_schema, True),
              (''total'', TInt, True)]"

definition topics_schema :: jtype where
  "topics_schema = TObject [(''topics'', TArray topic_schema, True)]"

text \<open>A response is well-typed when its body is JSON of the schema for its status.\<close>

definition response_typed :: "jtype \<Rightarrow> http_response \<Rightarrow> bool" where
  "response_typed ok r \<longleftrightarrow>
     (case resp_body r of
        JsonBody j \<Rightarrow> has_type j (if resp_status r = StatusOK then ok else error_schema)
      | _ \<Rightarrow> False)"

section \<open>Every handler answers with its schema\<close>

lemma fields_conform_skip [simp]:
  "fst kv \<noteq> k \<Longrightarrow> fields_conform (kv # kvs) ((k, t, False) # fs) = fields_conform (kv # kvs) fs"
  by simp

lemma all_have_type_map:
  "(\<And>x. x \<in> set xs \<Longrightarrow> has_type (f x) t) \<Longrightarrow> all_have_type (map f xs) t"
  by (induction xs) auto

lemma test_result_response_typed: "has_type (test_result_response_json r) test_result_schema"
  by (simp add: test_result_response_json_def test_result_schema_def)

lemma submission_response_typed: "has_type (submission_response_json r) submission_schema"
  by (simp add: submission_response_json_def submission_schema_def omitempty_def
                all_have_type_map test_result_response_typed)

lemma topic_response_typed: "has_type (topic_response_json r) topic_schema"
  by (simp add: topic_response_json_def topic_schema_def omitempty_def)

lemma test_case_response_typed: "has_type (test_case_response_json r) test_case_schema"
  by (simp add: test_case_response_json_def test_case_schema_def)

lemma problem_response_typed: "has_type (problem_response_json r) problem_schema"
  by (simp add: problem_response_json_def problem_schema_def omitempty_def all_have_type_map
                topic_response_typed test_case_response_typed)

lemma error_typed: "has_type (error_json m) error_schema"
  by (simp add: error_json_def gin_H_def error_schema_def)

lemma problem_list_typed:
  "all_have_type ps problem_schema \<Longrightarrow>
   has_type (gin_H [(''problems'', JArray ps), (''total'', JInt a), (''page'', JInt b), (''limit'', JInt c)])
     problem_list_schema"
  by (simp add: gin_H_def problem_list_schema_def)

lemma topics_typed: "all_have_type ts topic_schema \<Longrightarrow> has_type (gin_H [(''topics'', JArray ts)]) topics_schema"
  by (simp add: gin_H_def topics_schema_def)

lemma c_JSON_typed:
  "has_type j (if code = StatusOK then ok else error_schema) \<Longrightarrow> response_typed ok (c_JSON code j)"
  by (simp add: response_typed_def c_JSON_def)

lemma error_response_typed: "code \<noteq> StatusOK \<Longrightarrow> response_typed ok (c_JSON code (error_json m))"
  by (simp add: c_JSON_typed error_typed)

lemma ok_response_typed: "has_type j ok \<Longrightarrow> response_typed ok (c_JSON StatusOK j)"
  by (simp add: c_JSON_typed)

lemma status_codes_differ [simp]:
  "StatusBadRequest \<noteq> StatusOK" "StatusNotFound \<noteq> StatusOK" "StatusInternalServerError \<noteq> StatusOK"
  by (simp_all add: status_code_defs)

lemmas response_typing = error_response_typed ok_response_typed submission_response_typed
  problem_response_typed topic_response_typed all_have_type_map problem_list_typed topics_typed

lemma SubmissionHandler_Run_typed: "response_typed submission_schema (fst (SubmissionHandler_Run svc st uid now body))"
  by (simp add: SubmissionHandler_Run_def response_typing split: sum.split prod.split)

lemma SubmissionHandler_Submit_typed: "response_typed submission_schema (fst (SubmissionHandler_Submit svc st uid now body))"
  by (simp add: SubmissionHandler_Submit_def response_typing Let_def split: sum.split prod.split)

lemma SubmissionHandler_Get_typed: "response_typed submission_schema (SubmissionHandler_Get svc st i)"
  by (simp add: SubmissionHandler_Get_def response_typing split: sum.split)

lemma ProblemHandler_List_typed: "response_typed problem_list_schema (ProblemHandler_List psvc pst q)"
  by (simp add: ProblemHandler_List_def response_typing Let_def split: sum.split prod.split)

lemma ProblemHandler_Get_typed: "response_typed problem_schema (ProblemHandler_Get psvc pst slug)"
  by (simp add: ProblemHandler_Get_def response_typing split: sum.split)

lemma ProblemHandler_GetTopics_typed: "response_typed topics_schema (ProblemHandler_GetTopics psvc pst)"
  by (simp add: ProblemHandler_GetTopics_def response_typing split: sum.split)

end
