(* ===== verification/Executor.thy ===== *)
theory Executor
  imports GoStrings ProblemDomain SubmissionDomain
begin

text \<open>
  The code executor of \<open>internal/infrastructure/executor/code_executor.go\<close>: the
  \<open>CodeExecutor\<close> struct and its constructor \<open>New\<close>, the three harness generators
  \<open>wrapJavaScript\<close>, \<open>wrapPython\<close> and \<open>wrapGo\<close>, \<open>runCode\<close>, which starts one
  process per test case and turns its outcome into an output or an error, and
  \<open>Execute\<close>, the loop over the test cases that judges each one.

  The operating system is the environment \<open>exec_env\<close>: \<open>env_run env i cmd t\<close> is what
  running command \<open>cmd\<close> under a context with timeout \<open>t\<close> yields at the \<open>i\<close>-th
  call (its standard output and error, the error \<open>cmd.Run\<close> returned, and whether
  \<open>ctx.Err()\<close> is \<open>DeadlineExceeded\<close> afterwards); \<open>env_elapsed env i\<close> is the value
  of \<open>int(time.Since(start).Milliseconds())\<close> measured around the \<open>i\<close>-th call. Nothing
  is assumed of either, so every theorem holds for every behaviour of the processes and
  of the clock. A Go \<open>error\<close> is its message, and \<open>(string, error)\<close> is
  \<open>string \<times> string option\<close> with \<open>None\<close> for \<open>nil\<close>.
\<close>

section \<open>Data\<close>

record CodeExecutor =
  ce_timeout :: go_int  \<comment> \<open>a \<open>time.Duration\<close>, in nanoseconds\<close>

record command =
  cmd_path :: string
  cmd_args :: "string list"
  cmd_stdin :: "string option"

record proc_outcome =
  po_stdout :: string
  po_stderr :: string
  po_err :: "string option"
  po_deadline :: bool

record exec_env =
  env_run :: "nat \<Rightarrow> command \<Rightarrow> go_int \<Rightarrow> proc_outcome"
  env_elapsed :: "nat \<Rightarrow> go_int"

section \<open>Operations\<close>

text \<open>\<open>New\<close>: a zero timeout is replaced by \<open>5 * time.Second\<close>.\<close>

definition New :: "go_int \<Rightarrow> CodeExecutor" where
  "New timeout = \<lparr>ce_timeout = (if timeout = 0 then 5 * 1000000000 else timeout)\<rparr>"

text \<open>
  The harnesses, written out from the raw-string templates of the \<open>fmt.Sprintf\<close> calls:
  each \<open>%s\<close> is replaced by its argument as it is, with no quoting or escaping.
\<close>

definition wrapJavaScript :: "string \<Rightarrow> string \<Rightarrow> string" where
  "wrapJavaScript code input =
     go_nl @ ''const input = '' @ input @ '';'' @ go_nl @
     code @ go_nl @
     ''const result = twoSum ? twoSum(...input) : '' @ go_nl @
     ''               isPalindrome ? isPalindrome(...input) :'' @ go_nl @
     ''               maxProfit ? maxProfit(...input) :'' @ go_nl @
     ''               isValid ? isValid(...input) :'' @ go_nl @
     ''               reverseList ? reverseList(...input) :'' @ go_nl @
     ''               null;'' @ go_nl @
     ''console.log(JSON.stringify(result));'' @ go_nl"

definition wrapPython :: "string \<Rightarrow> string \<Rightarrow> string" where
  "wrapPython code input =
     go_nl @ ''import json'' @ go_nl @
     ''input_data = '' @ input @ go_nl @
     code @ go_nl @
     go_nl @
     ''result = None'' @ go_nl @
     ''if '' @ go_sq @ ''twoSum'' @ go_sq @ '' in dir():'' @ go_nl @
     ''    result = twoSum(*input_data)'' @ go_nl @
     ''elif '' @ go_sq @ ''isPalindrome'' @ go_sq @ '' in dir():'' @ go_nl @
     ''    result = isPalindrome(*input_data)'' @ go_nl @
     ''elif '' @ go_sq @ ''maxProfit'' @ go_sq @ '' in dir():'' @ go_nl @
     ''    result = maxProfit(*input_data)'' @ go_nl @
     ''elif '' @ go_sq @ ''isValid'' @ go_sq @ '' in dir():'' @ go_nl @
     ''    result = isValid(*input_data)'' @ go_nl @
     ''elif '' @ go_sq @ ''reverseList'' @ go_sq @ '' in dir():'' @ go_nl @
     ''    result = reverseList(*input_data)'' @ go_nl @
     go_nl @
     ''print(json.dumps(result))'' @ go_nl"

definition wrapGo :: "string \<Rightarrow> string \<Rightarrow> string" where
  "wrapGo code input =
     go_nl @ ''package main'' @ go_nl @
     go_nl @
     ''import ('' @ go_nl @
     go_tab @ go_dq @ ''encoding/json'' @ go_dq @ go_nl @
     go_tab @ go_dq @ ''fmt'' @ go_dq @ go_nl @
     '')'' @ go_nl @
     go_nl @
     code @ go_nl @
     go_nl @
     ''func main() {'' @ go_nl @
     go_tab @ ''input := '' @ (go_bq @ input @ go_bq) @ go_nl @
     go_tab @ ''_ = input'' @ go_nl @
     go_tab @ ''fmt.Println('' @ go_dq @ ''[]'' @ go_dq @ '')'' @ go_nl @
     ''}'' @ go_nl"

text \<open>The \<open>switch language\<close> of \<open>runCode\<close>: the command to run, or none.\<close>

definition build_command :: "string \<Rightarrow> string \<Rightarrow> string \<Rightarrow> command option" where
  "build_command language code input =
     (if language = ''javascript'' then
        Some \<lparr>cmd_path = ''node'', cmd_args = [''-e'', wrapJavaScript code input], cmd_stdin = None\<rparr>
      else if language = ''python'' then
        Some \<lparr>cmd_path = ''python3'', cmd_args = [''-c'', wrapPython code input], cmd_stdin = None\<rparr>
      else if language = ''go'' then
        Some \<lparr>cmd_path = ''go'', cmd_args = [''run'', ''-''], cmd_stdin = Some (wrapGo code input)\<rparr>
      else None)"

text \<open>
  \<open>runCode\<close> for the \<open>i\<close>-th test case. After \<open>cmd.Run\<close> returns, the deadline is
  checked first, then the error of \<open>Run\<close>, whose message is replaced by the captured
  standard error when there is any; the standard error of a run that succeeded is
  discarded.
\<close>

definition runCode ::
  "CodeExecutor \<Rightarrow> exec_env \<Rightarrow> nat \<Rightarrow> string \<Rightarrow> string \<Rightarrow> string \<Rightarrow> string \<times> string option" where
  "runCode e env i language code input =
     (case build_command language code input of
        None \<Rightarrow> ([], Some (''unsupported language: '' @ language))
      | Some cmd \<Rightarrow>
          (let po = env_run env i cmd (ce_timeout e) in
           if po_deadline po then ([], Some ''Time Limit Exceeded'')
           else (case po_err po of
                   Some err \<Rightarrow>
                     if po_stderr po \<noteq> [] then ([], Some (po_stderr po)) else ([], Some err)
                 | None \<Rightarrow> (po_stdout po, None))))"

text \<open>One iteration of the loop of \<open>Execute\<close>: the result for test case \<open>tc\<close> at index \<open>i\<close>.\<close>

definition execute_one ::
  "CodeExecutor \<Rightarrow> exec_env \<Rightarrow> string \<Rightarrow> string \<Rightarrow> nat \<Rightarrow> test_case \<Rightarrow> test_result" where
  "execute_one e env language code i tc =
     (let (output, err) = runCode e env i language code (tc_input tc);
          runtime = env_elapsed env i;
          actual = go_trim_space output;
          expected = go_trim_space (tc_expected tc);
          r = \<lparr>tr_input = tc_input tc, tr_expected = expected, tr_actual = actual,
               tr_passed = (err = None \<and> actual = expected), tr_runtime = runtime\<rparr>
      in case err of
           None \<Rightarrow> r
         | Some msg \<Rightarrow> r\<lparr>tr_actual := msg, tr_passed := False\<rparr>)"

fun execute_loop ::
  "CodeExecutor \<Rightarrow> exec_env \<Rightarrow> string \<Rightarrow> string \<Rightarrow> nat \<Rightarrow> test_case list \<Rightarrow> test_result list" where
  "execute_loop e env language code i [] = []"
| "execute_loop e env language code i (tc # tcs) =
     execute_one e env language code i tc # execute_loop e env language code (Suc i) tcs"

definition Execute ::
  "CodeExecutor \<Rightarrow> exec_env \<Rightarrow> string \<Rightarrow> string \<Rightarrow> test_case list \<Rightarrow> test_result list" where
  "Execute e env language code testCases = execute_loop e env language code 0 testCases"

section \<open>What the judge accepts\<close>

text \<open>
  The condition, read off the process's outcome, under which a test case is judged
  passed: its language has a command, the run met the deadline and succeeded, and the
  trimmed standard output equals the trimmed expected output.
\<close>

definition process_accepts ::
  "CodeExecutor \<Rightarrow> exec_env \<Rightarrow> string \<Rightarrow> string \<Rightarrow> nat \<Rightarrow> test_case \<Rightarrow> bool" where
  "process_accepts e env language code j tc =
     (case build_command language code (tc_input tc) of
        None \<Rightarrow> False
      | Some cmd \<Rightarrow>
          (let po = env_run env j cmd (ce_timeout e)
           in \<not> po_deadline po \<and> po_err po = None \<and>
              go_trim_space (po_stdout po) = go_trim_space (tc_expected tc)))"

section \<open>Scenarios\<close>

text \<open>
  Concrete test cases and environments at which the properties below are exercised: a
  test case of the two-sum problem, and processes that print a given output, that are
  stopped by the deadline, or that crash with a traceback.
\<close>

definition two_sum_case :: test_case where
  "two_sum_case = \<lparr>tc_id = 1, tc_problem_id = 1, tc_input = ''[2,7,11,15],9'',
                   tc_expected = ''[0,1]'', tc_is_hidden = False\<rparr>"

definition env_prints :: "string \<Rightarrow> exec_env" where
  "env_prints out =
     \<lparr>env_run = (\<lambda>i c t. \<lparr>po_stdout = out, po_stderr = [], po_err = None, po_deadline = False\<rparr>),
      env_elapsed = (\<lambda>i. 12)\<rparr>"

definition env_timeout :: exec_env where
  "env_timeout =
     \<lparr>env_run = (\<lambda>i c t. \<lparr>po_stdout = [], po_stderr = [], po_err = Some ''signal: killed'',
                          po_deadline = True\<rparr>),
      env_elapsed = (\<lambda>i. 5000)\<rparr>"

definition env_crash :: exec_env where
  "env_crash =
     \<lparr>env_run = (\<lambda>i c t. \<lparr>po_stdout = [], po_stderr = ''Traceback'', po_err = Some ''exit status 1'',
                          po_deadline = False\<rparr>),
      env_elapsed = (\<lambda>i. 40)\<rparr>"

lemmas scenario_defs = two_sum_case_def env_prints_def env_timeout_def env_crash_def

section \<open>Perturbations used to state properties\<close>

text \<open>
  \<open>pad_env\<close> surrounds every standard output the processes produce with white space;
  \<open>pad_tc\<close> does the same to a test case's expected output.
\<close>

definition pad_env :: "string list \<Rightarrow> string list \<Rightarrow> exec_env \<Rightarrow> exec_env" where
  "pad_env ws1 ws2 env =
     env\<lparr>env_run := \<lambda>k c t. (env_run env k c t)\<lparr>po_stdout := concat ws1 @ po_stdout (env_run env k c t) @ concat ws2\<rparr>\<rparr>"

definition pad_tc :: "string list \<Rightarrow> string list \<Rightarrow> test_case \<Rightarrow> test_case" where
  "pad_tc ws1 ws2 tc = tc\<lparr>tc_expected := concat ws1 @ tc_expected tc @ concat ws2\<rparr>"

section \<open>Lemmas\<close>

subsection \<open>The loop of Execute\<close>

lemma execute_loop_length [model_simps]:
  "length (execute_loop e env language code i tcs) = length tcs"
  by (induction tcs arbitrary: i) simp_all

lemma execute_loop_nth:
  "j < length tcs \<Longrightarrow>
   execute_loop e env language code i tcs ! j = execute_one e env language code (i + j) (tcs ! j)"
proof (induction tcs arbitrary: i j)
  case (Cons tc tcs)
  then show ?case by (cases j) simp_all
qed simp

lemma execute_loop_map2:
  "execute_loop e env language code i tcs =
   map2 (execute_one e env language code) [i..<i + length tcs] tcs"
proof (induction tcs arbitrary: i)
  case (Cons tc tcs)
  have "[i..<i + length (tc # tcs)] = i # [Suc i..<Suc i + length tcs]"
    by (simp add: upt_rec)
  with Cons show ?case by simp
qed simp

lemma Execute_length [model_simps]: "length (Execute e env language code tcs) = length tcs"
  by (simp add: Execute_def execute_loop_length)

lemma Execute_nth [model_simps]:
  "j < length tcs \<Longrightarrow> Execute e env language code tcs ! j = execute_one e env language code j (tcs ! j)"
  by (simp add: Execute_def execute_loop_nth)

subsection \<open>The branches of runCode\<close>

lemma build_command_None_iff:
  "build_command language code input = None \<longleftrightarrow>
     language \<notin> {''javascript'', ''python'', ''go''}"
  by (simp add: build_command_def)

lemma runCode_unsupported:
  "build_command language code input = None \<Longrightarrow>
   runCode e env i language code input = ([], Some (''unsupported language: '' @ language))"
  by (simp add: runCode_def)

lemma runCode_deadline:
  "build_command language code input = Some cmd \<Longrightarrow> po_deadline (env_run env i cmd (ce_timeout e)) \<Longrightarrow>
   runCode e env i language code input = ([], Some ''Time Limit Exceeded'')"
  by (simp add: runCode_def)

lemma runCode_error:
  "build_command language code input = Some cmd \<Longrightarrow> env_run env i cmd (ce_timeout e) = po \<Longrightarrow>
   \<not> po_deadline po \<Longrightarrow> po_err po = Some err \<Longrightarrow>
   runCode e env i language code input =
     ([], Some (if po_stderr po \<noteq> [] then po_stderr po else err))"
  by (simp add: runCode_def)

lemma runCode_ok:
  "build_command language code input = Some cmd \<Longrightarrow> env_run env i cmd (ce_timeout e) = po \<Longrightarrow>
   \<not> po_deadline po \<Longrightarrow> po_err po = None \<Longrightarrow>
   runCode e env i language code input = (po_stdout po, None)"
  by (simp add: runCode_def)

lemma runCode_None_iff:
  "snd (runCode e env i language code input) = None \<longleftrightarrow>
   (\<exists>cmd. build_command language code input = Some cmd \<and>
      \<not> po_deadline (env_run env i cmd (ce_timeout e)) \<and> po_err (env_run env i cmd (ce_timeout e)) = None)"
  by (auto simp: runCode_def Let_def split: option.splits)

lemmas runCode_cases = runCode_unsupported runCode_deadline runCode_error runCode_ok

subsection \<open>One test case\<close>

lemma execute_one_fields [model_simps]:
  "tr_input (execute_one e env language code i tc) = tc_input tc"
  "tr_expected (execute_one e env language code i tc) = go_trim_space (tc_expected tc)"
  "tr_runtime (execute_one e env language code i tc) = env_elapsed env i"
  "tr_passed (execute_one e env language code i tc) \<longleftrightarrow>
     snd (runCode e env i language code (tc_input tc)) = None \<and>
     go_trim_space (fst (runCode e env i language code (tc_input tc))) = go_trim_space (tc_expected tc)"
  "tr_actual (execute_one e env language code i tc) =
     (case snd (runCode e env i language code (tc_input tc)) of
        None \<Rightarrow> go_trim_space (fst (runCode e env i language code (tc_input tc)))
      | Some msg \<Rightarrow> msg)"
  by (simp_all add: execute_one_def Let_def split: prod.split option.split)

lemma execute_one_passed_iff:
  "tr_passed (execute_one e env language code j tc) \<longleftrightarrow> process_accepts e env language code j tc"
  by (auto simp: execute_one_fields runCode_def process_accepts_def Let_def split: option.splits)

subsection \<open>White space around outputs\<close>

lemma runCode_pad:
  "runCode e (pad_env ws1 ws2 env) i language code input =
     (case runCode e env i language code input of
        (out, None) \<Rightarrow> (concat ws1 @ out @ concat ws2, None)
      | (out, Some m) \<Rightarrow> (out, Some m))"
  by (simp add: runCode_def pad_env_def Let_def split: option.split)

lemma pad_env_elapsed [simp]: "env_elapsed (pad_env ws1 ws2 env) = env_elapsed env"
  by (simp add: pad_env_def)

lemma execute_one_pad:
  assumes "set ws1 \<subseteq> set go_space_encs" "set ws2 \<subseteq> set go_space_encs"
    and "set ws3 \<subseteq> set go_space_encs" "set ws4 \<subseteq> set go_space_encs"
  shows "execute_one e (pad_env ws1 ws2 env) language code i (pad_tc ws3 ws4 tc) =
         execute_one e env language code i tc"
  using assms
  by (simp add: execute_one_def runCode_pad pad_tc_def go_trim_space_pad Let_def
      split: prod.split option.split)

subsection \<open>Concrete evaluations\<close>

lemma trim_two_sum_outputs:
  "go_trim_space ''[0,1]\<newline>'' = ''[0,1]''"
  "go_trim_space ''[0,1]'' = ''[0,1]''"
  "go_trim_space ''[0, 1]'' = ''[0, 1]''"
  by code_simp+

lemma build_command_langs [simp]:
  "build_command ''javascript'' code input =
     Some \<lparr>cmd_path = ''node'', cmd_args = [''-e'', wrapJavaScript code input], cmd_stdin = None\<rparr>"
  "build_command ''python'' code input =
     Some \<lparr>cmd_path = ''python3'', cmd_args = [''-c'', wrapPython code input], cmd_stdin = None\<rparr>"
  "build_command ''go'' code input =
     Some \<lparr>cmd_path = ''go'', cmd_args = [''run'', ''-''], cmd_stdin = Some (wrapGo code input)\<rparr>"
  by (simp_all add: build_command_def)

section \<open>Properties of the executor\<close>

text \<open>
  (C2) \<open>Execute\<close> returns one result per test case, in the order of the test
  cases: the \<open>j\<close>-th result records the \<open>j\<close>-th test case's input, its expected output
  trimmed, and the time measured around the \<open>j\<close>-th run.
\<close>

theorem Execute_order:
  "length (Execute e env language code tcs) = length tcs \<and>
   (\<forall>j < length tcs.
      tr_input (Execute e env language code tcs ! j) = tc_input (tcs ! j) \<and>
      tr_expected (Execute e env language code tcs ! j) = go_trim_space (tc_expected (tcs ! j)) \<and>
      tr_runtime (Execute e env language code tcs ! j) = env_elapsed env j)"
  by (simp add: Execute_length Execute_nth execute_one_fields)

text \<open>
  (C3) A test case passes exactly when its language has a command, the
  process finished before the deadline and without error, and its standard output,
  trimmed, equals the expected output, trimmed. Standard error plays no part once the
  process has succeeded.
\<close>

theorem Execute_passed_iff:
  assumes "j < length tcs"
  shows "tr_passed (Execute e env language code tcs ! j) \<longleftrightarrow>
    (\<exists>cmd. build_command language code (tc_input (tcs ! j)) = Some cmd \<and>
       \<not> po_deadline (env_run env j cmd (ce_timeout e)) \<and>
       po_err (env_run env j cmd (ce_timeout e)) = None \<and>
       go_trim_space (po_stdout (env_run env j cmd (ce_timeout e))) =
         go_trim_space (tc_expected (tcs ! j)))"
  using assms
  by (auto simp: Execute_nth execute_one_fields runCode_def Let_def split: option.splits)

text \<open>
  (C5) A test case whose process is stopped by the deadline fails, and its
  actual output is the message \<open>Time Limit Exceeded\<close>, whatever the process printed.
\<close>

theorem Execute_timeout:
  assumes "j < length tcs"
    and "build_command language code (tc_input (tcs ! j)) = Some cmd"
    and "po_deadline (env_run env j cmd (ce_timeout e))"
  shows "\<not> tr_passed (Execute e env language code tcs ! j) \<and>
         tr_actual (Execute e env language code tcs ! j) = ''Time Limit Exceeded''"
  using assms by (simp add: Execute_nth execute_one_fields runCode_deadline)

text \<open>
  (C6) A test case whose process fails before the deadline fails; its
  actual output is the captured standard error, or the message of the error returned by
  \<open>cmd.Run\<close> when nothing was written to standard error.
\<close>

theorem Execute_runtime_error:
  assumes "j < length tcs"
    and "build_command language code (tc_input (tcs ! j)) = Some cmd"
    and "env_run env j cmd (ce_timeout e) = po"
    and "\<not> po_deadline po" and "po_err po = Some err"
  shows "\<not> tr_passed (Execute e env language code tcs ! j) \<and>
         tr_actual (Execute e env language code tcs ! j) =
           (if po_stderr po \<noteq> [] then po_stderr po else err)"
  using assms by (simp add: Execute_nth execute_one_fields runCode_error)

text \<open>
  (C7) For a language other than \<open>javascript\<close>, \<open>python\<close> and \<open>go\<close>,
  every test case fails with the message \<open>unsupported language: \<close> followed by the
  language; the request is not rejected as a whole.
\<close>

theorem Execute_unsupported:
  assumes "language \<notin> {''javascript'', ''python'', ''go''}"
  shows "Execute e env language code tcs =
    map2 (\<lambda>j tc. \<lparr>tr_input = tc_input tc, tr_expected = go_trim_space (tc_expected tc),
                   tr_actual = ''unsupported language: '' @ language, tr_passed = False,
                   tr_runtime = env_elapsed env j\<rparr>)
      [0..<length tcs] tcs"
proof -
  have "build_command language code input = None" for input
    using assms by (simp add: build_command_None_iff)
  then show ?thesis
    by (simp add: Execute_def execute_loop_map2 execute_one_def runCode_unsupported
        cong: map_cong)
qed

text \<open>
  (C10) Judging ignores white space at the ends of the outputs: with
  every process output and every expected output surrounded by any runs of white space,
  \<open>Execute\<close> returns the same results.
\<close>

theorem Execute_trim_invariant:
  assumes "set ws1 \<subseteq> set go_space_encs" "set ws2 \<subseteq> set go_space_encs"
    and "set ws3 \<subseteq> set go_space_encs" "set ws4 \<subseteq> set go_space_encs"
  shows "Execute e (pad_env ws1 ws2 env) language code (map (pad_tc ws3 ws4) tcs) =
         Execute e env language code tcs"
  by (rule nth_equalityI) (simp_all add: Execute_length Execute_nth execute_one_pad assms)

text \<open>
  (C11) Test cases do not interfere: the \<open>j\<close>-th result depends only on
  the \<open>j\<close>-th test case, not on the others or on how many there are.
\<close>

theorem Execute_independent:
  assumes "j < length tcs" and "j < length tcs'" and "tcs ! j = tcs' ! j"
  shows "Execute e env language code tcs ! j = Execute e env language code tcs' ! j"
  using assms by (simp add: Execute_nth)

text \<open>
  White space inside an output is significant: a program
  printing \<open>[0, 1]\<close> (as Python's \<open>json.dumps\<close> does by default) fails a test case
  that expects \<open>[0,1]\<close>, and one printing \<open>[0,1]\<close> followed by a newline passes it.
\<close>

theorem Execute_internal_whitespace:
  "\<not> tr_passed (Execute (New 0) (env_prints ''[0, 1]\<newline>'') ''python'' ''pass'' [two_sum_case] ! 0) \<and>
   tr_passed (Execute (New 0) (env_prints ''[0,1]\<newline>'') ''python'' ''pass'' [two_sum_case] ! 0)"
proof -
  have "go_trim_space ''[0, 1]\<newline>'' = ''[0, 1]''"
    by code_simp
  then show ?thesis
    by (simp add: Execute_nth execute_one_passed_iff process_accepts_def env_prints_def
        two_sum_case_def trim_two_sum_outputs)
qed

section \<open>Witnesses\<close>

theorem Execute_order_witness:
  "length (Execute (New 0) (env_prints ''[0,1]'') ''python'' ''pass'' [two_sum_case]) = 1 \<and>
   tr_input (Execute (New 0) (env_prints ''[0,1]'') ''python'' ''pass'' [two_sum_case] ! 0) =
     ''[2,7,11,15],9'' \<and>
   tr_runtime (Execute (New 0) (env_prints ''[0,1]'') ''python'' ''pass'' [two_sum_case] ! 0) = 12"
  using Execute_order [of "New 0" "env_prints ''[0,1]''" "''python''" "''pass''" "[two_sum_case]"]
  by (simp add: scenario_defs)

theorem Execute_passed_iff_witness:
  "tr_passed (Execute (New 0) (env_prints ''[0,1]\<newline>'') ''javascript''
                ''function twoSum(a, t) { return [0, 1]; }'' [two_sum_case] ! 0)"
  using Execute_passed_iff [of 0 "[two_sum_case]" "New 0" "env_prints ''[0,1]\<newline>''"
      "''javascript''" "''function twoSum(a, t) { return [0, 1]; }''"]
  by (simp add: scenario_defs trim_two_sum_outputs)

theorem Execute_timeout_witness:
  "\<not> tr_passed (Execute (New 200000000) env_timeout ''python'' ''while True: pass'' [two_sum_case] ! 0) \<and>
   tr_actual (Execute (New 200000000) env_timeout ''python'' ''while True: pass'' [two_sum_case] ! 0) =
     ''Time Limit Exceeded''"
  by (rule Execute_timeout [where cmd = "\<lparr>cmd_path = ''python3'',
        cmd_args = [''-c'', wrapPython ''while True: pass'' ''[2,7,11,15],9''], cmd_stdin = None\<rparr>"])
     (simp_all add: scenario_defs)

theorem Execute_runtime_error_witness:
  "\<not> tr_passed (Execute (New 0) env_crash ''python'' ''raise Exception()'' [two_sum_case] ! 0) \<and>
   tr_actual (Execute (New 0) env_crash ''python'' ''raise Exception()'' [two_sum_case] ! 0) = ''Traceback''"
  using Execute_runtime_error [of 0 "[two_sum_case]" "''python''" "''raise Exception()''"
      "\<lparr>cmd_path = ''python3'', cmd_args = [''-c'', wrapPython ''raise Exception()'' ''[2,7,11,15],9''],
        cmd_stdin = None\<rparr>" env_crash "New 0"]
  by (simp add: scenario_defs)

theorem Execute_unsupported_witness:
  "Execute (New 0) (env_prints ''[0,1]'') ''ruby'' ''def two_sum; end'' [two_sum_case] =
     [\<lparr>tr_input = ''[2,7,11,15],9'', tr_expected = ''[0,1]'',
       tr_actual = ''unsupported language: ruby'', tr_passed = False, tr_runtime = 12\<rparr>]"
  using Execute_unsupported [of "''ruby''" "New 0" "env_prints ''[0,1]''" "''def two_sum; end''"
      "[two_sum_case]"]
  by (simp add: scenario_defs trim_two_sum_outputs)

theorem Execute_trim_invariant_witness:
  "Execute (New 0) (pad_env [[CHR 0x20]] [go_nl] (env_prints ''[0,1]'')) ''python'' ''pass''
      (map (pad_tc [[CHR 0x09]] [[CHR 0xC2, CHR 0xA0]]) [two_sum_case]) =
   Execute (New 0) (env_prints ''[0,1]'') ''python'' ''pass'' [two_sum_case]"
  by (rule Execute_trim_invariant) (simp_all add: go_space_encs_def go_ascii_spaces_def
      go_unicode_spaces_def go_nl_def)

theorem Execute_independent_witness:
  "Execute (New 0) env_crash ''python'' ''pass'' [two_sum_case] ! 0 =
   Execute (New 0) env_crash ''python'' ''pass'' [two_sum_case, two_sum_case\<lparr>tc_input := ''[3,3],6''\<rparr>] ! 0"
  by (rule Execute_independent) simp_all

end
