(* ===== verification/SqliteSchema.thy ===== *)
theory SqliteSchema
  imports Repositories
begin

text \<open>
  The schema of the SQLite database of \<open>internal/infrastructure/persistence/sqlite\<close>:
  the GORM row structs (\<open>ProblemModel\<close>, \<open>TestCaseModel\<close>, \<open>TopicModel\<close>,
  \<open>SubmissionModel\<close>, with the embedded \<open>gorm.Model\<close>), the tables as the record
  \<open>sqlite_db\<close>, and the row mappers \<open>toDomainProblem\<close>, \<open>toModelProblem\<close>,
  \<open>toDomainSubmission\<close>, \<open>toModelSubmission\<close> with what their round trips keep and
  lose. GORM's soft delete is the field \<open>gm_deleted_at\<close>: a row is \<open>live\<close> when it is
  unset, and GORM's queries on a model skip the others. The JSON encoding of the results
  column is the parameter \<open>results_codec\<close>; \<open>ResultsJson\<close> gives the one
  \<open>json.Marshal\<close> and \<open>json.Unmarshal\<close> implement, \<open>go_results_codec\<close>.
\<close>

section \<open>Rows\<close>

record gorm_model =
  gm_id :: go_uint
  gm_created_at :: go_time
  gm_updated_at :: go_time
  gm_deleted_at :: "go_time option"

record TestCaseModel =
  tcm_model :: gorm_model
  tcm_problem_id :: go_uint
  tcm_input :: string
  tcm_expected :: string
  tcm_is_hidden :: bool

record TopicModel =
  tpm_model :: gorm_model
  tpm_name :: string
  tpm_slug :: string

record ProblemModel =
  pm_model :: gorm_model
  pm_slug :: string
  pm_title :: string
  pm_difficulty :: string
  pm_category :: string
  pm_description :: string
  pm_examples :: string
  pm_constraints :: string
  pm_starter_code :: string
  pm_acceptance_rate :: real
  pm_submissions :: go_int
  pm_accepted :: go_int
  pm_is_premium :: bool
  pm_test_cases :: "TestCaseModel list"
  pm_topics :: "TopicModel list"

record SubmissionModel =
  sm_id :: string
  sm_problem_id :: go_uint
  sm_language :: string
  sm_code :: string
  sm_status :: string
  sm_runtime :: go_int
  sm_memory :: go_int
  sm_output :: string
  sm_results :: string
  sm_created_at :: go_int

record results_codec =
  json_marshal :: "test_result list \<Rightarrow> string"
  json_unmarshal :: "string \<Rightarrow> test_result list"

text \<open>
  The database: one list per table, in the order SQLite stores the rows (row-id order,
  which is insertion order), and the \<open>submissions\<close> table by primary key. A row of
  \<open>problems\<close> is a \<open>ProblemModel\<close> whose association fields are empty: test cases
  live in \<open>test_cases\<close> (foreign key \<open>problem_id\<close>), topics in \<open>topics\<close>, linked
  through the join table \<open>problem_topics\<close> of pairs
  \<open>(problem_model_id, topic_model_id)\<close>; \<open>Preload\<close> fills the association fields.
\<close>

record sqlite_db =
  db_problems :: "ProblemModel list"
  db_test_cases :: "TestCaseModel list"
  db_topics :: "TopicModel list"
  db_problem_topics :: "(go_uint \<times> go_uint) list"
  db_submissions :: "string \<rightharpoonup> SubmissionModel"

text \<open>
  \<open>NewDB\<close> of \<open>db.go\<close> opens the database file and auto-migrates the four models;
  \<open>main\<close> removes the file first, so the result is the empty schema. Failures to open
  or migrate (file system errors) are not modelled.
\<close>

definition NewDB :: sqlite_db where
  "NewDB = \<lparr>db_problems = [], db_test_cases = [], db_topics = [], db_problem_topics = [],
            db_submissions = Map.empty\<rparr>"

abbreviation pm_id :: "ProblemModel \<Rightarrow> go_uint" where "pm_id m \<equiv> gm_id (pm_model m)"
abbreviation tcm_id :: "TestCaseModel \<Rightarrow> go_uint" where "tcm_id m \<equiv> gm_id (tcm_model m)"
abbreviation tpm_id :: "TopicModel \<Rightarrow> go_uint" where "tpm_id m \<equiv> gm_id (tpm_model m)"

section \<open>Row mappers\<close>

text \<open>\<open>gorm.Model{ID: i}\<close>: the other fields keep their zero values.\<close>

definition gorm_model_id :: "go_uint \<Rightarrow> gorm_model" where
  "gorm_model_id i =
     \<lparr>gm_id = i, gm_created_at = go_zero_time, gm_updated_at = go_zero_time, gm_deleted_at = None\<rparr>"

definition toDomainProblem :: "ProblemModel \<Rightarrow> problem" where
  "toDomainProblem m =
     (let testCases =
            map (\<lambda>tc. \<lparr>tc_id = gm_id (tcm_model tc), tc_problem_id = tcm_problem_id tc,
                       tc_input = tcm_input tc, tc_expected = tcm_expected tc,
                       tc_is_hidden = tcm_is_hidden tc\<rparr>) (pm_test_cases m);
          topics =
            map (\<lambda>t. \<lparr>topic_id = gm_id (tpm_model t), topic_name = tpm_name t,
                      topic_slug = tpm_slug t, topic_count = 0\<rparr>) (pm_topics m)
      in \<lparr>p_id = gm_id (pm_model m), p_slug = pm_slug m, p_title = pm_title m,
          p_difficulty = pm_difficulty m, p_category = pm_category m,
          p_description = pm_description m, p_examples = pm_examples m,
          p_constraints = pm_constraints m, p_starter_code = pm_starter_code m,
          p_acceptance_rate = pm_acceptance_rate m, p_submissions = pm_submissions m,
          p_accepted = pm_accepted m, p_topics = topics, p_test_cases = testCases,
          p_is_premium = pm_is_premium m, p_created_at = gm_created_at (pm_model m),
          p_updated_at = gm_updated_at (pm_model m)\<rparr>)"

definition toModelProblem :: "problem \<Rightarrow> ProblemModel" where
  "toModelProblem p =
     (let testCases =
            map (\<lambda>tc. \<lparr>tcm_model = gorm_model_id 0, tcm_problem_id = p_id p,
                       tcm_input = tc_input tc, tcm_expected = tc_expected tc,
                       tcm_is_hidden = tc_is_hidden tc\<rparr>) (p_test_cases p);
          topics =
            map (\<lambda>t. \<lparr>tpm_model = gorm_model_id (topic_id t), tpm_name = topic_name t,
                      tpm_slug = topic_slug t\<rparr>) (p_topics p)
      in \<lparr>pm_model = gorm_model_id (p_id p), pm_slug = p_slug p, pm_title = p_title p,
          pm_difficulty = p_difficulty p, pm_category = p_category p,
          pm_description = p_description p, pm_examples = p_examples p,
          pm_constraints = p_constraints p, pm_starter_code = p_starter_code p,
          pm_acceptance_rate = p_acceptance_rate p, pm_submissions = p_submissions p,
          pm_accepted = p_accepted p, pm_is_premium = p_is_premium p,
          pm_test_cases = testCases, pm_topics = topics\<rparr>)"

text \<open>
  \<open>toDomainSubmission\<close> decodes the results only when the column is not empty and
  ignores the decoder's error; it does not set \<open>CreatedAt\<close>, which keeps the zero time.
\<close>

definition toDomainSubmission :: "results_codec \<Rightarrow> SubmissionModel \<Rightarrow> submission" where
  "toDomainSubmission c m =
     (let results = (if sm_results m \<noteq> [] then json_unmarshal c (sm_results m) else [])
      in \<lparr>sub_id = sm_id m, sub_problem_id = sm_problem_id m, sub_language = sm_language m,
          sub_code = sm_code m, sub_status = sm_status m, sub_runtime = sm_runtime m,
          sub_memory = sm_memory m, sub_output = sm_output m, sub_results = results,
          sub_created_at = go_zero_time\<rparr>)"

definition toModelSubmission :: "results_codec \<Rightarrow> submission \<Rightarrow> SubmissionModel" where
  "toModelSubmission c s =
     (let resultsJSON = json_marshal c (sub_results s)
      in \<lparr>sm_id = sub_id s, sm_problem_id = sub_problem_id s, sm_language = sub_language s,
          sm_code = sub_code s, sm_status = sub_status s, sm_runtime = sub_runtime s,
          sm_memory = sub_memory s, sm_output = sub_output s, sm_results = resultsJSON,
          sm_created_at = go_unix (sub_created_at s)\<rparr>)"

text \<open>GORM's soft-delete scope, and the \<open>ORDER BY id\<close> of \<open>First\<close> and \<open>FindAll\<close>.\<close>

definition live :: "gorm_model \<Rightarrow> bool" where
  "live g \<longleftrightarrow> gm_deleted_at g = None"

definition order_by_id :: "ProblemModel list \<Rightarrow> ProblemModel list" where
  "order_by_id ms = sort_key pm_id ms"

section \<open>Lemmas\<close>

lemma submission_rows_roundtrip:
  assumes "json_marshal c (sub_results s) \<noteq> []"
    and "json_unmarshal c (json_marshal c (sub_results s)) = sub_results s"
  shows "toDomainSubmission c (toModelSubmission c s) = s\<lparr>sub_created_at := go_zero_time\<rparr>"
  using assms by (simp add: toDomainSubmission_def toModelSubmission_def Let_def)

section \<open>Properties of the row mappers\<close>

text \<open>
  (C34) Writing a problem to its row and reading it back
  keeps every field but these: the test cases lose their identifiers and are bound to the
  problem's identifier, topics lose their counts, and both time stamps become the zero
  time.
\<close>

theorem toDomainProblem_toModelProblem:
  "toDomainProblem (toModelProblem p) =
     p\<lparr>p_test_cases := map (\<lambda>tc. tc\<lparr>tc_id := 0, tc_problem_id := p_id p\<rparr>) (p_test_cases p),
       p_topics := map (\<lambda>t. t\<lparr>topic_count := 0\<rparr>) (p_topics p),
       p_created_at := go_zero_time, p_updated_at := go_zero_time\<rparr>"
  by (simp add: toDomainProblem_def toModelProblem_def gorm_model_id_def comp_def Let_def)

text \<open>
  Reading a live row and writing it back keeps the row's
  content but resets what the domain struct does not carry or the mapper drops: test-case
  row identifiers and time stamps, topic time stamps, the problem's time stamps, and it
  rebinds every test case to the problem's identifier.
\<close>

theorem toModelProblem_toDomainProblem:
  "toModelProblem (toDomainProblem m) =
     m\<lparr>pm_model := gorm_model_id (gm_id (pm_model m)),
       pm_test_cases := map (\<lambda>tc. tc\<lparr>tcm_model := gorm_model_id 0, tcm_problem_id := gm_id (pm_model m)\<rparr>)
                            (pm_test_cases m),
       pm_topics := map (\<lambda>t. t\<lparr>tpm_model := gorm_model_id (gm_id (tpm_model t))\<rparr>) (pm_topics m)\<rparr>"
  by (simp add: toDomainProblem_def toModelProblem_def comp_def Let_def)

end
