(* ===== verification/SqlLike.thy ===== *)
theory SqlLike
  imports Prelude
begin

text \<open>
  The two SQLite string functions \<open>FindAll\<close>'s search uses: \<open>LOWER\<close>, which folds
  ASCII letters only (SQLite built without ICU), and the \<open>LIKE\<close> operator without an
  \<open>ESCAPE\<close> clause, after SQLite's \<open>patternCompare\<close>: \<open>%\<close> matches any sequence of
  characters, \<open>_\<close> exactly one character, any other pattern character itself with ASCII
  letters compared without case. Characters are UTF-8 sequences as \<open>sqlite3Utf8Read\<close>
  reads them: a lead byte from \<open>0xC0\<close> up takes the continuation bytes that follow it.
  Literal characters are compared byte by byte, which agrees with SQLite's comparison of
  code points on well-formed UTF-8.
\<close>

section \<open>Definitions\<close>

definition sql_lower :: "string \<Rightarrow> string" where
  "sql_lower s = map ascii_lower s"

definition utf8_cont :: "char \<Rightarrow> bool" where
  "utf8_cont c \<longleftrightarrow> of_char c div (64::nat) = 2"

fun utf8_len :: "string \<Rightarrow> nat" where
  "utf8_len [] = 0"
| "utf8_len (c # cs) =
     (if (192::nat) \<le> of_char c then Suc (length (takeWhile utf8_cont cs)) else 1)"

lemma utf8_len_pos: "s \<noteq> [] \<Longrightarrow> 0 < utf8_len s"
  by (cases s) simp_all

function sql_like :: "string \<Rightarrow> string \<Rightarrow> bool" where
  "sql_like [] s \<longleftrightarrow> s = []"
| "sql_like (c # p) s \<longleftrightarrow>
     (if c = CHR ''%'' then sql_like p s \<or> (if s = [] then False else sql_like (c # p) (drop (utf8_len s) s))
      else if c = CHR ''_'' then (if s = [] then False else sql_like p (drop (utf8_len s) s))
      else (case s of [] \<Rightarrow> False | d # s' \<Rightarrow> ascii_lower c = ascii_lower d \<and> sql_like p s'))"
  by pat_completeness auto
termination
  by (relation "measures [\<lambda>(p, s). length p, \<lambda>(p, s). length s]")
     (auto simp: utf8_len_pos)

definition like_wild :: "char \<Rightarrow> bool" where
  "like_wild c \<longleftrightarrow> c = CHR ''%'' \<or> c = CHR ''_''"

section \<open>Lemmas\<close>

declare sql_like.simps [simp del]

lemma utf8_len_ascii [simp]: "is_ascii c \<Longrightarrow> utf8_len (c # s) = 1"
  by (simp add: is_ascii_def)

lemma sql_like_Nil_pat [simp]: "sql_like [] s \<longleftrightarrow> s = []"
  by (subst sql_like.simps) (rule refl)

lemma sql_like_percent_Nil: "sql_like (CHR ''%'' # q) [] \<longleftrightarrow> sql_like q []"
  by (subst sql_like.simps) simp

lemma sql_like_percent_Cons:
  "is_ascii c \<Longrightarrow> sql_like (CHR ''%'' # q) (c # s) \<longleftrightarrow>
     sql_like q (c # s) \<or> sql_like (CHR ''%'' # q) s"
  by (subst sql_like.simps) (simp add: is_ascii_def)

lemma sql_like_percent_step:
  "s \<noteq> [] \<Longrightarrow> sql_like (CHR ''%'' # q) s \<longleftrightarrow>
     sql_like q s \<or> sql_like (CHR ''%'' # q) (drop (utf8_len s) s)"
  by (subst sql_like.simps) simp

lemma sql_like_literal_Cons:
  "\<not> like_wild c \<Longrightarrow> sql_like (c # q) s \<longleftrightarrow>
     (case s of [] \<Rightarrow> False | d # s' \<Rightarrow> ascii_lower c = ascii_lower d \<and> sql_like q s')"
  by (subst sql_like.simps) (simp add: like_wild_def)

text \<open>A trailing \<open>%\<close> matches every rest of the text.\<close>

lemma sql_like_percent_all: "sql_like [CHR ''%''] s"
proof (induction s rule: length_induct)
  case (1 s)
  show ?case
  proof (cases s)
    case Nil
    then show ?thesis by (simp add: sql_like_percent_Nil)
  next
    case (Cons c s')
    then have "length (drop (utf8_len s) s) < length s"
      using utf8_len_pos [of s] by simp
    with 1 have "sql_like [CHR ''%''] (drop (utf8_len s) s)" by blast
    with Cons show ?thesis using sql_like_percent_step [of s "[]"] by simp
  qed
qed

text \<open>A pattern without wildcards followed by \<open>%\<close> tests for a prefix, up to case.\<close>

lemma sql_like_literal_prefix:
  "\<not> list_ex like_wild w \<Longrightarrow>
   sql_like (w @ [CHR ''%'']) t \<longleftrightarrow> prefix (map ascii_lower w) (map ascii_lower t)"
proof (induction w arbitrary: t)
  case Nil
  then show ?case by (simp add: sql_like_percent_all)
next
  case (Cons c w)
  then show ?case
    by (cases t) (simp_all add: sql_like_literal_Cons)
qed

text \<open>
  On ASCII text, \<open>%w%\<close> with \<open>w\<close> free of wildcards tests whether \<open>w\<close> occurs in
  the text as a contiguous segment, up to case.
\<close>

lemma sql_like_contains:
  assumes "\<not> list_ex like_wild w" and "list_all is_ascii s"
  shows "sql_like (CHR ''%'' # w @ [CHR ''%'']) s \<longleftrightarrow> sublist (map ascii_lower w) (map ascii_lower s)"
  using assms(2)
proof (induction s)
  case Nil
  show ?case
    using sql_like_literal_prefix [OF assms(1), of "[]"] by (simp add: sql_like_percent_Nil)
next
  case (Cons c s)
  then show ?case
    using sql_like_literal_prefix [OF assms(1), of "c # s"]
    by (simp add: sql_like_percent_Cons sublist_Cons_right)
qed

lemma like_wild_ascii_lower [simp]: "like_wild (ascii_lower c) \<longleftrightarrow> like_wild c"
  using ascii_lower_fixed_eq [of "CHR ''%''" c] ascii_lower_fixed_eq [of "CHR ''_''" c]
  by (auto simp: like_wild_def)

end
