(* ===== verification/SqliteProblemRepo.thy ===== *)
theory SqliteProblemRepo
  imports SqliteSchema GoStrings SqlLike
begin

text \<open>
  \<open>ProblemRepository\<close> of \<open>persistence/sqlite/problem_repo.go\<close> over the tables of
  \<open>sqlite_db\<close>, as an implementation of the problem repository interface.

  What GORM and SQLite do with each call is written out: \<open>First\<close> is
  \<open>WHERE ... AND deleted_at IS NULL ORDER BY id LIMIT 1\<close>; \<open>Preload\<close> reads the
  live associated rows in table order; \<open>Joins\<close> joins without a soft-delete condition on
  the joined tables; \<open>Count\<close> counts the rows of the join; \<open>Offset\<close> is applied when
  positive and \<open>Limit\<close> when not negative (the SQLite dialect's \<open>LIMIT -1\<close>);
  \<open>Create\<close> inserts the row with the next row id (\<open>max + 1\<close>) or the given one, sets
  both time stamps, and then saves the associations as GORM does by default: test cases
  are inserted bound to the new row, topics are inserted with \<open>ON CONFLICT DO NOTHING\<close>
  and linked through \<open>problem_topics\<close>, also with \<open>ON CONFLICT DO NOTHING\<close>; a taken
  primary key or slug (the unique index covers soft-deleted rows) fails the whole
  transaction. \<open>Update\<close> is \<open>Save\<close>: with an identifier it updates every column of
  the live row, writing the zero \<open>CreatedAt\<close> the domain struct carries and the clock
  reading into \<open>UpdatedAt\<close>, or, when there is no live row, inserts it (reviving a
  soft-deleted row and keeping its creation time); the associations are saved as by
  \<open>Create\<close>. \<open>Delete\<close> is GORM's soft delete. \<open>GetTopics\<close> groups the topics
  table, soft-deleted rows included, by identifier and orders by the count, ties in
  identifier order.

  Two choices where GORM's behaviour depends on its version: a topic without identifier
  whose name or slug is taken is linked under identifier 0 (GORM leaves the identifier
  unset when the insert does nothing), and \<open>Save\<close>'s fallback insert saves the
  associations once.
\<close>

section \<open>Reads\<close>

definition preload_test_cases :: "sqlite_db \<Rightarrow> ProblemModel \<Rightarrow> ProblemModel" where
  "preload_test_cases db m =
     m\<lparr>pm_test_cases :=
         [tc \<leftarrow> db_test_cases db. live (tcm_model tc) \<and> tcm_problem_id tc = pm_id m]\<rparr>"

definition preload_topics :: "sqlite_db \<Rightarrow> ProblemModel \<Rightarrow> ProblemModel" where
  "preload_topics db m =
     m\<lparr>pm_topics :=
         [t \<leftarrow> db_topics db. live (tpm_model t) \<and> (pm_id m, tpm_id t) \<in> set (db_problem_topics db)]\<rparr>"

definition first_where :: "(ProblemModel \<Rightarrow> bool) \<Rightarrow> sqlite_db \<Rightarrow> ProblemModel option" where
  "first_where P db = find (\<lambda>m. live (pm_model m) \<and> P m) (order_by_id (db_problems db))"

definition problem_FindBySlug :: "sqlite_db \<Rightarrow> string \<Rightarrow> store_error + problem" where
  "problem_FindBySlug db slug =
     (case first_where (\<lambda>m. pm_slug m = slug) db of
        None \<Rightarrow> Inl RecordNotFound
      | Some m \<Rightarrow> Inr (toDomainProblem (preload_topics db (preload_test_cases db m))))"

definition problem_FindByID :: "sqlite_db \<Rightarrow> go_uint \<Rightarrow> store_error + problem" where
  "problem_FindByID db i =
     (case first_where (\<lambda>m. pm_id m = i) db of
        None \<Rightarrow> Inl RecordNotFound
      | Some m \<Rightarrow> Inr (toDomainProblem (preload_topics db (preload_test_cases db m))))"

text \<open>The query of \<open>FindAll\<close>, filter by filter, in the order the code adds them.\<close>

definition topic_join :: "sqlite_db \<Rightarrow> string \<Rightarrow> ProblemModel list \<Rightarrow> ProblemModel list" where
  "topic_join db slug ms =
     [m. m \<leftarrow> ms, pt \<leftarrow> db_problem_topics db, fst pt = pm_id m,
         t \<leftarrow> db_topics db, tpm_id t = snd pt, tpm_slug t = slug]"

definition find_all_query :: "sqlite_db \<Rightarrow> find_options \<Rightarrow> ProblemModel list" where
  "find_all_query db opts =
     (let query = filter (\<lambda>m. live (pm_model m)) (db_problems db);
          query = (if fo_difficulty opts \<noteq> [] then filter (\<lambda>m. pm_difficulty m = fo_difficulty opts) query
                   else query);
          query = (if fo_category opts \<noteq> [] then filter (\<lambda>m. pm_category m = fo_category opts) query
                   else query);
          query = (if fo_search opts \<noteq> [] then
                     (let search = ''%'' @ go_to_lower (fo_search opts) @ ''%''
                      in filter (\<lambda>m. sql_like search (sql_lower (pm_title m)) \<or>
                                     sql_like search (sql_lower (pm_slug m))) query)
                   else query);
          query = (if fo_topic_slug opts \<noteq> [] then topic_join db (fo_topic_slug opts) query
                   else query)
      in query)"

text \<open>The columns \<open>FindAll\<close> selects; the others keep their zero values.\<close>

definition select_list_columns :: "ProblemModel \<Rightarrow> ProblemModel" where
  "select_list_columns m =
     \<lparr>pm_model = \<lparr>gm_id = pm_id m, gm_created_at = gm_created_at (pm_model m),
                  gm_updated_at = go_zero_time, gm_deleted_at = None\<rparr>,
      pm_slug = pm_slug m, pm_title = pm_title m, pm_difficulty = pm_difficulty m,
      pm_category = pm_category m, pm_description = [], pm_examples = [], pm_constraints = [],
      pm_starter_code = [], pm_acceptance_rate = pm_acceptance_rate m,
      pm_submissions = pm_submissions m, pm_accepted = pm_accepted m,
      pm_is_premium = pm_is_premium m, pm_test_cases = [], pm_topics = []\<rparr>"

definition sql_limit_offset :: "go_int \<Rightarrow> go_int \<Rightarrow> 'a list \<Rightarrow> 'a list" where
  "sql_limit_offset lmt ofs xs =
     (let xs = (if 0 < sint ofs then drop (nat (sint ofs)) xs else xs)
      in if 0 \<le> sint lmt then take (nat (sint lmt)) xs else xs)"

definition problem_FindAll :: "sqlite_db \<Rightarrow> find_options \<Rightarrow> store_error + (problem list \<times> go_int)" where
  "problem_FindAll db opts =
     (let query = find_all_query db opts;
          total = (of_nat (length query) :: go_int);
          offset = (fo_page opts - 1) * fo_limit opts;
          models = sql_limit_offset (fo_limit opts) offset (order_by_id query);
          problems = map (\<lambda>m. toDomainProblem (preload_topics db (select_list_columns m))) models
      in Inr (problems, total))"

definition topic_problem_count :: "sqlite_db \<Rightarrow> TopicModel \<Rightarrow> nat" where
  "topic_problem_count db t = length [pt \<leftarrow> db_problem_topics db. snd pt = tpm_id t]"

definition problem_GetTopics :: "sqlite_db \<Rightarrow> store_error + topic list" where
  "problem_GetTopics db =
     Inr (map (\<lambda>t. \<lparr>topic_id = tpm_id t, topic_name = tpm_name t, topic_slug = tpm_slug t,
                    topic_count = of_nat (topic_problem_count db t)\<rparr>)
            (sort_key (\<lambda>t. - int (topic_problem_count db t)) (sort_key tpm_id (db_topics db))))"

section \<open>Writes\<close>

definition next_rowid :: "go_uint list \<Rightarrow> go_uint" where
  "next_rowid ids = Suc (fold max ids 0)"

definition stamp :: "go_uint \<Rightarrow> go_time \<Rightarrow> go_time \<Rightarrow> gorm_model" where
  "stamp i created updated =
     \<lparr>gm_id = i, gm_created_at = created, gm_updated_at = updated, gm_deleted_at = None\<rparr>"

primrec insert_test_cases ::
  "go_time \<Rightarrow> go_uint \<Rightarrow> TestCaseModel list \<Rightarrow> sqlite_db \<Rightarrow> sqlite_db" where
  "insert_test_cases now pid [] db = db"
| "insert_test_cases now pid (tc # tcs) db =
     insert_test_cases now pid tcs
       (db\<lparr>db_test_cases := db_test_cases db @
           [tc\<lparr>tcm_model := stamp (next_rowid (map tcm_id (db_test_cases db))) now now,
               tcm_problem_id := pid\<rparr>]\<rparr>)"

definition upsert_topic :: "go_time \<Rightarrow> TopicModel \<Rightarrow> sqlite_db \<Rightarrow> go_uint \<times> sqlite_db" where
  "upsert_topic now t db =
     (let ts = db_topics db;
          taken = list_ex (\<lambda>u. tpm_name u = tpm_name t \<or> tpm_slug u = tpm_slug t) ts
      in if tpm_id t \<noteq> 0 then
           (if taken \<or> list_ex (\<lambda>u. tpm_id u = tpm_id t) ts then (tpm_id t, db)
            else (tpm_id t, db\<lparr>db_topics := insort_key tpm_id (t\<lparr>tpm_model := stamp (tpm_id t) now now\<rparr>) ts\<rparr>))
         else if taken then (0, db)
         else (let i = next_rowid (map tpm_id ts)
               in (i, db\<lparr>db_topics := ts @ [t\<lparr>tpm_model := stamp i now now\<rparr>]\<rparr>)))"

definition link_topic :: "go_uint \<Rightarrow> go_uint \<Rightarrow> sqlite_db \<Rightarrow> sqlite_db" where
  "link_topic pid tid db =
     (if (pid, tid) \<in> set (db_problem_topics db) then db
      else db\<lparr>db_problem_topics := db_problem_topics db @ [(pid, tid)]\<rparr>)"

primrec save_topics :: "go_time \<Rightarrow> go_uint \<Rightarrow> TopicModel list \<Rightarrow> sqlite_db \<Rightarrow> sqlite_db" where
  "save_topics now pid [] db = db"
| "save_topics now pid (t # ts) db =
     (let (tid, db) = upsert_topic now t db in save_topics now pid ts (link_topic pid tid db))"

definition save_associations :: "go_time \<Rightarrow> go_uint \<Rightarrow> ProblemModel \<Rightarrow> sqlite_db \<Rightarrow> sqlite_db" where
  "save_associations now pid model db =
     save_topics now pid (pm_topics model) (insert_test_cases now pid (pm_test_cases model) db)"

definition problem_Create :: "sqlite_db \<Rightarrow> go_time \<Rightarrow> problem \<Rightarrow> store_error + (problem \<times> sqlite_db)" where
  "problem_Create db now p =
     (let model = toModelProblem p;
          rows = db_problems db;
          i = (if pm_id model = 0 then next_rowid (map pm_id rows) else pm_id model)
      in if list_ex (\<lambda>m. pm_id m = i \<or> pm_slug m = pm_slug model) rows then Inl DuplicateKey
         else (let row = model\<lparr>pm_model := stamp i now now, pm_test_cases := [], pm_topics := []\<rparr>;
                   db = db\<lparr>db_problems := insort_key pm_id row rows\<rparr>
               in Inr (p\<lparr>p_id := i\<rparr>, save_associations now i model db)))"

definition problem_Update :: "sqlite_db \<Rightarrow> go_time \<Rightarrow> problem \<Rightarrow> store_error + sqlite_db" where
  "problem_Update db now p =
     (let model = toModelProblem p;
          rows = db_problems db;
          i = pm_id model
      in if i = 0 then (case problem_Create db now p of Inl err \<Rightarrow> Inl err | Inr (_, db') \<Rightarrow> Inr db')
         else if list_ex (\<lambda>m. pm_id m \<noteq> i \<and> pm_slug m = pm_slug model) rows then Inl DuplicateKey
         else (let created = (if list_ex (\<lambda>m. pm_id m = i \<and> live (pm_model m)) rows then go_zero_time
                              else (case find (\<lambda>m. pm_id m = i) rows of
                                      Some old \<Rightarrow> gm_created_at (pm_model old)
                                    | None \<Rightarrow> now));
                   row = model\<lparr>pm_model := stamp i created now, pm_test_cases := [], pm_topics := []\<rparr>;
                   db = db\<lparr>db_problems := insort_key pm_id row (filter (\<lambda>m. pm_id m \<noteq> i) rows)\<rparr>
               in Inr (save_associations now i model db)))"

definition soft_delete :: "go_uint \<Rightarrow> go_time \<Rightarrow> ProblemModel \<Rightarrow> ProblemModel" where
  "soft_delete i now m =
     (if pm_id m = i \<and> live (pm_model m)
      then m\<lparr>pm_model := (pm_model m)\<lparr>gm_deleted_at := Some now\<rparr>\<rparr> else m)"

definition problem_Delete :: "sqlite_db \<Rightarrow> go_time \<Rightarrow> go_uint \<Rightarrow> store_error + sqlite_db" where
  "problem_Delete db now i = Inr (db\<lparr>db_problems := map (soft_delete i now) (db_problems db)\<rparr>)"

section \<open>Invariant\<close>

text \<open>
  The constraints of the schema that the claims rely on: primary keys and the unique
  indexes on \<open>problems.slug\<close>, \<open>topics.name\<close> and \<open>topics.slug\<close>, the composite
  primary key of \<open>problem_topics\<close>, and that every test case belongs to a stored problem
  row (GORM only inserts test cases with their problem).
\<close>

definition assoc_wf :: "sqlite_db \<Rightarrow> bool" where
  "assoc_wf db \<longleftrightarrow>
     distinct (map tpm_id (db_topics db)) \<and> distinct (map tpm_name (db_topics db)) \<and>
     distinct (map tpm_slug (db_topics db)) \<and> distinct (db_problem_topics db)"

definition db_wf :: "sqlite_db \<Rightarrow> bool" where
  "db_wf db \<longleftrightarrow>
     distinct (map pm_id (db_problems db)) \<and> distinct (map pm_slug (db_problems db)) \<and>
     (\<forall>tc \<in> set (db_test_cases db). tcm_problem_id tc \<in> set (map pm_id (db_problems db))) \<and>
     assoc_wf db"

section \<open>The specification of the catalogue query\<close>

text \<open>
  What \<open>FindAll\<close> promises, stated without SQL: the live problems that have the
  difficulty and the category asked for (when given), whose lower-cased title or slug
  contains the lower-cased search text as a contiguous segment (when given), and that are
  linked to the topic with the slug asked for (when given). The refinement lemma below
  shows the SQL query computes it on ASCII data with a search text free of \<open>LIKE\<close>
  wildcards.
\<close>

definition catalog_match :: "sqlite_db \<Rightarrow> find_options \<Rightarrow> ProblemModel \<Rightarrow> bool" where
  "catalog_match db opts m \<longleftrightarrow>
     live (pm_model m) \<and>
     (fo_difficulty opts = [] \<or> pm_difficulty m = fo_difficulty opts) \<and>
     (fo_category opts = [] \<or> pm_category m = fo_category opts) \<and>
     (fo_search opts = [] \<or> sublist (go_to_lower (fo_search opts)) (sql_lower (pm_title m)) \<or>
        sublist (go_to_lower (fo_search opts)) (sql_lower (pm_slug m))) \<and>
     (fo_topic_slug opts = [] \<or>
        (\<exists>t \<in> set (db_topics db). tpm_slug t = fo_topic_slug opts \<and>
           (pm_id m, tpm_id t) \<in> set (db_problem_topics db)))"

definition plain_search :: "string \<Rightarrow> bool" where
  "plain_search w \<longleftrightarrow> list_all is_ascii w \<and> \<not> list_ex like_wild w"

definition ascii_catalog :: "sqlite_db \<Rightarrow> bool" where
  "ascii_catalog db \<longleftrightarrow>
     (\<forall>m \<in> set (db_problems db). list_all is_ascii (pm_title m) \<and> list_all is_ascii (pm_slug m))"

section \<open>The repository\<close>

definition sqlite_problem_repo :: "sqlite_db problem_repo" where
  "sqlite_problem_repo =
     \<lparr>pr_find_all = problem_FindAll, pr_find_by_slug = problem_FindBySlug,
      pr_find_by_id = problem_FindByID, pr_create = problem_Create, pr_update = problem_Update,
      pr_delete = problem_Delete, pr_get_topics = problem_GetTopics\<rparr>"

section \<open>Sample data\<close>

text \<open>
  A database holding the topic \<open>array\<close>, and Two Sum with a hidden and a visible test
  case, linked to it; \<open>sample_db1\<close> is the database after \<open>Create\<close> at time 5.
\<close>

definition sample_topic :: TopicModel where
  "sample_topic = \<lparr>tpm_model = stamp 1 0 0, tpm_name = ''Array'', tpm_slug = ''array''\<rparr>"

definition sample_db :: sqlite_db where
  "sample_db = \<lparr>db_problems = [], db_test_cases = [], db_topics = [sample_topic],
                db_problem_topics = [], db_submissions = Map.empty\<rparr>"

definition sample_problem :: problem where
  "sample_problem =
     AddTopic (AddTestCase (AddTestCase (NewProblem ''two-sum'' ''Two Sum'' Easy CategoryAlgorithms [] 0 0)
       ''[3,3],6'' ''[0,1]'' True) ''[2,7,11,15],9'' ''[0,1]'' False)
       \<lparr>topic_id = 1, topic_name = ''Array'', topic_slug = ''array'', topic_count = 0\<rparr>"

definition sample_db1 :: sqlite_db where
  "sample_db1 =
     \<lparr>db_problems = [(toModelProblem sample_problem)\<lparr>pm_model := stamp 1 5 5, pm_test_cases := [],
                                                   pm_topics := []\<rparr>],
      db_test_cases =
        [\<lparr>tcm_model = stamp 1 5 5, tcm_problem_id = 1, tcm_input = ''[3,3],6'',
          tcm_expected = ''[0,1]'', tcm_is_hidden = True\<rparr>,
         \<lparr>tcm_model = stamp 2 5 5, tcm_problem_id = 1, tcm_input = ''[2,7,11,15],9'',
          tcm_expected = ''[0,1]'', tcm_is_hidden = False\<rparr>],
      db_topics = [sample_topic], db_problem_topics = [(1, 1)], db_submissions = Map.empty\<rparr>"

lemmas sample_defs = sample_topic_def sample_db_def sample_problem_def sample_db1_def

section \<open>Lemmas on reads\<close>

lemma toDomainProblem_fields [model_simps]:
  "p_id (toDomainProblem m) = pm_id m"
  "p_slug (toDomainProblem m) = pm_slug m"
  "p_test_cases (toDomainProblem m) =
     map (\<lambda>tc. \<lparr>tc_id = tcm_id tc, tc_problem_id = tcm_problem_id tc, tc_input = tcm_input tc,
                tc_expected = tcm_expected tc, tc_is_hidden = tcm_is_hidden tc\<rparr>) (pm_test_cases m)"
  by (simp_all add: toDomainProblem_def Let_def)

lemma preload_fields [simp]:
  "pm_id (preload_test_cases db m) = pm_id m" "pm_slug (preload_test_cases db m) = pm_slug m"
  "pm_id (preload_topics db m) = pm_id m" "pm_slug (preload_topics db m) = pm_slug m"
  "pm_test_cases (preload_topics db m) = pm_test_cases m"
  "pm_test_cases (preload_test_cases db m) =
     [tc \<leftarrow> db_test_cases db. live (tcm_model tc) \<and> tcm_problem_id tc = pm_id m]"
  by (simp_all add: preload_test_cases_def preload_topics_def)

lemma first_where_Some:
  "first_where P db = Some m \<Longrightarrow> m \<in> set (db_problems db) \<and> live (pm_model m) \<and> P m"
  unfolding first_where_def order_by_id_def by (auto dest!: find_SomeD)

lemma first_where_None:
  "first_where P db = None \<longleftrightarrow> (\<forall>m \<in> set (db_problems db). \<not> (live (pm_model m) \<and> P m))"
  by (auto simp: first_where_def order_by_id_def find_None_iff)

lemma problem_FindByID_Inr:
  "problem_FindByID db i = Inr p \<Longrightarrow>
   \<exists>m. first_where (\<lambda>m. pm_id m = i) db = Some m \<and>
       p = toDomainProblem (preload_topics db (preload_test_cases db m))"
  by (auto simp: problem_FindByID_def split: option.splits)

lemma problem_FindBySlug_Inr:
  "problem_FindBySlug db slug = Inr p \<Longrightarrow>
   \<exists>m. first_where (\<lambda>m. pm_slug m = slug) db = Some m \<and>
       p = toDomainProblem (preload_topics db (preload_test_cases db m))"
  by (auto simp: problem_FindBySlug_def split: option.splits)

lemma find_all_query_live:
  "m \<in> set (find_all_query db opts) \<Longrightarrow> m \<in> set (db_problems db) \<and> live (pm_model m)"
  by (auto simp: find_all_query_def topic_join_def Let_def split: if_splits)

lemma find_all_query_paging [simp]:
  "find_all_query db (opts\<lparr>fo_page := a, fo_limit := b\<rparr>) = find_all_query db opts"
  by (simp add: find_all_query_def Let_def)

lemma soft_delete_fields [simp]:
  "pm_id (soft_delete i now m) = pm_id m" "pm_slug (soft_delete i now m) = pm_slug m"
  by (simp_all add: soft_delete_def)

lemma soft_delete_dead: "pm_id m = i \<Longrightarrow> \<not> live (pm_model (soft_delete i now m))"
  by (simp add: soft_delete_def live_def)

lemma soft_delete_comp [simp]:
  "pm_id \<circ> soft_delete i now = pm_id" "pm_slug \<circ> soft_delete i now = pm_slug"
  by (simp_all add: comp_def)

lemma map_pm_id_soft_delete [simp]: "map pm_id (map (soft_delete i now) ms) = map pm_id ms"
  by (induction ms) simp_all

lemma map_pm_slug_soft_delete [simp]: "map pm_slug (map (soft_delete i now) ms) = map pm_slug ms"
  by (induction ms) simp_all

section \<open>Lemmas on writes\<close>

lemma next_rowid_fresh: "next_rowid ids \<notin> set ids"
  using fold_max_ge [of "next_rowid ids" ids 0] by (auto simp: next_rowid_def)

lemma insert_test_cases_tables [simp]:
  "db_problems (insert_test_cases now pid tcs db) = db_problems db"
  "db_topics (insert_test_cases now pid tcs db) = db_topics db"
  "db_problem_topics (insert_test_cases now pid tcs db) = db_problem_topics db"
  by (induction tcs arbitrary: db) simp_all

text \<open>\<open>Create\<close> appends one live row per test case, bound to the problem, in order.\<close>

lemma insert_test_cases_new:
  "\<exists>new. db_test_cases (insert_test_cases now pid tcs db) = db_test_cases db @ new \<and>
         map (\<lambda>tc. (tcm_input tc, tcm_expected tc, tcm_is_hidden tc)) new =
           map (\<lambda>tc. (tcm_input tc, tcm_expected tc, tcm_is_hidden tc)) tcs \<and>
         (\<forall>tc \<in> set new. live (tcm_model tc) \<and> tcm_problem_id tc = pid)"
proof (induction tcs arbitrary: db)
  case Nil
  then show ?case by simp
next
  case (Cons tc tcs)
  let ?x = "tc\<lparr>tcm_model := stamp (next_rowid (map tcm_id (db_test_cases db))) now now,
               tcm_problem_id := pid\<rparr>"
  obtain new where "db_test_cases (insert_test_cases now pid tcs
                      (db\<lparr>db_test_cases := db_test_cases db @ [?x]\<rparr>)) = (db_test_cases db @ [?x]) @ new"
    and "map (\<lambda>tc. (tcm_input tc, tcm_expected tc, tcm_is_hidden tc)) new =
           map (\<lambda>tc. (tcm_input tc, tcm_expected tc, tcm_is_hidden tc)) tcs"
    and "\<forall>tc \<in> set new. live (tcm_model tc) \<and> tcm_problem_id tc = pid"
    using Cons.IH [of "db\<lparr>db_test_cases := db_test_cases db @ [?x]\<rparr>"] by auto
  then show ?case
    by (intro exI [of _ "?x # new"]) (simp add: stamp_def live_def)
qed

lemma upsert_topic_tables [simp]:
  "db_problems (snd (upsert_topic now t db)) = db_problems db"
  "db_test_cases (snd (upsert_topic now t db)) = db_test_cases db"
  "db_problem_topics (snd (upsert_topic now t db)) = db_problem_topics db"
  by (simp_all add: upsert_topic_def Let_def)

lemma upsert_topic_wf: "assoc_wf db \<Longrightarrow> assoc_wf (snd (upsert_topic now t db))"
  using next_rowid_fresh [of "map tpm_id (db_topics db)"]
  by (auto simp: upsert_topic_def assoc_wf_def Let_def list_ex_iff distinct_map_insort_key stamp_def
      image_iff)

lemma link_topic_tables [simp]:
  "db_problems (link_topic pid tid db) = db_problems db"
  "db_test_cases (link_topic pid tid db) = db_test_cases db"
  "db_topics (link_topic pid tid db) = db_topics db"
  by (simp_all add: link_topic_def)

lemma link_topic_wf: "assoc_wf db \<Longrightarrow> assoc_wf (link_topic pid tid db)"
  by (simp add: link_topic_def assoc_wf_def)

lemma save_topics_tables [simp]:
  "db_problems (save_topics now pid ts db) = db_problems db"
  "db_test_cases (save_topics now pid ts db) = db_test_cases db"
  by (induction ts arbitrary: db) (simp_all add: case_prod_beta)

lemma save_topics_wf: "assoc_wf db \<Longrightarrow> assoc_wf (save_topics now pid ts db)"
  by (induction ts arbitrary: db) (simp_all add: case_prod_beta link_topic_wf upsert_topic_wf)

lemma insert_test_cases_assoc_wf [simp]:
  "assoc_wf (insert_test_cases now pid tcs db) \<longleftrightarrow> assoc_wf db"
  by (simp add: assoc_wf_def)

lemma save_associations_tables [simp]:
  "db_problems (save_associations now pid model db) = db_problems db"
  by (simp add: save_associations_def)

lemma save_associations_test_cases:
  "set (db_test_cases (save_associations now pid model db)) \<subseteq>
     set (db_test_cases db) \<union> {tc. tcm_problem_id tc = pid}"
  using insert_test_cases_new [of now pid "pm_test_cases model" db]
  by (auto simp: save_associations_def)

text \<open>The associations keep the invariant when they are saved for a stored row.\<close>

lemma save_associations_wf:
  assumes "db_wf db" and "pid \<in> set (map pm_id (db_problems db))"
  shows "db_wf (save_associations now pid model db)"
  using assms save_associations_test_cases [of now pid model db]
  by (auto simp: db_wf_def save_associations_def save_topics_wf)

lemma problem_Create_wf:
  assumes "db_wf db" and "problem_Create db now p = Inr (p', db')"
  shows "db_wf db'"
proof -
  let ?model = "toModelProblem p"
  let ?i = "if pm_id ?model = 0 then next_rowid (map pm_id (db_problems db)) else pm_id ?model"
  let ?row = "?model\<lparr>pm_model := stamp ?i now now, pm_test_cases := [], pm_topics := []\<rparr>"
  let ?db = "db\<lparr>db_problems := insort_key pm_id ?row (db_problems db)\<rparr>"
  have free: "\<not> list_ex (\<lambda>m. pm_id m = ?i \<or> pm_slug m = pm_slug ?model) (db_problems db)"
    and db': "db' = save_associations now ?i ?model ?db"
    using assms(2) by (simp_all add: problem_Create_def Let_def split: if_splits)
  have "db_wf ?db"
    using assms(1) free
    by (auto simp: db_wf_def distinct_map_insort_key list_ex_iff stamp_def set_insort_key
        assoc_wf_def image_iff)
  moreover have "?i \<in> set (map pm_id (db_problems ?db))"
    by (simp add: set_insort_key stamp_def)
  ultimately show ?thesis
    using db' save_associations_wf by blast
qed

lemma problem_Update_wf:
  assumes "db_wf db" and "problem_Update db now p = Inr db'"
  shows "db_wf db'"
proof (cases "pm_id (toModelProblem p) = 0")
  case True
  then obtain p' where "problem_Create db now p = Inr (p', db')"
    using assms(2) by (auto simp: problem_Update_def Let_def split: sum.splits)
  then show ?thesis using assms(1) problem_Create_wf by blast
next
  case False
  let ?model = "toModelProblem p"
  let ?i = "pm_id ?model"
  let ?rows = "db_problems db"
  obtain created where db': "db' = save_associations now ?i ?model
      (db\<lparr>db_problems := insort_key pm_id (?model\<lparr>pm_model := stamp ?i created now,
            pm_test_cases := [], pm_topics := []\<rparr>) (filter (\<lambda>m. pm_id m \<noteq> ?i) ?rows)\<rparr>)"
    and free: "\<not> list_ex (\<lambda>m. pm_id m \<noteq> ?i \<and> pm_slug m = pm_slug ?model) ?rows"
    using assms(2) False by (auto simp: problem_Update_def Let_def split: if_splits)
  let ?db = "db\<lparr>db_problems := insort_key pm_id (?model\<lparr>pm_model := stamp ?i created now,
            pm_test_cases := [], pm_topics := []\<rparr>) (filter (\<lambda>m. pm_id m \<noteq> ?i) ?rows)\<rparr>"
  have ids: "set (map pm_id (db_problems ?db)) = insert ?i (set (map pm_id ?rows))"
    by (auto simp: set_insort_key stamp_def)
  have "distinct (map pm_id (db_problems ?db)) \<and> distinct (map pm_slug (db_problems ?db))"
    using assms(1) free
    by (auto simp: db_wf_def distinct_map_insort_key list_ex_iff stamp_def distinct_map_filter)
  moreover have "\<forall>tc \<in> set (db_test_cases ?db). tcm_problem_id tc \<in> set (map pm_id (db_problems ?db))"
    using assms(1) by (simp only: ids) (auto simp: db_wf_def)
  ultimately have "db_wf ?db"
    using assms(1) by (simp add: db_wf_def assoc_wf_def)
  moreover have "?i \<in> set (map pm_id (db_problems ?db))"
    using ids by simp
  ultimately show ?thesis
    using db' save_associations_wf by blast
qed

lemma problem_Delete_wf:
  assumes "db_wf db" and "problem_Delete db now i = Inr db'"
  shows "db_wf db'"
  using assms by (auto simp: problem_Delete_def db_wf_def assoc_wf_def image_comp)

lemma first_where_unique:
  assumes "m \<in> set (db_problems db)" and "live (pm_model m)" and "P m"
    and "\<And>m'. m' \<in> set (db_problems db) \<Longrightarrow> live (pm_model m') \<Longrightarrow> P m' \<Longrightarrow> m' = m"
  shows "first_where P db = Some m"
proof (cases "first_where P db")
  case None
  then show ?thesis using assms(1-3) first_where_None by blast
next
  case (Some m')
  then show ?thesis using first_where_Some [OF Some] assms(4) by simp
qed

lemma toModelProblem_fields [model_simps]:
  "pm_id (toModelProblem p) = p_id p" "pm_slug (toModelProblem p) = p_slug p"
  "map (\<lambda>tc. (tcm_input tc, tcm_expected tc, tcm_is_hidden tc)) (pm_test_cases (toModelProblem p)) =
     map (\<lambda>tc. (tc_input tc, tc_expected tc, tc_is_hidden tc)) (p_test_cases p)"
  by (simp_all add: toModelProblem_def gorm_model_id_def Let_def)

text \<open>What \<open>FindBySlug\<close> reads back of a row \<open>Create\<close> wrote, field by field.\<close>

lemma toDomainProblem_created_row:
  "toDomainProblem (preload_topics db (preload_test_cases db
      ((toModelProblem p)\<lparr>pm_model := stamp i now now, pm_test_cases := [], pm_topics := []\<rparr>)))
   \<lparr>p_test_cases := [], p_topics := []\<rparr> =
   p\<lparr>p_id := i, p_test_cases := [], p_topics := [], p_created_at := now, p_updated_at := now\<rparr>"
  by (simp add: toDomainProblem_def toModelProblem_def preload_test_cases_def preload_topics_def
      stamp_def Let_def)

text \<open>
  Under the unique indexes the topic join is a filter: a problem appears once when it is
  linked to the topic with the slug asked for, and not at all otherwise.
\<close>

definition has_topic :: "sqlite_db \<Rightarrow> string \<Rightarrow> ProblemModel \<Rightarrow> bool" where
  "has_topic db slug m \<longleftrightarrow>
     (\<exists>t \<in> set (db_topics db). tpm_slug t = slug \<and> (pm_id m, tpm_id t) \<in> set (db_problem_topics db))"

lemma topic_join_filter:
  assumes "assoc_wf db"
  shows "topic_join db slug ms = filter (has_topic db slug) ms"
proof (induction ms)
  case (Cons m ms)
  let ?T = "db_topics db" and ?J = "db_problem_topics db"
  let ?Q = "\<lambda>b. \<exists>t \<in> set ?T. tpm_id t = b \<and> tpm_slug t = slug"
  have slugs: "distinct (map tpm_slug ?T)" and pairs: "distinct ?J"
    using assms by (simp_all add: assoc_wf_def)
  have inner_t: "concat (map (\<lambda>t. if tpm_id t = b then if tpm_slug t = slug then [m] else [] else []) ?T) =
                 (if ?Q b then [m] else [])" for b
  proof -
    have "(\<lambda>t. if tpm_id t = b then if tpm_slug t = slug then [m] else [] else []) =
          (\<lambda>t. if tpm_id t = b \<and> tpm_slug t = slug then [m] else [])"
      by (rule ext) simp
    then show ?thesis
      using concat_map_unique [OF slugs, of "\<lambda>t. tpm_id t = b \<and> tpm_slug t = slug" m] by simp
  qed
  have uniq: "\<forall>x \<in> set ?J. \<forall>y \<in> set ?J. (fst x = pm_id m \<and> ?Q (snd x)) \<longrightarrow> (fst y = pm_id m \<and> ?Q (snd y)) \<longrightarrow> id x = id y"
  proof (intro ballI impI)
    fix x y assume "fst x = pm_id m \<and> ?Q (snd x)" "fst y = pm_id m \<and> ?Q (snd y)"
    then obtain t u where t: "t \<in> set ?T" "tpm_id t = snd x" "tpm_slug t = slug"
      and u: "u \<in> set ?T" "tpm_id u = snd y" "tpm_slug u = slug" and "fst x = fst y" by auto
    have "t = u" using slugs t u by (metis inj_on_contraD distinct_map)
    then show "id x = id y" using t u \<open>fst x = fst y\<close> by (simp add: prod_eq_iff)
  qed
  have "concat (map (\<lambda>pt. if fst pt = pm_id m \<and> ?Q (snd pt) then [m] else []) ?J) =
        (if has_topic db slug m then [m] else [])"
  proof -
    have "(\<exists>pt \<in> set ?J. fst pt = pm_id m \<and> ?Q (snd pt)) \<longleftrightarrow> has_topic db slug m"
      unfolding has_topic_def by force
    then show ?thesis
      using concat_map_unique [of id ?J "\<lambda>pt. fst pt = pm_id m \<and> ?Q (snd pt)" m] pairs uniq
      by simp
  qed
  moreover have "(\<lambda>pt. if fst pt = pm_id m
              then concat (map (\<lambda>t. if tpm_id t = snd pt then if tpm_slug t = slug then [m] else [] else []) ?T)
              else []) = (\<lambda>pt. if fst pt = pm_id m \<and> ?Q (snd pt) then [m] else [])"
    by (rule ext) (simp add: inner_t)
  ultimately have "topic_join db slug (m # ms) = (if has_topic db slug m then [m] else []) @ topic_join db slug ms"
    by (simp add: topic_join_def)
  with Cons show ?case by simp
qed (simp add: topic_join_def)

lemma search_like_plain:
  assumes "plain_search w" and "list_all is_ascii x"
  shows "sql_like (CHR ''%'' # go_to_lower w @ [CHR ''%'']) (sql_lower x) \<longleftrightarrow>
         sublist (go_to_lower w) (sql_lower x)"
proof -
  have "\<not> list_ex like_wild (go_to_lower w)" and "list_all is_ascii (sql_lower x)"
    using assms by (simp_all add: plain_search_def go_to_lower_def sql_lower_def list_ex_iff list_all_iff)
  from sql_like_contains [OF this]
  show ?thesis by (simp add: go_to_lower_def sql_lower_def comp_def)
qed

lemma find_all_query_spec:
  assumes "db_wf db" and "plain_search (fo_search opts)" and "ascii_catalog db"
  shows "find_all_query db opts = filter (catalog_match db opts) (db_problems db)"
proof -
  have topics: "assoc_wf db" using assms(1) by (simp add: db_wf_def)
  have search: "sql_like (CHR ''%'' # go_to_lower (fo_search opts) @ [CHR ''%'']) (sql_lower (pm_title m)) \<longleftrightarrow>
                  sublist (go_to_lower (fo_search opts)) (sql_lower (pm_title m))"
    "sql_like (CHR ''%'' # go_to_lower (fo_search opts) @ [CHR ''%'']) (sql_lower (pm_slug m)) \<longleftrightarrow>
                  sublist (go_to_lower (fo_search opts)) (sql_lower (pm_slug m))"
    if "m \<in> set (db_problems db)" for m
    using that assms(2,3) by (simp_all add: search_like_plain ascii_catalog_def)
  show ?thesis
    unfolding find_all_query_def Let_def topic_join_filter [OF topics]
    by (auto simp: filter_filter catalog_match_def has_topic_def search intro!: filter_cong)
qed

section \<open>Properties of the problem repository\<close>

text \<open>
  (C26) \<open>FindByID\<close> finds only a live problem, under the identifier asked
  for, and hands on exactly the live test cases stored for it, in the order of the
  \<open>test_cases\<close> table: a soft-deleted test case is never given to the executor.
\<close>

theorem problem_FindByID_live:
  assumes "problem_FindByID db i = Inr p"
  shows "\<exists>m \<in> set (db_problems db). live (pm_model m) \<and> pm_id m = i \<and> p_id p = i \<and>
           p_test_cases p =
             map (\<lambda>tc. \<lparr>tc_id = tcm_id tc, tc_problem_id = i, tc_input = tcm_input tc,
                        tc_expected = tcm_expected tc, tc_is_hidden = tcm_is_hidden tc\<rparr>)
                 [tc \<leftarrow> db_test_cases db. live (tcm_model tc) \<and> tcm_problem_id tc = i]"
proof -
  obtain m where m: "first_where (\<lambda>m. pm_id m = i) db = Some m"
    and p: "p = toDomainProblem (preload_topics db (preload_test_cases db m))"
    using problem_FindByID_Inr [OF assms] by blast
  have "m \<in> set (db_problems db)" "live (pm_model m)" "pm_id m = i"
    using first_where_Some [OF m] by simp_all
  moreover have "p_test_cases p =
             map (\<lambda>tc. \<lparr>tc_id = tcm_id tc, tc_problem_id = i, tc_input = tcm_input tc,
                        tc_expected = tcm_expected tc, tc_is_hidden = tcm_is_hidden tc\<rparr>)
                 [tc \<leftarrow> db_test_cases db. live (tcm_model tc) \<and> tcm_problem_id tc = i]"
    using \<open>pm_id m = i\<close> by (simp add: p toDomainProblem_fields cong: map_cong)
  ultimately show ?thesis by (auto simp: p toDomainProblem_fields)
qed

text \<open>
  (C33) \<open>FindAll\<close> computes the offset \<open>(Page - 1) * Limit\<close> in Go's 64-bit
  \<open>int\<close>, so for every page and limit it skips the rows counted by the mathematical
  offset taken modulo \<open>2^64\<close> into the signed range (none when that is not positive), and
  then lists \<open>Limit\<close> rows (all when \<open>Limit\<close> is negative); the total is the count of the
  whole query. Where the product leaves the range the offset wraps: page \<open>2^62 + 1\<close> of
  size 4 has offset \<open>2^64\<close>, read as 0, and lists the first page again.
\<close>

theorem problem_FindAll_page_wrap:
  "problem_FindAll db opts =
     Inr (map (\<lambda>m. toDomainProblem (preload_topics db (select_list_columns m)))
            ((if 0 \<le> sint (fo_limit opts) then take (nat (sint (fo_limit opts))) else id)
               (drop (nat (((sint (fo_page opts) - 1) * sint (fo_limit opts) + 2 ^ 63) mod 2 ^ 64 - 2 ^ 63))
                  (order_by_id (find_all_query db opts)))),
          of_nat (length (find_all_query db opts)))"
  by (simp add: problem_FindAll_def sql_limit_offset_def Let_def sint_wrapped_product)

text \<open>
  (C32) \<open>Delete\<close> always succeeds; afterwards \<open>FindByID\<close> does not find
  the problem and \<open>FindAll\<close> does not list it, but \<open>GetTopics\<close> answers as before:
  the deleted problem's links still count for its topics.
\<close>

theorem problem_Delete_effect:
  "\<exists>db'. problem_Delete db now i = Inr db' \<and>
     problem_FindByID db' i = Inl RecordNotFound \<and>
     (\<forall>m \<in> set (find_all_query db' opts). pm_id m \<noteq> i) \<and>
     problem_GetTopics db' = problem_GetTopics db"
proof -
  define db' where "db' = db\<lparr>db_problems := map (soft_delete i now) (db_problems db)\<rparr>"
  have d: "problem_Delete db now i = Inr db'"
    by (simp add: problem_Delete_def db'_def)
  have dead: "\<not> live (pm_model m)" if m_in: "m \<in> set (db_problems db')" and m_id: "pm_id m = i" for m
  proof -
    obtain x where m: "m = soft_delete i now x"
      using m_in by (auto simp: db'_def)
    then have "pm_id x = i" using m_id by simp
    then show ?thesis using m soft_delete_dead by simp
  qed
  have "first_where (\<lambda>m. pm_id m = i) db' = None"
    unfolding first_where_None using dead by blast
  then have "problem_FindByID db' i = Inl RecordNotFound"
    by (simp add: problem_FindByID_def)
  moreover have "\<forall>m \<in> set (find_all_query db' opts). pm_id m \<noteq> i"
    using dead find_all_query_live by blast
  moreover have "problem_GetTopics db' = problem_GetTopics db"
    unfolding problem_GetTopics_def topic_problem_count_def db'_def by simp
  ultimately show ?thesis using d by blast
qed

text \<open>
  (C28) The writes keep the schema's constraints: after \<open>Create\<close>,
  \<open>Update\<close> or \<open>Delete\<close> on a well-formed database, primary keys and the unique
  indexes are still unique and every test case still belongs to a stored problem.
\<close>

theorem sqlite_problem_writes_wf:
  assumes "db_wf db"
  shows "(problem_Create db now p = Inr (p', db1) \<longrightarrow> db_wf db1) \<and>
         (problem_Update db now p = Inr db2 \<longrightarrow> db_wf db2) \<and>
         (problem_Delete db now i = Inr db3 \<longrightarrow> db_wf db3)"
  using assms problem_Create_wf problem_Update_wf problem_Delete_wf by blast

text \<open>
  (C31) A problem created in a well-formed database is found by its
  slug with the identifier \<open>Create\<close> assigned, the clock reading as both time stamps,
  every other field as given, and exactly its test cases (input, expected output,
  hidden flag) in the given order, each bound to the new identifier.
\<close>

theorem problem_Create_FindBySlug:
  assumes wf: "db_wf db" and cr: "problem_Create db now p = Inr (p', db')"
  shows "\<exists>q. problem_FindBySlug db' (p_slug p) = Inr q \<and>
           q\<lparr>p_test_cases := [], p_topics := []\<rparr> =
             p'\<lparr>p_test_cases := [], p_topics := [], p_created_at := now, p_updated_at := now\<rparr> \<and>
           map (\<lambda>tc. (tc_input tc, tc_expected tc, tc_is_hidden tc)) (p_test_cases q) =
             map (\<lambda>tc. (tc_input tc, tc_expected tc, tc_is_hidden tc)) (p_test_cases p) \<and>
           (\<forall>tc \<in> set (p_test_cases q). tc_problem_id tc = p_id p')"
proof -
  define model where "model = toModelProblem p"
  define i where "i = (if pm_id model = 0 then next_rowid (map pm_id (db_problems db)) else pm_id model)"
  define row where "row = model\<lparr>pm_model := stamp i now now, pm_test_cases := [], pm_topics := []\<rparr>"
  define db1 where "db1 = db\<lparr>db_problems := insort_key pm_id row (db_problems db)\<rparr>"
  have free: "\<not> list_ex (\<lambda>m. pm_id m = i \<or> pm_slug m = pm_slug model) (db_problems db)"
    and db': "db' = save_associations now i model db1" and p': "p' = p\<lparr>p_id := i\<rparr>"
    using cr by (simp_all add: problem_Create_def Let_def model_def i_def row_def db1_def
        split: if_splits)
  have row_id: "pm_id row = i" and row_slug: "pm_slug row = p_slug p" and row_live: "live (pm_model row)"
    by (simp_all add: row_def stamp_def model_def toModelProblem_fields live_def)
  have rows': "db_problems db' = insort_key pm_id row (db_problems db)"
    by (simp add: db' db1_def)
  have found: "first_where (\<lambda>m. pm_slug m = p_slug p) db' = Some row"
    using free row_slug row_live
    by (intro first_where_unique) (auto simp: rows' set_insort_key model_def toModelProblem_fields list_ex_iff)
  obtain new where tcs: "db_test_cases db' = db_test_cases db @ new"
    and new_fields: "map (\<lambda>tc. (tcm_input tc, tcm_expected tc, tcm_is_hidden tc)) new =
                      map (\<lambda>tc. (tcm_input tc, tcm_expected tc, tcm_is_hidden tc)) (pm_test_cases model)"
    and new_live: "\<forall>tc \<in> set new. live (tcm_model tc) \<and> tcm_problem_id tc = i"
    using insert_test_cases_new [of now i "pm_test_cases model" db1]
    by (auto simp: db' save_associations_def db1_def)
  have old: "tcm_problem_id tc \<noteq> i" if tc_in: "tc \<in> set (db_test_cases db)" for tc
  proof -
    obtain m where "m \<in> set (db_problems db)" "pm_id m = tcm_problem_id tc"
      using wf tc_in by (auto simp: db_wf_def)
    then show ?thesis using free by (auto simp: list_ex_iff)
  qed
  have loaded: "[tc \<leftarrow> db_test_cases db'. live (tcm_model tc) \<and> tcm_problem_id tc = i] = new"
    using old new_live by (simp add: tcs filter_id_conv)
  define q where "q = toDomainProblem (preload_topics db' (preload_test_cases db' row))"
  have "problem_FindBySlug db' (p_slug p) = Inr q"
    by (simp add: problem_FindBySlug_def found q_def)
  moreover have "q\<lparr>p_test_cases := [], p_topics := []\<rparr> =
      p'\<lparr>p_test_cases := [], p_topics := [], p_created_at := now, p_updated_at := now\<rparr>"
    using toDomainProblem_created_row [where db = db' and p = p and i = i and now = now]
    by (simp add: q_def p' row_def model_def)
  moreover have "map (\<lambda>tc. (tc_input tc, tc_expected tc, tc_is_hidden tc)) (p_test_cases q) =
      map (\<lambda>tc. (tc_input tc, tc_expected tc, tc_is_hidden tc)) (p_test_cases p)"
    using new_fields
    by (simp add: q_def toDomainProblem_fields loaded row_id model_def toModelProblem_fields comp_def)
  moreover have "\<forall>tc \<in> set (p_test_cases q). tc_problem_id tc = p_id p'"
    using new_live by (auto simp: q_def toDomainProblem_fields loaded row_id p')
  ultimately show ?thesis by blast
qed

text \<open>
  (C27) \<open>FindAll\<close> implements its specification: on a well-formed
  database with ASCII titles and slugs, a search text free of \<open>LIKE\<close> wildcards, a
  page from 1, a limit from 0 and an offset that fits in Go's \<open>int\<close>, it returns the
  requested page of the problems \<open>catalog_match\<close> accepts, in identifier order, shown
  with the list columns and their topics, and as total the number of all of them.
\<close>

theorem problem_FindAll_refines:
  assumes "db_wf db" and "plain_search (fo_search opts)" and "ascii_catalog db"
    and "1 \<le> sint (fo_page opts)" and "0 \<le> sint (fo_limit opts)"
    and "(sint (fo_page opts) - 1) * sint (fo_limit opts) < 2 ^ 63"
  shows "problem_FindAll db opts =
     Inr (map (\<lambda>m. toDomainProblem (preload_topics db (select_list_columns m)))
            (take (nat (sint (fo_limit opts)))
              (drop (nat ((sint (fo_page opts) - 1) * sint (fo_limit opts)))
                (order_by_id (filter (catalog_match db opts) (db_problems db))))),
          of_nat (length (filter (catalog_match db opts) (db_problems db))))"
proof -
  have off: "sint ((fo_page opts - 1) * fo_limit opts) = (sint (fo_page opts) - 1) * sint (fo_limit opts)"
    using assms(4-6) by (rule sint_page_offset)
  have nonneg: "0 \<le> (sint (fo_page opts) - 1) * sint (fo_limit opts)"
    using assms(4,5) by simp
  have "sql_limit_offset (fo_limit opts) ((fo_page opts - 1) * fo_limit opts) xs =
        take (nat (sint (fo_limit opts))) (drop (nat ((sint (fo_page opts) - 1) * sint (fo_limit opts))) xs)"
    for xs :: "ProblemModel list"
    using assms(5) nonneg by (auto simp: sql_limit_offset_def off Let_def)
  then show ?thesis
    by (simp add: problem_FindAll_def Let_def find_all_query_spec [OF assms(1-3)])
qed

section \<open>Witnesses\<close>

lemma sample_create: "problem_Create sample_db 5 sample_problem = Inr (sample_problem\<lparr>p_id := 1\<rparr>, sample_db1)"
  by (simp add: problem_Create_def save_associations_def upsert_topic_def link_topic_def next_rowid_def
      sample_defs toModelProblem_def gorm_model_id_def AddTopic_def AddTestCase_def NewProblem_def
      stamp_def Let_def)

lemma sample_db_wf: "db_wf sample_db" "db_wf sample_db1"
  by (simp_all add: db_wf_def assoc_wf_def sample_defs toModelProblem_def gorm_model_id_def stamp_def
      AddTopic_def AddTestCase_def NewProblem_def Let_def)

theorem problem_FindByID_live_witness:
  "\<exists>p. problem_FindByID sample_db1 1 = Inr p \<and> map tc_input (p_test_cases p) = [''[3,3],6'', ''[2,7,11,15],9'']"
proof -
  obtain p where p: "problem_FindByID sample_db1 1 = Inr p"
    by (simp add: problem_FindByID_def first_where_def order_by_id_def sample_defs toModelProblem_def
        gorm_model_id_def stamp_def live_def AddTopic_def AddTestCase_def NewProblem_def Let_def)
  from problem_FindByID_live [OF p] have "map tc_input (p_test_cases p) = [''[3,3],6'', ''[2,7,11,15],9'']"
    by (auto simp: sample_db1_def stamp_def live_def)
  with p show ?thesis by auto
qed

theorem problem_Delete_effect_witness:
  "\<exists>db'. problem_Delete sample_db1 9 1 = Inr db' \<and> problem_FindByID db' 1 = Inl RecordNotFound \<and>
     problem_GetTopics db' = problem_GetTopics sample_db1"
  using problem_Delete_effect [of sample_db1 9 1] by blast

theorem sqlite_problem_writes_wf_witness:
  "problem_Create sample_db 5 sample_problem = Inr (sample_problem\<lparr>p_id := 1\<rparr>, sample_db1) \<and> db_wf sample_db1"
  using sqlite_problem_writes_wf [OF sample_db_wf(1), of 5 sample_problem "sample_problem\<lparr>p_id := 1\<rparr>" sample_db1]
    sample_create by simp

theorem problem_Create_FindBySlug_witness:
  "\<exists>q. problem_FindBySlug sample_db1 ''two-sum'' = Inr q \<and>
     map (\<lambda>tc. (tc_input tc, tc_expected tc, tc_is_hidden tc)) (p_test_cases q) =
       [(''[3,3],6'', ''[0,1]'', True), (''[2,7,11,15],9'', ''[0,1]'', False)] \<and> p_created_at q = 5"
proof -
  obtain q where q: "problem_FindBySlug sample_db1 (p_slug sample_problem) = Inr q"
    and eq: "q\<lparr>p_test_cases := [], p_topics := []\<rparr> =
           (sample_problem\<lparr>p_id := 1\<rparr>)\<lparr>p_test_cases := [], p_topics := [], p_created_at := 5, p_updated_at := 5\<rparr>"
    and tcs: "map (\<lambda>tc. (tc_input tc, tc_expected tc, tc_is_hidden tc)) (p_test_cases q) =
           map (\<lambda>tc. (tc_input tc, tc_expected tc, tc_is_hidden tc)) (p_test_cases sample_problem)"
    using problem_Create_FindBySlug [OF sample_db_wf(1) sample_create] by blast
  have "p_created_at q = 5"
    using arg_cong [OF eq, of p_created_at] by simp
  moreover have "p_slug sample_problem = ''two-sum''"
    by (simp add: sample_problem_def AddTopic_def AddTestCase_def NewProblem_def)
  moreover have "map (\<lambda>tc. (tc_input tc, tc_expected tc, tc_is_hidden tc)) (p_test_cases sample_problem) =
       [(''[3,3],6'', ''[0,1]'', True), (''[2,7,11,15],9'', ''[0,1]'', False)]"
    by (simp add: sample_problem_def AddTopic_def AddTestCase_def NewProblem_def)
  ultimately show ?thesis using q tcs by auto
qed
theorem problem_FindAll_refines_witness:
  "problem_FindAll sample_db1 (DefaultFindOptions\<lparr>fo_search := ''two''\<rparr>) =
     Inr (map (\<lambda>m. toDomainProblem (preload_topics sample_db1 (select_list_columns m)))
            (db_problems sample_db1), 1)"
proof -
  have match: "filter (catalog_match sample_db1 (DefaultFindOptions\<lparr>fo_search := ''two''\<rparr>)) (db_problems sample_db1)
               = db_problems sample_db1"
    by (simp add: catalog_match_def sample_defs DefaultFindOptions_def toModelProblem_def gorm_model_id_def
        stamp_def live_def AddTopic_def AddTestCase_def NewProblem_def Let_def go_to_lower_def sql_lower_def
        ascii_lower_def sublist_code)
  have "plain_search ''two''" by (simp add: plain_search_def is_ascii_def like_wild_def)
  moreover have "ascii_catalog sample_db1"
    by (simp add: ascii_catalog_def sample_defs toModelProblem_def gorm_model_id_def AddTopic_def
        AddTestCase_def NewProblem_def Let_def is_ascii_def)
  ultimately show ?thesis
    using problem_FindAll_refines [OF sample_db_wf(2), of "DefaultFindOptions\<lparr>fo_search := ''two''\<rparr>"] match
    by (simp add: DefaultFindOptions_def order_by_id_def sample_db1_def)
qed


theorem problem_FindAll_page_wrap_witness:
  "problem_FindAll sample_db1 (DefaultFindOptions\<lparr>fo_page := 2 ^ 62 + 1, fo_limit := 4\<rparr>) =
     Inr (map (\<lambda>m. toDomainProblem (preload_topics sample_db1 (select_list_columns m)))
            (take 4 (order_by_id (find_all_query sample_db1 (DefaultFindOptions\<lparr>fo_page := 2 ^ 62 + 1, fo_limit := 4\<rparr>)))),
          of_nat (length (find_all_query sample_db1 (DefaultFindOptions\<lparr>fo_page := 2 ^ 62 + 1, fo_limit := 4\<rparr>))))"
  using problem_FindAll_page_wrap [of sample_db1 "DefaultFindOptions\<lparr>fo_page := 2 ^ 62 + 1, fo_limit := 4\<rparr>"]
  by simp

end
