(* ===== verification/SqliteSubmissionRepo.thy ===== *)
theory SqliteSubmissionRepo
  imports SqliteSchema
begin

text \<open>
  \<open>SubmissionRepository\<close> of \<open>persistence/sqlite/submission_repo.go\<close> over the
  \<open>submissions\<close> table, as an implementation of the submission repository interface,
  and the contract it meets: what \<open>FindByID\<close> returns after \<open>Create\<close> is the
  submission passed through both row mappers.
\<close>

section \<open>Operations\<close>

text \<open>
  \<open>SubmissionRepository\<close>: \<open>FindByID\<close> is \<open>First(&model, "id = ?", id)\<close>;
  \<open>Create\<close> inserts, failing on a taken primary key; \<open>Update\<close> is GORM's \<open>Save\<close>, which
  writes the whole row, inserting it when it is missing.
\<close>

definition submission_FindByID :: "results_codec \<Rightarrow> sqlite_db \<Rightarrow> string \<Rightarrow> store_error + submission" where
  "submission_FindByID c db i =
     (case db_submissions db i of
        None \<Rightarrow> Inl RecordNotFound
      | Some m \<Rightarrow> Inr (toDomainSubmission c m))"

definition submission_Create :: "results_codec \<Rightarrow> submission \<Rightarrow> sqlite_db \<Rightarrow> store_error + sqlite_db" where
  "submission_Create c s db =
     (let model = toModelSubmission c s
      in if sm_id model \<in> dom (db_submissions db) then Inl DuplicateKey
         else Inr (db\<lparr>db_submissions := (db_submissions db)(sm_id model \<mapsto> model)\<rparr>))"

definition submission_Update :: "results_codec \<Rightarrow> submission \<Rightarrow> sqlite_db \<Rightarrow> store_error + sqlite_db" where
  "submission_Update c s db =
     (let model = toModelSubmission c s
      in Inr (db\<lparr>db_submissions := (db_submissions db)(sm_id model \<mapsto> model)\<rparr>))"

definition sqlite_submission_repo :: "results_codec \<Rightarrow> sqlite_db submission_repo" where
  "sqlite_submission_repo c =
     \<lparr>sr_find_by_id = submission_FindByID c, sr_create = submission_Create c,
      sr_update = submission_Update c\<rparr>"

section \<open>Lemmas\<close>

lemma sqlite_submission_contract:
  "create_find_contract (sqlite_submission_repo c) (\<lambda>s. toDomainSubmission c (toModelSubmission c s))"
  by (auto simp: create_find_contract_def sqlite_submission_repo_def submission_Create_def
      submission_FindByID_def Let_def toModelSubmission_def split: if_splits)

end
