(* ===== verification/ResultsJson.thy ===== *)
theory ResultsJson
  imports GoJson SqliteSchema "HOL-Library.Monad_Syntax"
begin

text \<open>
  The JSON text of the \<open>results\<close> column of the \<open>submissions\<close> table.
  \<open>toModelSubmission\<close> (\<open>persistence/sqlite/submission_repo.go\<close>) writes
  \<open>json.Marshal(s.Results)\<close>: an array of \<open>TestResult\<close> objects whose keys are the
  field names in declaration order (the struct has no tags), strings quoted by
  \<open>json_quote\<close>, \<open>Passed\<close> as \<open>true\<close>/\<open>false\<close>, \<open>Runtime\<close> in decimal. The executor
  always hands over a slice made with \<open>make\<close>, never \<open>nil\<close>, so an empty list is \<open>[]\<close>.
  \<open>toDomainSubmission\<close> reads it back with \<open>json.Unmarshal\<close>, which leaves the slice
  \<open>nil\<close> on a syntax error. The decoder here is \<open>Unmarshal\<close> restricted to the text
  \<open>Marshal\<close> writes (no white space, keys in that order), plus \<open>null\<close>; on any other
  text it answers \<open>None\<close>, and the column never holds other text because only
  \<open>toModelSubmission\<close> writes it.
\<close>

section \<open>Encoder\<close>

definition json_string :: "string \<Rightarrow> string" where
  "json_string s = CHR 0x22 # json_quote s @ [CHR 0x22]"

definition json_bool :: "bool \<Rightarrow> string" where
  "json_bool b = (if b then ''true'' else ''false'')"

definition test_result_json :: "test_result \<Rightarrow> string" where
  "test_result_json r =
     ''{'' @ json_string ''Input'' @ '':'' @ json_string (tr_input r)
     @ '','' @ json_string ''Expected'' @ '':'' @ json_string (tr_expected r)
     @ '','' @ json_string ''Actual'' @ '':'' @ json_string (tr_actual r)
     @ '','' @ json_string ''Passed'' @ '':'' @ json_bool (tr_passed r)
     @ '','' @ json_string ''Runtime'' @ '':'' @ go_itoa (sint (tr_runtime r)) @ ''}''"

fun results_items :: "test_result list \<Rightarrow> string" where
  "results_items [] = []"
| "results_items [r] = test_result_json r"
| "results_items (r # rs) = test_result_json r @ '','' @ results_items rs"

definition results_json :: "test_result list \<Rightarrow> string" where
  "results_json rs = ''['' @ results_items rs @ '']''"

section \<open>Decoder\<close>

text \<open>The scanner reading a fixed piece of text: the rest after it, or a syntax error.\<close>

fun expect :: "string \<Rightarrow> string \<Rightarrow> string option" where
  "expect [] s = Some s"
| "expect (c # lit) [] = None"
| "expect (c # lit) (d # s) = (if c = d then expect lit s else None)"

definition parse_string :: "string \<Rightarrow> (string \<times> string) option" where
  "parse_string s = (case s of c # r \<Rightarrow> if c = CHR 0x22 then json_unquote r else None | [] \<Rightarrow> None)"

definition parse_bool :: "string \<Rightarrow> (bool \<times> string) option" where
  "parse_bool s =
     (case expect ''true'' s of Some r \<Rightarrow> Some (True, r)
      | None \<Rightarrow> map_option (Pair False) (expect ''false'' s))"

definition parse_int :: "string \<Rightarrow> (go_int \<times> string) option" where
  "parse_int s =
     (let sg = (case s of c # _ \<Rightarrow> if c = CHR ''-'' then [c] else [] | [] \<Rightarrow> []);
          r = drop (length sg) s
      in map_option (\<lambda>n. (n, dropWhile is_digit r)) (go_atoi (sg @ takeWhile is_digit r)))"

definition parse_field :: "string \<Rightarrow> string \<Rightarrow> string option" where
  "parse_field key s = expect (json_string key @ '':'') s"

definition parse_result :: "string \<Rightarrow> (test_result \<times> string) option" where
  "parse_result s = do {
     s1 \<leftarrow> expect ''{'' s;
     s2 \<leftarrow> parse_field ''Input'' s1; (i, s3) \<leftarrow> parse_string s2;
     s4 \<leftarrow> expect '','' s3;
     s5 \<leftarrow> parse_field ''Expected'' s4; (e, s6) \<leftarrow> parse_string s5;
     s7 \<leftarrow> expect '','' s6;
     s8 \<leftarrow> parse_field ''Actual'' s7; (a, s9) \<leftarrow> parse_string s8;
     s10 \<leftarrow> expect '','' s9;
     s11 \<leftarrow> parse_field ''Passed'' s10; (p, s12) \<leftarrow> parse_bool s11;
     s13 \<leftarrow> expect '','' s12;
     s14 \<leftarrow> parse_field ''Runtime'' s13; (n, s15) \<leftarrow> parse_int s14;
     s16 \<leftarrow> expect ''}'' s15;
     Some (\<lparr>tr_input = i, tr_expected = e, tr_actual = a, tr_passed = p, tr_runtime = n\<rparr>, s16)
   }"

lemma expect_shorter: "expect lit s = Some r \<Longrightarrow> length r \<le> length s"
  by (induction lit s rule: expect.induct) (auto split: if_splits)

lemma expect_shorter_Cons: "expect (c # lit) s = Some r \<Longrightarrow> length r < length s"
  by (cases s) (auto split: if_splits dest: expect_shorter)

lemma parse_bool_shorter: "parse_bool s = Some (b, r) \<Longrightarrow> length r \<le> length s"
  by (auto simp: parse_bool_def split: option.splits dest: expect_shorter)

lemma parse_int_shorter: "parse_int s = Some (n, r) \<Longrightarrow> length r \<le> length s"
proof -
  have "length (dropWhile is_digit (drop k s)) \<le> length s" for k
    using length_dropWhile_le [of is_digit "drop k s"] by simp
  then show "parse_int s = Some (n, r) \<Longrightarrow> length r \<le> length s"
    by (auto simp: parse_int_def Let_def)
qed

lemma json_unquote_shorter: "json_unquote s = Some (a, r) \<Longrightarrow> length r < length s"
proof (induction s arbitrary: a rule: json_unquote.induct)
  case 1
  then show ?case by simp
next
  case (2 c s)
  then show ?case
    by (fastforce simp: prepend_def split: if_splits option.splits prod.splits dest: unquote_step_shorter)
qed

lemma parse_string_shorter: "parse_string s = Some (a, r) \<Longrightarrow> length r < length s"
  by (auto simp: parse_string_def split: list.splits if_splits dest!: json_unquote_shorter)

lemma parse_result_shorter: "parse_result s = Some (x, r) \<Longrightarrow> length r < length s"
  by (auto simp: parse_result_def parse_field_def json_string_def bind_eq_Some_conv
           dest!: expect_shorter expect_shorter_Cons parse_string_shorter parse_bool_shorter parse_int_shorter)

text \<open>The elements of the array, separated by commas; the text after the last one.\<close>

function parse_items :: "string \<Rightarrow> (test_result list \<times> string) option" where
  "parse_items s =
     (case parse_result s of
        None \<Rightarrow> None
      | Some (r, rest) \<Rightarrow>
          (case rest of
             c # rest' \<Rightarrow> if c = CHR '','' then map_option (\<lambda>(rs, t). (r # rs, t)) (parse_items rest')
                          else Some ([r], rest)
           | [] \<Rightarrow> Some ([r], rest)))"
  by pat_completeness auto
termination
  by (relation "measure length") (auto dest: parse_result_shorter)

declare parse_items.simps [simp del]

definition json_decode_results :: "string \<Rightarrow> test_result list option" where
  "json_decode_results s =
     (if s = ''null'' \<or> s = ''[]'' then Some []
      else (case expect ''['' s of
              None \<Rightarrow> None
            | Some s1 \<Rightarrow> (case parse_items s1 of Some (rs, t) \<Rightarrow> if t = '']'' then Some rs else None
                                           | None \<Rightarrow> None)))"

text \<open>The codec \<open>toModelSubmission\<close> and \<open>toDomainSubmission\<close> use.\<close>

definition go_results_codec :: results_codec where
  "go_results_codec =
     \<lparr>json_marshal = results_json,
      json_unmarshal = (\<lambda>s. case json_decode_results s of Some rs \<Rightarrow> rs | None \<Rightarrow> [])\<rparr>"

text \<open>What the round trip makes of a result: malformed UTF-8 in its strings is replaced.\<close>

definition sanitize_result :: "test_result \<Rightarrow> test_result" where
  "sanitize_result r =
     r\<lparr>tr_input := utf8_sanitize (tr_input r), tr_expected := utf8_sanitize (tr_expected r),
       tr_actual := utf8_sanitize (tr_actual r)\<rparr>"

section \<open>Round trip\<close>

lemma expect_append [simp]: "expect lit (lit @ t) = Some t"
  by (induction lit) auto

lemma expect_append_lit [simp]: "expect (xs @ ys) s = expect xs s \<bind> expect ys"
  by (induction xs s rule: expect.induct) auto

lemma parse_string_json: "parse_string (json_string s @ t) = Some (utf8_sanitize s, t)"
  by (simp add: parse_string_def json_string_def json_unquote_quote)

lemma parse_bool_json: "parse_bool (json_bool b @ t) = Some (b, t)"
  by (cases b) (simp_all add: parse_bool_def json_bool_def)

lemma parse_int_itoa:
  assumes "\<not> is_digit c"
  shows "parse_int (go_itoa (sint n) @ c # t) = Some (n, c # t)"
proof -
  let ?m = "nat \<bar>sint n\<bar>"
  have all: "\<forall>x\<in>set (nat_digits ?m). is_digit x" using nat_digits_digits [of ?m] by (simp add: list_all_iff)
  have tw: "takeWhile is_digit (nat_digits ?m @ c # t) = nat_digits ?m"
    and dw: "dropWhile is_digit (nat_digits ?m @ c # t) = c # t"
    using all assms by (simp_all add: takeWhile_append2 dropWhile_append2)
  obtain d ds where nd: "nat_digits ?m = d # ds"
    using nat_digits_nonempty by (cases "nat_digits ?m") auto
  have d: "d \<noteq> CHR ''-''" using nat_digits_hd [of ?m] nd by simp
  show ?thesis
  proof (cases "sint n < 0")
    case True
    then have i: "go_itoa (sint n) = CHR ''-'' # nat_digits ?m" by (simp add: go_itoa_def)
    show ?thesis using go_atoi_itoa [of n] tw dw unfolding i by (simp add: parse_int_def)
  next
    case False
    then have i: "go_itoa (sint n) = nat_digits ?m" by (simp add: go_itoa_def)
    show ?thesis using go_atoi_itoa [of n] tw dw d nd unfolding i by (simp add: parse_int_def)
  qed
qed

lemma parse_result_json:
  assumes "\<not> is_digit c"
  shows "parse_result (test_result_json r @ c # t) = Some (sanitize_result r, c # t)"
proof -
  have rb: "\<not> is_digit (CHR ''}'')" by (simp add: is_digit_def)
  show ?thesis
    by (simp add: parse_result_def test_result_json_def parse_field_def parse_string_json
                  parse_bool_json parse_int_itoa [OF rb] sanitize_result_def)
qed


lemma results_items_Cons:
  "rs \<noteq> [] \<Longrightarrow> results_items (r # rs) = test_result_json r @ CHR '','' # results_items rs"
  by (cases rs) auto

lemma results_items_hd: "rs \<noteq> [] \<Longrightarrow> \<exists>t. results_items rs = CHR ''{'' # t"
  by (cases rs rule: results_items.cases) (auto simp: test_result_json_def)

lemma parse_items_results:
  "rs \<noteq> [] \<Longrightarrow> parse_items (results_items rs @ '']'') = Some (map sanitize_result rs, '']'')"
proof (induction rs rule: results_items.induct)
  case (2 r)
  have "parse_result (test_result_json r @ '']'') = Some (sanitize_result r, '']'')"
    using parse_result_json [of "CHR '']''" r "[]"] by (simp add: is_digit_def)
  then show ?case by (subst parse_items.simps) simp
next
  case (3 r v va)
  have "parse_result (test_result_json r @ CHR '','' # results_items (v # va) @ '']'') =
        Some (sanitize_result r, CHR '','' # results_items (v # va) @ '']'')"
    using parse_result_json [of "CHR '',''"] by (simp add: is_digit_def)
  then show ?case using "3.IH" by (subst parse_items.simps) simp
qed simp

lemma json_decode_results_json:
  "json_decode_results (results_json rs) = Some (map sanitize_result rs)"
proof (cases "rs = []")
  case True
  then show ?thesis by (simp add: json_decode_results_def results_json_def)
next
  case False
  obtain t where t: "results_items rs = CHR ''{'' # t" using results_items_hd [OF False] by blast
  have "results_json rs \<noteq> ''null'' \<and> results_json rs \<noteq> ''[]''" by (simp add: results_json_def t)
  then show ?thesis using parse_items_results [OF False]
    by (simp add: json_decode_results_def results_json_def)
qed

lemma results_json_nonempty: "results_json rs \<noteq> []"
  by (simp add: results_json_def)

lemma submission_rows_json:
  "toDomainSubmission go_results_codec (toModelSubmission go_results_codec s) =
     s\<lparr>sub_results := map sanitize_result (sub_results s), sub_created_at := go_zero_time\<rparr>"
  by (simp add: toDomainSubmission_def toModelSubmission_def go_results_codec_def Let_def
                results_json_nonempty json_decode_results_json)

text \<open>
  The results column round-trips through
  \<open>json.Marshal\<close> and \<open>json.Unmarshal\<close>: decoding what \<open>toModelSubmission\<close> writes gives
  back the list of results, each field as it was, except that every byte of malformed
  UTF-8 in the input, expected and actual strings comes back as U+FFFD.
\<close>

lemma go_results_codec_roundtrip:
  "json_unmarshal go_results_codec (json_marshal go_results_codec rs) = map sanitize_result rs"
  by (simp add: go_results_codec_def json_decode_results_json)

lemma parse_items_Some:
  "parse_items s = Some (rs, r) \<longleftrightarrow>
   (\<exists>x rest. parse_result s = Some (x, rest) \<and>
      ((\<exists>rest' rs'. rest = CHR '','' # rest' \<and> parse_items rest' = Some (rs', r) \<and> rs = x # rs') \<or>
       ((case rest of c # _ \<Rightarrow> c \<noteq> CHR '','' | [] \<Rightarrow> True) \<and> rs = [x] \<and> r = rest)))"
  by (subst parse_items.simps) (auto split: option.splits list.splits if_splits)

text \<open>
  The loop of the decoder over the elements of the array reads
  at least one byte per element: whenever it ends, it has decoded no more elements than
  it consumed bytes. This is the measure its termination rests on; each pass of the
  loop shortens the text that remains.
\<close>

lemma parse_items_consumes:
  "parse_items s = Some (rs, r) \<Longrightarrow> length r + length rs \<le> length s"
proof (induction s arbitrary: rs rule: parse_items.induct)
  case (1 s)
  from iffD1 [OF parse_items_Some "1.prems"] obtain x rest where px: "parse_result s = Some (x, rest)"
    and cases: "(\<exists>rest' rs'. rest = CHR '','' # rest' \<and> parse_items rest' = Some (rs', r) \<and> rs = x # rs') \<or>
                rs = [x] \<and> r = rest"
    by blast
  have short: "length rest < length s" using parse_result_shorter [OF px] .
  from cases show ?case
  proof
    assume "\<exists>rest' rs'. rest = CHR '','' # rest' \<and> parse_items rest' = Some (rs', r) \<and> rs = x # rs'"
    then obtain rest' rs' where rest: "rest = CHR '','' # rest'" and pi: "parse_items rest' = Some (rs', r)"
      and rs: "rs = x # rs'" by blast
    have "length r + length rs' \<le> length rest'" using "1.IH" [OF px refl rest refl pi] .
    then show ?thesis using short rest rs by simp
  next
    assume "rs = [x] \<and> r = rest"
    then show ?thesis using short by simp
  qed
qed

end
