(* ===== verification/AppMain.thy ===== *)
theory AppMain
  imports HttpHandlers HttpRouter ApiSchema Executor SqliteProblemRepo SqliteSubmissionRepo ResultsJson
begin

text \<open>
  The program as \<open>cmd/api/main.go\<close> assembles it. \<open>main\<close> removes the database file and
  opens a fresh one (\<open>NewDB\<close>), seeds it (\<open>seedData\<close>), builds the SQLite repositories,
  an executor with a 5 second deadline, the two application services and the router,
  and serves HTTP until a signal arrives. The model is \<open>app_wiring\<close>, the services as
  \<open>main\<close> wires them, and \<open>serve\<close>, one request handled by the Gin engine of
  \<open>HttpRouter\<close> on the database state. The process environment that runs submitted code
  (\<open>exec_env\<close>), the submission identifier \<open>uuid.New()\<close> and the clock are arguments.

  \<open>seedData\<close> calls \<open>sqlite.DefaultTopics()\<close> and \<open>sqlite.SeedProblems()\<close>, which the
  repository does not contain; the model takes both lists as arguments. For each topic
  it runs GORM's \<open>FirstOrCreate\<close> with the condition \<open>slug = topic.Slug\<close> (plus the
  primary key when the topic carries one): a live row found leaves the table alone,
  otherwise the topic is inserted and an insert that breaks a unique index fails, its
  error ignored. For each problem it inserts the problem through
  \<open>ProblemRepository.Create\<close> when \<open>FindBySlug\<close> does not find it, again ignoring
  the error. One clock reading \<open>now\<close> stands for the clock of the whole seeding.
\<close>

section \<open>Wiring\<close>

record app =
  app_problem_service :: "sqlite_db problem_service"
  app_submission_service :: "sqlite_db Service"

definition sqlite_service :: "code_executor \<Rightarrow> sqlite_db Service" where
  "sqlite_service ex = NewService (sqlite_submission_repo go_results_codec) sqlite_problem_repo ex"

definition app_wiring :: "exec_env \<Rightarrow> app" where
  "app_wiring env =
     (let codeExecutor = New (5 * 1000000000)
      in \<lparr>app_problem_service = NewProblemService sqlite_problem_repo,
          app_submission_service = sqlite_service (Execute codeExecutor env)\<rparr>)"

text \<open>The handler each route of \<open>Router.Setup\<close> is bound to.\<close>

definition run_handler ::
  "app \<Rightarrow> string \<Rightarrow> go_time \<Rightarrow> handler_name \<Rightarrow> (string \<times> string) list \<Rightarrow> http_request \<Rightarrow>
   sqlite_db \<Rightarrow> http_response \<times> sqlite_db" where
  "run_handler a uid now h ps rq db =
     (case h of
        ProblemList \<Rightarrow> (ProblemHandler_List (app_problem_service a) db (rq_query rq), db)
      | ProblemGet \<Rightarrow> (ProblemHandler_Get (app_problem_service a) db (param ps ''slug''), db)
      | TopicsGet \<Rightarrow> (ProblemHandler_GetTopics (app_problem_service a) db, db)
      | SubmissionRun \<Rightarrow> SubmissionHandler_Run (app_submission_service a) db uid now (rq_body rq)
      | SubmissionSubmit \<Rightarrow> SubmissionHandler_Submit (app_submission_service a) db uid now (rq_body rq)
      | SubmissionGet \<Rightarrow> (SubmissionHandler_Get (app_submission_service a) db (param ps ''id''), db))"

definition serve :: "app \<Rightarrow> string \<Rightarrow> go_time \<Rightarrow> http_request \<Rightarrow> sqlite_db \<Rightarrow> http_response \<times> sqlite_db" where
  "serve a uid now rq db = engine_serve (run_handler a uid now) rq db"

text \<open>The schema of the body a route answers with when it succeeds.\<close>

definition route_schema :: "handler_name \<Rightarrow> jtype" where
  "route_schema h =
     (case h of ProblemList \<Rightarrow> problem_list_schema | ProblemGet \<Rightarrow> problem_schema
      | TopicsGet \<Rightarrow> topics_schema | _ \<Rightarrow> submission_schema)"

section \<open>Seeding\<close>

definition topic_FirstOrCreate :: "go_time \<Rightarrow> TopicModel \<Rightarrow> sqlite_db \<Rightarrow> sqlite_db" where
  "topic_FirstOrCreate now t db =
     (if list_ex (\<lambda>u. live (tpm_model u) \<and> tpm_slug u = tpm_slug t \<and> (tpm_id t = 0 \<or> tpm_id u = tpm_id t))
           (db_topics db)
      then db else snd (upsert_topic now t db))"

definition seed_problem :: "go_time \<Rightarrow> sqlite_db \<Rightarrow> problem \<Rightarrow> sqlite_db" where
  "seed_problem now db p =
     (case problem_FindBySlug db (p_slug p) of
        Inr _ \<Rightarrow> db
      | Inl _ \<Rightarrow> (case problem_Create db now p of Inr (_, db') \<Rightarrow> db' | Inl _ \<Rightarrow> db))"

definition seedData :: "go_time \<Rightarrow> TopicModel list \<Rightarrow> problem list \<Rightarrow> sqlite_db \<Rightarrow> sqlite_db" where
  "seedData now topics problems db =
     foldl (seed_problem now) (foldl (\<lambda>db t. topic_FirstOrCreate now t db) db topics) problems"

definition main_db :: "go_time \<Rightarrow> TopicModel list \<Rightarrow> problem list \<Rightarrow> sqlite_db" where
  "main_db now topics problems = seedData now topics problems NewDB"

text \<open>
  What the proof of idempotence tracks: the database only grows, and a seed that clashes
  with a row (the same name, slug or explicit identifier) is left alone by a second run.
\<close>

definition db_grows :: "sqlite_db \<Rightarrow> sqlite_db \<Rightarrow> bool" where
  "db_grows db db' \<longleftrightarrow>
     set (db_topics db) \<subseteq> set (db_topics db') \<and> set (db_problems db) \<subseteq> set (db_problems db')"

definition topic_settled :: "TopicModel \<Rightarrow> sqlite_db \<Rightarrow> bool" where
  "topic_settled t db \<longleftrightarrow>
     (\<exists>u \<in> set (db_topics db). tpm_name u = tpm_name t \<or> tpm_slug u = tpm_slug t \<or> (tpm_id t \<noteq> 0 \<and> tpm_id u = tpm_id t))"

definition problem_settled :: "problem \<Rightarrow> sqlite_db \<Rightarrow> bool" where
  "problem_settled p db \<longleftrightarrow>
     (\<exists>m \<in> set (db_problems db). pm_slug m = p_slug p \<or> (p_id p \<noteq> 0 \<and> pm_id m = p_id p))"

definition problems_live :: "sqlite_db \<Rightarrow> bool" where
  "problems_live db \<longleftrightarrow> (\<forall>m \<in> set (db_problems db). live (pm_model m))"

definition slug_served :: "string \<Rightarrow> sqlite_db \<Rightarrow> bool" where
  "slug_served s db \<longleftrightarrow> (\<exists>m \<in> set (db_problems db). live (pm_model m) \<and> pm_slug m = s)"

section \<open>Sample requests\<close>

definition sample_request :: "string \<Rightarrow> string \<Rightarrow> string \<Rightarrow> string + json \<Rightarrow> http_request" where
  "sample_request m path origin body =
     \<lparr>rq_method = m, rq_path = path, rq_host = ''localhost:8080'', rq_origin = origin, rq_query = [],
      rq_body = body\<rparr>"

definition two_sum_body :: json where
  "two_sum_body =
     JObject [(''problemId'', JInt 1), (''language'', JString ''python''), (''code'', JString ''pass'')]"

section \<open>Lemmas\<close>

lemma cors_no_origin: "rq_origin rq = [] \<Longrightarrow> cors_middleware rq = None"
  by (simp add: cors_middleware_def)

lemma serve_route:
  "rq_origin rq = [] \<Longrightarrow> lookup_route (rq_method rq) (rq_path rq) = Some (h, ps) \<Longrightarrow>
   serve a uid now rq db = run_handler a uid now h ps rq db"
  by (simp add: serve_def engine_serve_def cors_no_origin)

lemma app_wiring_services:
  "app_problem_service (app_wiring env) = NewProblemService sqlite_problem_repo"
  "app_submission_service (app_wiring env) = sqlite_service (Execute (New (5 * 1000000000)) env)"
  by (simp_all add: app_wiring_def)

text \<open>
  (C9) Through the application as \<open>main\<close> wires it,
  \<open>GET /api/problems/:slug\<close> for a problem the database holds answers 200 with the
  problem's response in which the test cases are exactly its test cases that are not
  hidden, in order: no hidden test case, nor its expected output, reaches a client.
\<close>

theorem serve_get_problem_visible:
  assumes "problem_FindBySlug db slug = Inr q" and "slug \<noteq> []" and "CHR ''/'' \<notin> set slug"
    and "rq_method rq = ''GET''" and "rq_path rq = ''/api/problems/'' @ slug" and "rq_origin rq = []"
  shows "serve (app_wiring env) uid now rq db =
           (c_JSON StatusOK (problem_response_json
              (toProblemResponse (q\<lparr>p_test_cases := filter (\<lambda>tc. \<not> tc_is_hidden tc) (p_test_cases q)\<rparr>) True)), db)"
proof -
  have "lookup_route (rq_method rq) (rq_path rq) = Some (ProblemGet, [(''slug'', slug)])"
    unfolding assms(4,5) by (rule lookup_route_problem [OF assms(2,3)])
  from serve_route [OF assms(6) this] show ?thesis
    using assms(1)
    by (simp add: run_handler_def ProblemHandler_Get_def GetProblem_def app_wiring_services
                  NewProblemService_def sqlite_problem_repo_def param_def VisibleTestCases_eq)
qed


lemma sqlite_service_get_after_submit:
  assumes "SubmitCode (sqlite_service ex) db uid now pid language code = Inr (sub, db')"
  shows "GetSubmission (sqlite_service ex) db' uid =
           Inr (sub\<lparr>sub_results := map sanitize_result (sub_results sub), sub_created_at := go_zero_time\<rparr>)"
proof -
  have "create_find_contract (svc_submission_repo (sqlite_service ex))
          (\<lambda>s. toDomainSubmission go_results_codec (toModelSubmission go_results_codec s))"
    by (simp add: sqlite_service_def NewService_def sqlite_submission_contract)
  then show ?thesis
    using SubmitCode_get_contract [of "sqlite_service ex"] assms by (simp add: submission_rows_json)
qed

text \<open>
  (C21) \<open>POST /api/submit\<close> with a valid body answers 200 with the
  judged submission, its \<open>passed\<close> and \<open>total\<close> counts included, and stores it; a later
  \<open>GET /api/submissions/:id\<close> with the identifier it was given answers 200 with the
  same submission, but without \<open>passed\<close> and \<open>total\<close> (the handler does not set
  them) and with the strings of its results as the JSON column returns them.
\<close>

theorem serve_submit_then_get:
  assumes "ShouldBindJSON (rq_body rq) = Inr req"
    and "SubmitCode (app_submission_service (app_wiring env)) db uid now
           (rr_problem_id req) (rr_language req) (rr_code req) = Inr (sub, db')"
    and "rq_method rq = ''POST''" and "rq_path rq = ''/api/submit''" and "rq_origin rq = []"
    and "rq_method rq2 = ''GET''" and "rq_path rq2 = ''/api/submissions/'' @ uid" and "rq_origin rq2 = []"
    and "uid \<noteq> []" and "CHR ''/'' \<notin> set uid"
  shows "serve (app_wiring env) uid now rq db =
           (c_JSON StatusOK (submission_response_json ((toSubmissionResponse sub)
              \<lparr>sresp_passed := of_nat (PassedCount sub), sresp_total := of_nat (TotalCount sub)\<rparr>)), db') \<and>
         serve (app_wiring env) uid' now' rq2 db' =
           (c_JSON StatusOK (submission_response_json
              (toSubmissionResponse (sub\<lparr>sub_results := map sanitize_result (sub_results sub)\<rparr>))), db')"
proof
  have "lookup_route (rq_method rq) (rq_path rq) = Some (SubmissionSubmit, [])"
    unfolding assms(3,4) by (rule lookup_route_post(2))
  from serve_route [OF assms(5) this] assms(1,2)
  show "serve (app_wiring env) uid now rq db =
          (c_JSON StatusOK (submission_response_json ((toSubmissionResponse sub)
             \<lparr>sresp_passed := of_nat (PassedCount sub), sresp_total := of_nat (TotalCount sub)\<rparr>)), db')"
    by (simp add: run_handler_def SubmissionHandler_Submit_def Let_def)
next
  have "lookup_route (rq_method rq2) (rq_path rq2) = Some (SubmissionGet, [(''id'', uid)])"
    unfolding assms(6,7) by (rule lookup_route_submission [OF assms(9,10)])
  moreover have "GetSubmission (app_submission_service (app_wiring env)) db' uid =
      Inr (sub\<lparr>sub_results := map sanitize_result (sub_results sub), sub_created_at := go_zero_time\<rparr>)"
    using assms(2) by (simp add: app_wiring_services sqlite_service_get_after_submit)
  ultimately show "serve (app_wiring env) uid' now' rq2 db' =
      (c_JSON StatusOK (submission_response_json
         (toSubmissionResponse (sub\<lparr>sub_results := map sanitize_result (sub_results sub)\<rparr>))), db')"
    using serve_route [OF assms(8)]
    by (simp add: run_handler_def SubmissionHandler_Get_def param_def toSubmissionResponse_def)
qed


text \<open>
  (C23) A \<open>POST\<close> to \<open>/api/run\<close> or \<open>/api/submit\<close> whose body does
  not bind (not JSON, a field of the wrong type, or a missing problem identifier,
  language or code) answers 400 with the binding error and leaves the database as it was:
  no code runs and no submission is stored.
\<close>

theorem serve_bad_request:
  assumes "ShouldBindJSON (rq_body rq) = Inl msg"
    and "rq_method rq = ''POST''" and "rq_path rq = ''/api/run'' \<or> rq_path rq = ''/api/submit''"
    and "rq_origin rq = []"
  shows "serve a uid now rq db = (c_JSON StatusBadRequest (error_json msg), db)"
proof -
  obtain h where "lookup_route (rq_method rq) (rq_path rq) = Some (h, [])" and "h = SubmissionRun \<or> h = SubmissionSubmit"
    using assms(2,3) lookup_route_post by auto
  with serve_route [OF assms(4)] assms(1) show ?thesis
    by (auto simp: run_handler_def SubmissionHandler_Run_def SubmissionHandler_Submit_def)
qed

text \<open>
  (C24) A cross-origin request from an origin that is not in the CORS
  list never reaches a handler: whatever its method and path, the database is left as it
  was and the answer is a 403 (or the trailing-slash redirect) without a body.
\<close>

theorem serve_cors_forbidden:
  assumes "rq_origin rq \<noteq> []" and "rq_origin rq \<notin> set AllowOrigins"
    and "rq_origin rq \<noteq> ''http://'' @ rq_host rq" and "rq_origin rq \<noteq> ''https://'' @ rq_host rq"
  shows "snd (serve a uid now rq db) = db \<and> resp_body (fst (serve a uid now rq db)) = NoBody \<and>
         resp_status (fst (serve a uid now rq db)) \<in> {301, 307, 403}"
proof -
  have "cors_middleware rq = Some \<lparr>resp_status = 403, resp_body = NoBody\<rparr>"
    using assms by (simp add: cors_middleware_def)
  then show ?thesis
    by (auto simp: serve_def engine_serve_def split: option.split prod.split)
qed

lemma run_handler_typed:
  "response_typed (route_schema h) (fst (run_handler a uid now h ps rq db))"
  by (cases h) (simp_all add: run_handler_def route_schema_def SubmissionHandler_Run_typed
      SubmissionHandler_Submit_typed SubmissionHandler_Get_typed ProblemHandler_List_typed
      ProblemHandler_Get_typed ProblemHandler_GetTopics_typed)

text \<open>
  (C22) Every response of the server is well-formed: an empty-bodied
  answer of the router or the CORS middleware (204, 301, 307, 403), Gin's text 404, or a
  JSON body that has the schema of its route when the status is 200 and the error schema
  \<open>{"error": string}\<close> otherwise.
\<close>

theorem serve_responses_typed:
  "(resp_body (fst (serve a uid now rq db)) = NoBody \<and> resp_status (fst (serve a uid now rq db)) \<in> {204, 301, 307, 403}) \<or>
   fst (serve a uid now rq db) = not_found_text \<or>
   (\<exists>h ps. lookup_route (rq_method rq) (rq_path rq) = Some (h, ps) \<and>
           response_typed (route_schema h) (fst (serve a uid now rq db)))"
proof -
  have cors: "cors_middleware rq = Some r \<Longrightarrow> resp_body r = NoBody \<and> resp_status r \<in> {204, 403}" for r
    by (auto simp: cors_middleware_def Let_def split: if_splits)
  show ?thesis
  proof (cases "lookup_route (rq_method rq) (rq_path rq)")
    case None
    then show ?thesis using cors
      by (auto simp: serve_def engine_serve_def split: option.split)
  next
    case (Some hp)
    then show ?thesis using cors run_handler_typed [of "fst hp"]
      by (cases hp) (auto simp: serve_def engine_serve_def split: option.split)
  qed
qed


lemma db_grows_refl [simp]: "db_grows db db"
  by (simp add: db_grows_def)

lemma db_grows_trans: "db_grows a b \<Longrightarrow> db_grows b c \<Longrightarrow> db_grows a c"
  by (auto simp: db_grows_def)

lemma upsert_topic_grows: "set (db_topics db) \<subseteq> set (db_topics (snd (upsert_topic now t db)))"
  by (auto simp: upsert_topic_def Let_def set_insort_key)

lemma save_topics_grows: "set (db_topics db) \<subseteq> set (db_topics (save_topics now pid ts db))"
proof (induction ts arbitrary: db)
  case (Cons t ts)
  show ?case
    using upsert_topic_grows [of db now t] Cons.IH [of "link_topic pid (fst (upsert_topic now t db)) (snd (upsert_topic now t db))"]
    by (auto simp: split_beta)
qed simp

lemma problem_Create_grows:
  assumes "problem_Create db now p = Inr (p', db')"
  shows "db_grows db db' \<and> (\<exists>m \<in> set (db_problems db'). live (pm_model m) \<and> pm_slug m = p_slug p)"
proof -
  let ?model = "toModelProblem p"
  let ?i = "if pm_id ?model = 0 then next_rowid (map pm_id (db_problems db)) else pm_id ?model"
  let ?row = "?model\<lparr>pm_model := stamp ?i now now, pm_test_cases := [], pm_topics := []\<rparr>"
  have db': "db' = save_associations now ?i ?model (db\<lparr>db_problems := insort_key pm_id ?row (db_problems db)\<rparr>)"
    using assms by (auto simp: problem_Create_def Let_def split: if_splits)
  have "set (db_topics db) \<subseteq> set (db_topics db')"
    unfolding db' save_associations_def
    using save_topics_grows [of "insert_test_cases now ?i (pm_test_cases ?model)
                                  (db\<lparr>db_problems := insort_key pm_id ?row (db_problems db)\<rparr>)" now ?i "pm_topics ?model"]
    by simp
  moreover have "set (db_problems db') = insert ?row (set (db_problems db))"
    unfolding db' by (simp add: set_insort_key)
  moreover have "live (pm_model ?row) \<and> pm_slug ?row = p_slug p"
    by (simp add: live_def stamp_def toModelProblem_fields)
  ultimately show ?thesis by (auto simp: db_grows_def)
qed

lemma problem_Create_conflict:
  assumes "problem_Create db now p = Inl e"
  shows "problem_settled p db"
proof -
  have "list_ex (\<lambda>m. pm_id m = (if p_id p = 0 then next_rowid (map pm_id (db_problems db)) else p_id p) \<or>
                     pm_slug m = p_slug p) (db_problems db)"
    using assms by (auto simp: problem_Create_def Let_def toModelProblem_fields split: if_splits)
  moreover have "\<forall>m \<in> set (db_problems db). pm_id m \<noteq> next_rowid (map pm_id (db_problems db))"
    using next_rowid_fresh [of "map pm_id (db_problems db)"] by (auto simp: image_iff)
  ultimately show ?thesis
    by (auto simp: problem_settled_def list_ex_iff split: if_splits)
qed


lemma topic_settled_mono: "db_grows db db' \<Longrightarrow> topic_settled t db \<Longrightarrow> topic_settled t db'"
  by (auto simp: db_grows_def topic_settled_def)

lemma problem_settled_mono: "db_grows db db' \<Longrightarrow> problem_settled p db \<Longrightarrow> problem_settled p db'"
  by (auto simp: db_grows_def problem_settled_def)

lemma topic_FirstOrCreate_grows: "db_grows db (topic_FirstOrCreate now t db)"
  using upsert_topic_grows [of db now t] by (simp add: topic_FirstOrCreate_def db_grows_def)

lemma topic_FirstOrCreate_settles: "topic_settled t (topic_FirstOrCreate now t db)"
  by (auto simp: topic_FirstOrCreate_def topic_settled_def upsert_topic_def Let_def list_ex_iff
           set_insort_key split: if_splits)

lemma topic_FirstOrCreate_settled: "topic_settled t db \<Longrightarrow> topic_FirstOrCreate now t db = db"
  by (auto simp: topic_FirstOrCreate_def topic_settled_def upsert_topic_def Let_def list_ex_iff)

lemma seed_problem_grows: "db_grows db (seed_problem now db p)"
  using problem_Create_grows [of db now p]
  by (auto simp: seed_problem_def split: sum.split prod.split)

lemma seed_problem_settles: "problem_settled p (seed_problem now db p)"
proof (cases "problem_FindBySlug db (p_slug p)")
  case (Inr q)
  then obtain m where "first_where (\<lambda>m. pm_slug m = p_slug p) db = Some m"
    by (auto dest: problem_FindBySlug_Inr)
  then show ?thesis using Inr by (auto simp: seed_problem_def problem_settled_def dest: first_where_Some)
next
  case (Inl e)
  then show ?thesis
    using problem_Create_grows [of db now p] problem_Create_conflict [of db now p]
    by (auto simp: seed_problem_def problem_settled_def split: sum.split prod.split)
qed

lemma seed_problem_settled: "problem_settled p db \<Longrightarrow> seed_problem now db p = db"
proof -
  assume "problem_settled p db"
  then have "\<exists>e. problem_Create db now p = Inl e"
    by (auto simp: problem_settled_def problem_Create_def Let_def toModelProblem_fields list_ex_iff)
  then show ?thesis by (auto simp: seed_problem_def split: sum.split)
qed


lemma foldl_grows:
  "(\<And>d x. db_grows d (f d x)) \<Longrightarrow> db_grows d (foldl f d xs)"
  by (induction xs arbitrary: d) (auto intro: db_grows_trans)

lemma foldl_settles:
  assumes "\<And>d x. db_grows d (f d x)" and "\<And>d x. S x (f d x)"
    and "\<And>x d d'. db_grows d d' \<Longrightarrow> S x d \<Longrightarrow> S x d'"
  shows "x \<in> set xs \<Longrightarrow> S x (foldl f d xs)"
proof (induction xs arbitrary: d)
  case (Cons y ys)
  show ?case
  proof (cases "x = y")
    case True
    then show ?thesis using assms foldl_grows [of f "f d y" ys] by (metis foldl_Cons)
  next
    case False
    then show ?thesis using Cons by simp
  qed
qed simp

lemma foldl_fixed: "(\<And>x. x \<in> set xs \<Longrightarrow> f d x = d) \<Longrightarrow> foldl f d xs = d"
  by (induction xs) auto

lemma problem_FindBySlug_found: "(\<exists>q. problem_FindBySlug db s = Inr q) \<longleftrightarrow> slug_served s db"
  by (auto simp: problem_FindBySlug_def slug_served_def first_where_None split: option.split
           dest: first_where_Some)

lemma slug_served_mono: "db_grows db db' \<Longrightarrow> slug_served s db \<Longrightarrow> slug_served s db'"
  by (auto simp: db_grows_def slug_served_def)

lemma problem_Create_rows:
  assumes "problem_Create db now p = Inr (p', db')"
  shows "\<exists>row. set (db_problems db') = insert row (set (db_problems db)) \<and> live (pm_model row)"
  using assms
  by (auto simp: problem_Create_def Let_def set_insort_key live_def stamp_def split: if_splits)

lemma seed_problem_live: "problems_live db \<Longrightarrow> problems_live (seed_problem now db p)"
  using problem_Create_rows [of db now p]
  by (auto simp: seed_problem_def problems_live_def split: sum.split prod.split)

lemma seed_problem_serves:
  assumes live: "problems_live db" and id: "p_id p = 0"
  shows "slug_served (p_slug p) (seed_problem now db p)"
proof (cases "problem_FindBySlug db (p_slug p)")
  case (Inr q)
  then show ?thesis using problem_FindBySlug_found [of db "p_slug p"] by (simp add: seed_problem_def)
next
  case (Inl e)
  then have "\<not> slug_served (p_slug p) db" using problem_FindBySlug_found [of db "p_slug p"] by auto
  then have "\<not> problem_settled p db"
    using live id by (auto simp: problem_settled_def slug_served_def problems_live_def)
  then obtain p' db' where "problem_Create db now p = Inr (p', db')"
    using problem_Create_conflict [of db now p] by (cases "problem_Create db now p") auto
  then show ?thesis
    using Inl problem_Create_grows [of db now p] by (simp add: seed_problem_def slug_served_def)
qed

lemma foldl_seed_problem_serves:
  "problems_live db \<Longrightarrow> \<forall>q \<in> set ps. p_id q = 0 \<Longrightarrow> p \<in> set ps \<Longrightarrow>
   slug_served (p_slug p) (foldl (seed_problem now) db ps)"
proof (induction ps arbitrary: db)
  case (Cons q qs)
  show ?case
  proof (cases "p = q")
    case True
    then show ?thesis
      using Cons.prems seed_problem_serves [of db q now] slug_served_mono
            foldl_grows [of "seed_problem now" "seed_problem now db q" qs, OF seed_problem_grows]
      by auto
  next
    case False
    then show ?thesis using Cons seed_problem_live [of db now q] by simp
  qed
qed simp

lemma foldl_topic_FirstOrCreate_problems:
  "db_problems (foldl (\<lambda>db t. topic_FirstOrCreate now t db) db ts) = db_problems db"
  by (induction ts arbitrary: db) (simp_all add: topic_FirstOrCreate_def)

text \<open>
  (C29) Seeding is idempotent: running \<open>seedData\<close> a second time, at
  any clock reading, on the database the first run produced changes nothing, whatever
  the seed lists and the database it started from. Every topic and problem of the seed
  lists is left either present or clashing with a row, and seeding only adds rows.
\<close>

theorem seedData_idempotent:
  "seedData now' topics problems (seedData now topics problems db) = seedData now topics problems db"
proof -
  let ?T = "\<lambda>now db t. topic_FirstOrCreate now t db"
  define D1 where "D1 = foldl (?T now) db topics"
  define D where "D = foldl (seed_problem now) D1 problems"
  have grow: "db_grows D1 D"
    unfolding D_def by (rule foldl_grows) (rule seed_problem_grows)
  have "topic_settled t D1" if "t \<in> set topics" for t
    unfolding D1_def
    by (rule foldl_settles [where S = topic_settled and f = "?T now", OF topic_FirstOrCreate_grows
        topic_FirstOrCreate_settles topic_settled_mono that])
  then have t: "topic_settled t D" if "t \<in> set topics" for t
    using that grow topic_settled_mono by blast
  have p: "problem_settled p D" if "p \<in> set problems" for p
    unfolding D_def
    by (rule foldl_settles [where S = problem_settled, OF seed_problem_grows seed_problem_settles
        problem_settled_mono that])
  have "foldl (?T now') D topics = D"
    by (rule foldl_fixed) (simp add: t topic_FirstOrCreate_settled)
  moreover have "foldl (seed_problem now') D problems = D"
    by (rule foldl_fixed) (simp add: p seed_problem_settled)
  moreover have "seedData now topics problems db = D"
    by (simp add: seedData_def D_def D1_def)
  ultimately show ?thesis by (simp add: seedData_def)
qed

text \<open>
  (C30) Seeding makes every seed problem available: after
  \<open>seedData\<close> on a database whose problem rows are all live (a fresh one among them),
  \<open>FindBySlug\<close> finds every problem of the seed list that carries no identifier of its
  own, whatever the topics, the other seed problems and the clock reading.
\<close>

theorem seedData_serves_seed_problems:
  assumes "problems_live db" and "\<forall>p \<in> set problems. p_id p = 0" and "p \<in> set problems"
  shows "\<exists>q. problem_FindBySlug (seedData now topics problems db) (p_slug p) = Inr q"
proof -
  have "problems_live (foldl (\<lambda>db t. topic_FirstOrCreate now t db) db topics)"
    using assms(1) by (simp add: problems_live_def foldl_topic_FirstOrCreate_problems)
  from foldl_seed_problem_serves [OF this assms(2,3)] show ?thesis
    by (simp add: seedData_def problem_FindBySlug_found)
qed

section \<open>Witnesses\<close>

theorem serve_get_problem_visible_witness:
  "\<exists>q. problem_FindBySlug sample_db1 ''two-sum'' = Inr q \<and>
     serve (app_wiring (env_prints ''[0,1]'')) ''u1'' 7 (sample_request ''GET'' ''/api/problems/two-sum'' [] (Inl ''EOF'')) sample_db1 =
       (c_JSON StatusOK (problem_response_json
          (toProblemResponse (q\<lparr>p_test_cases := filter (\<lambda>tc. \<not> tc_is_hidden tc) (p_test_cases q)\<rparr>) True)), sample_db1) \<and>
     map tc_input (filter (\<lambda>tc. \<not> tc_is_hidden tc) (p_test_cases q)) = [''[2,7,11,15],9'']"
proof -
  let ?q = "toDomainProblem (preload_topics sample_db1 (preload_test_cases sample_db1 (hd (db_problems sample_db1))))"
  have q: "problem_FindBySlug sample_db1 ''two-sum'' = Inr ?q"
    by (simp add: problem_FindBySlug_def first_where_def order_by_id_def sample_db1_def sample_problem_def
        toModelProblem_def gorm_model_id_def stamp_def live_def AddTopic_def AddTestCase_def NewProblem_def Let_def)
  have tcs: "map tc_input (filter (\<lambda>tc. \<not> tc_is_hidden tc) (p_test_cases ?q)) = [''[2,7,11,15],9'']"
    by (simp add: toDomainProblem_fields sample_db1_def sample_problem_def toModelProblem_def gorm_model_id_def
        stamp_def live_def AddTopic_def AddTestCase_def NewProblem_def Let_def)
  have s: "serve (app_wiring (env_prints ''[0,1]'')) ''u1'' 7 (sample_request ''GET'' ''/api/problems/two-sum'' [] (Inl ''EOF'')) sample_db1 =
       (c_JSON StatusOK (problem_response_json
          (toProblemResponse (?q\<lparr>p_test_cases := filter (\<lambda>tc. \<not> tc_is_hidden tc) (p_test_cases ?q)\<rparr>) True)), sample_db1)"
    by (rule serve_get_problem_visible [OF q]) (simp_all add: sample_request_def)
  show ?thesis by (intro exI [of _ ?q] conjI q tcs s)
qed


lemma two_sum_bind:
  "ShouldBindJSON (Inr two_sum_body) = Inr \<lparr>rr_problem_id = 1, rr_language = ''python'', rr_code = ''pass''\<rparr>"
  by (simp add: ShouldBindJSON_def two_sum_body_def bind_field_def key_matches_def go_to_lower_def
      ascii_lower_def validate_RunRequest_def zero_RunRequest_def Let_def)

theorem serve_submit_then_get_witness:
  "\<exists>sub db'.
     SubmitCode (app_submission_service (app_wiring (env_prints ''[0,1]''))) sample_db1 ''u1'' 7 1 ''python'' ''pass''
       = Inr (sub, db') \<and>
     serve (app_wiring (env_prints ''[0,1]'')) ''u1'' 7 (sample_request ''POST'' ''/api/submit'' [] (Inr two_sum_body)) sample_db1 =
       (c_JSON StatusOK (submission_response_json ((toSubmissionResponse sub)
          \<lparr>sresp_passed := of_nat (PassedCount sub), sresp_total := of_nat (TotalCount sub)\<rparr>)), db') \<and>
     serve (app_wiring (env_prints ''[0,1]'')) ''u2'' 8 (sample_request ''GET'' ''/api/submissions/u1'' [] (Inl ''EOF'')) db' =
       (c_JSON StatusOK (submission_response_json
          (toSubmissionResponse (sub\<lparr>sub_results := map sanitize_result (sub_results sub)\<rparr>))), db')"
proof -
  let ?s = "app_submission_service (app_wiring (env_prints ''[0,1]''))"
  have find: "pr_find_by_id (svc_problem_repo ?s) sample_db1 1 =
                Inr (toDomainProblem (preload_topics sample_db1 (preload_test_cases sample_db1
                  (hd (db_problems sample_db1)))))"
    by (simp add: app_wiring_def sqlite_service_def NewService_def sqlite_problem_repo_def problem_FindByID_def
        first_where_def order_by_id_def sample_db1_def sample_problem_def toModelProblem_def
        gorm_model_id_def stamp_def live_def AddTopic_def AddTestCase_def NewProblem_def Let_def)
  obtain sub db' where r: "SubmitCode ?s sample_db1 ''u1'' 7 1 ''python'' ''pass'' = Inr (sub, db')"
    by (simp only: SubmitCode_def find Let_def sum.case,
        simp add: app_wiring_def sqlite_service_def NewService_def sqlite_submission_repo_def
        submission_Create_def toModelSubmission_def sample_db1_def Let_def SetResults_fields NewSubmission_fields)
  let ?req = "\<lparr>rr_problem_id = 1, rr_language = ''python'', rr_code = ''pass''\<rparr>"
  have r': "SubmitCode ?s sample_db1 ''u1'' 7 (rr_problem_id ?req) (rr_language ?req) (rr_code ?req) = Inr (sub, db')"
    using r by simp
  have "serve (app_wiring (env_prints ''[0,1]'')) ''u1'' 7 (sample_request ''POST'' ''/api/submit'' [] (Inr two_sum_body)) sample_db1 =
       (c_JSON StatusOK (submission_response_json ((toSubmissionResponse sub)
          \<lparr>sresp_passed := of_nat (PassedCount sub), sresp_total := of_nat (TotalCount sub)\<rparr>)), db') \<and>
     serve (app_wiring (env_prints ''[0,1]'')) ''u2'' 8 (sample_request ''GET'' ''/api/submissions/u1'' [] (Inl ''EOF'')) db' =
       (c_JSON StatusOK (submission_response_json
          (toSubmissionResponse (sub\<lparr>sub_results := map sanitize_result (sub_results sub)\<rparr>))), db')"
    by (rule serve_submit_then_get [where uid = "''u1''", OF _ r'])
       (simp_all add: sample_request_def two_sum_bind)
  with r show ?thesis by blast
qed


theorem serve_bad_request_witness:
  "ShouldBindJSON (Inr (JObject [(''problemId'', JInt 1), (''language'', JString ''python'')])) =
     Inl (required_message ''Code'') \<and>
   serve (app_wiring (env_prints ''[0,1]'')) ''u1'' 7
     (sample_request ''POST'' ''/api/run'' [] (Inr (JObject [(''problemId'', JInt 1), (''language'', JString ''python'')])))
     sample_db1 =
   (c_JSON StatusBadRequest (error_json (required_message ''Code'')), sample_db1)"
proof -
  have b: "ShouldBindJSON (Inr (JObject [(''problemId'', JInt 1), (''language'', JString ''python'')])) =
             Inl (required_message ''Code'')"
    by (simp add: ShouldBindJSON_def bind_field_def key_matches_def go_to_lower_def ascii_lower_def
        validate_RunRequest_def zero_RunRequest_def Let_def)
  have "serve (app_wiring (env_prints ''[0,1]'')) ''u1'' 7
          (sample_request ''POST'' ''/api/run'' [] (Inr (JObject [(''problemId'', JInt 1), (''language'', JString ''python'')])))
          sample_db1 = (c_JSON StatusBadRequest (error_json (required_message ''Code'')), sample_db1)"
    by (rule serve_bad_request) (simp_all add: sample_request_def b)
  with b show ?thesis by blast
qed

theorem serve_cors_forbidden_witness:
  "snd (serve (app_wiring (env_prints ''[0,1]'')) ''u1'' 7
          (sample_request ''POST'' ''/api/submit'' ''http://evil.example'' (Inr two_sum_body)) sample_db1) = sample_db1 \<and>
   resp_body (fst (serve (app_wiring (env_prints ''[0,1]'')) ''u1'' 7
          (sample_request ''POST'' ''/api/submit'' ''http://evil.example'' (Inr two_sum_body)) sample_db1)) = NoBody \<and>
   resp_status (fst (serve (app_wiring (env_prints ''[0,1]'')) ''u1'' 7
          (sample_request ''POST'' ''/api/submit'' ''http://evil.example'' (Inr two_sum_body)) sample_db1)) \<in> {301, 307, 403}"
  by (rule serve_cors_forbidden) (simp_all add: sample_request_def AllowOrigins_def)


theorem seedData_serves_seed_problems_witness:
  "\<exists>q. problem_FindBySlug (seedData 5 [] [sample_problem] NewDB) ''two-sum'' = Inr q"
proof -
  have "p_slug sample_problem = ''two-sum''" and "p_id sample_problem = 0"
    by (simp_all add: sample_problem_def AddTopic_def AddTestCase_def NewProblem_def)
  moreover have "problems_live NewDB" by (simp add: problems_live_def NewDB_def)
  ultimately show ?thesis
    using seedData_serves_seed_problems [of NewDB "[sample_problem]" sample_problem 5 "[]"] by simp
qed

end
