(* ===== verification/AppErrors.thy ===== *)
theory AppErrors
  imports Prelude "HOL-Library.Sublist"
begin

text \<open>
  The error type of \<open>pkg/apperrors/errors.go\<close>: an \<open>AppError\<close> with a code, a message and
  an optional wrapped error, its \<open>Error()\<close> text, \<open>Unwrap()\<close>, the four error codes and
  the three constructors. A wrapped Go \<open>error\<close> is represented by the text its
  \<open>Error()\<close> returns, which is all that \<open>fmt.Sprintf("%v", e.Err)\<close> reads of it; \<open>nil\<close> is
  \<open>None\<close>. No other package of the program imports \<open>apperrors\<close>: the handlers build their
  error bodies from \<open>err.Error()\<close> of the repository errors directly.
\<close>

record AppError =
  ae_Code :: string
  ae_Message :: string
  ae_Err :: "string option"

definition ErrCodeNotFound :: string where "ErrCodeNotFound = ''NOT_FOUND''"
definition ErrCodeValidation :: string where "ErrCodeValidation = ''VALIDATION''"
definition ErrCodeInternal :: string where "ErrCodeInternal = ''INTERNAL''"
definition ErrCodeUnauthorized :: string where "ErrCodeUnauthorized = ''UNAUTHORIZED''"

definition AppError_Error :: "AppError \<Rightarrow> string" where
  "AppError_Error e =
     (case ae_Err e of
        Some err \<Rightarrow> ae_Code e @ '': '' @ ae_Message e @ '' - '' @ err
      | None \<Rightarrow> ae_Code e @ '': '' @ ae_Message e)"

definition AppError_Unwrap :: "AppError \<Rightarrow> string option" where
  "AppError_Unwrap e = ae_Err e"

definition NewNotFound :: "string \<Rightarrow> AppError" where
  "NewNotFound message = \<lparr>ae_Code = ErrCodeNotFound, ae_Message = message, ae_Err = None\<rparr>"

definition NewValidation :: "string \<Rightarrow> AppError" where
  "NewValidation message = \<lparr>ae_Code = ErrCodeValidation, ae_Message = message, ae_Err = None\<rparr>"

definition NewInternal :: "string \<Rightarrow> string option \<Rightarrow> AppError" where
  "NewInternal message err = \<lparr>ae_Code = ErrCodeInternal, ae_Message = message, ae_Err = err\<rparr>"

lemmas error_code_defs = ErrCodeNotFound_def ErrCodeValidation_def ErrCodeInternal_def
  ErrCodeUnauthorized_def

section \<open>Lemmas\<close>

text \<open>
  The code of an error built by one of the constructors can be read back from its
  \<open>Error()\<close> text: of the four codes followed by a colon, the text begins with the
  constructor's own and no other.
\<close>

lemma AppError_kind_roundtrip:
  assumes "e \<in> {NewNotFound m, NewValidation m, NewInternal m err}"
    and "c \<in> set [ErrCodeNotFound, ErrCodeValidation, ErrCodeInternal, ErrCodeUnauthorized]"
  shows "prefix (c @ '':'') (AppError_Error e) \<longleftrightarrow> c = ae_Code e"
  using assms by (auto simp: AppError_Error_def NewNotFound_def NewValidation_def NewInternal_def
                             error_code_defs split: option.split)

end
