(* ===== verification/Spec2Isabelle.thy ===== *)
theory Spec2Isabelle
  imports AppMain AppErrors
begin

text \<open>
  \<^bold>\<open>A verification development of leetcode-api, an online judge.\<close>

  The repository (\<open>src/frontend-system-design/leetcode-api\<close>, written in Go) is a small
  online judge. \<open>cmd/api/main.go\<close> opens a SQLite database, seeds it, and serves a Gin
  engine (\<open>internal/interfaces/http/router.go\<close>) with six routes under \<open>/api\<close> and a
  CORS middleware. The handlers (\<open>problem_handler.go\<close>, \<open>submission_handler.go\<close>)
  bind JSON requests and call two application services (\<open>internal/application\<close>). The
  services read problems and store submissions through repository interfaces
  (\<open>internal/domain/*/repository.go\<close>), implemented on SQLite with GORM
  (\<open>internal/infrastructure/persistence/sqlite\<close>). They run submitted code through the
  code executor (\<open>internal/infrastructure/executor/code_executor.go\<close>). The core of the
  program is the judging path: \<open>SubmitCode\<close>/\<open>RunCode\<close> read a problem and hand its test
  cases to \<open>Execute\<close>. \<open>Execute\<close> runs one external process per test case through
  \<open>runCode\<close> and judges its output. \<open>SetResults\<close> reduces the results to a verdict,
  which is stored.

  \<^bold>\<open>Theories, bottom up.\<close>
  \<^item> \<open>Prelude\<close>: the Go types (\<open>int\<close> and \<open>time.Duration\<close> as \<open>64 word\<close>, \<open>uint\<close>
    identifiers as \<open>nat\<close>, strings as byte lists, \<open>float64\<close> as a finite real,
    \<open>NaN\<close> or an infinity with IEEE 754's division and multiplication), the character
    constants of the
    harness templates, the collections \<open>go_lits\<close> and \<open>model_simps\<close>, and lemmas on
    prefix codes, wrapping sums of words and list filters.
  \<^item> \<open>GoStrings\<close>: \<open>strings.TrimSpace\<close> (\<open>go_trim_space\<close>) over the UTF-8 encodings of
    Unicode white space, and \<open>strings.ToLower\<close> on ASCII.
  \<^item> \<open>GoJson\<close>: \<open>strconv.Itoa\<close>/\<open>Atoi\<close>, the UTF-8 decoding of \<open>unicode/utf8\<close>, and the
    string quoting and unquoting of \<open>encoding/json\<close>, with their round trips.
  \<^item> \<open>ProblemDomain\<close>, \<open>SubmissionDomain\<close>: the entities of
    \<open>internal/domain/*/entity.go\<close> and the verdict aggregator (\<open>SetResults\<close>,
    \<open>calculateStatus\<close>, \<open>calculateTotalRuntime\<close>, \<open>PassedCount\<close>). Each loop is a
    recursive function proved equal to its reference (\<open>list_all\<close>, \<open>sum_list\<close>,
    \<open>filter\<close>). The life cycle of a submission is the inductive \<open>sub_reachable\<close>.
  \<^item> \<open>Executor\<close>: \<open>New\<close>, the harness generators, the command selection
    \<open>build_command\<close>, \<open>runCode\<close> and \<open>Execute\<close> (loop \<open>execute_loop\<close>). Processes and
    the clock are the environment \<open>exec_env\<close>, left arbitrary, so every property holds
    for every behaviour of the external programs, hanging and crashing ones included.
  \<^item> \<open>Repositories\<close>: the repository interfaces as records of operations over an
    abstract store. \<open>SubmissionService\<close> and \<open>ProblemService\<close>: the two services over
    them, with an in-memory submission store that meets the contract
    \<open>create_find_contract\<close>.
  \<^item> \<open>SqliteSchema\<close>, \<open>SqlLike\<close>, \<open>SqliteProblemRepo\<close>, \<open>SqliteSubmissionRepo\<close>,
    \<open>ResultsJson\<close>: the GORM rows and mappers, SQLite's \<open>LOWER\<close> and \<open>LIKE\<close>, every
    query of \<open>problem_repo.go\<close> and \<open>submission_repo.go\<close> over the explicit tables of
    \<open>sqlite_db\<close> (soft delete, joins, count and pagination, association saving), and
    the JSON text of the \<open>results\<close> column (\<open>go_results_codec\<close>).
  \<^item> \<open>HttpResponses\<close>, \<open>HttpHandlers\<close>, \<open>HttpRouter\<close>, \<open>ApiSchema\<close>: the response
    structs and their JSON (tags, \<open>omitempty\<close>, \<open>gin.H\<close> key order), the six handlers
    with \<open>ShouldBindJSON\<close> and its validation, Gin's routing and the CORS middleware,
    and a type system on JSON values with the schema of each route.
  \<^item> \<open>AppMain\<close>: \<open>main\<close>'s wiring (\<open>app_wiring\<close>), one request served on the database
    (\<open>serve\<close>), and \<open>seedData\<close>. \<open>AppErrors\<close>: \<open>pkg/apperrors\<close>.
  \<^item> \<open>Spec2Isabelle\<close> (this theory): the service composed with the executor and with the
    SQLite repositories, and the properties of the whole judging path.

  \<^bold>\<open>What the properties show.\<close> The verdict is \<open>Accepted\<close> exactly when every
  test case's process met the deadline, exited without error and printed the expected
  output up to white space at its ends. Results come back one per test case, in order,
  each depending only on its own test case. A time-out, a crash and an unsupported
  language each fail the test with a fixed or captured message. \<open>RunCode\<close> and
  \<open>GET /api/problems/:slug\<close> never show a hidden test case. The total runtime wraps at
  64 bits and is exact when the sum fits. The acceptance rate is a finite percentage,
  never \<open>NaN\<close>. Every reachable submission is pending or
  consistent with its results. Of persistence: what each row mapper round trip keeps,
  that \<open>FindByID\<close> hands the judge exactly the live test cases in stored order, that
  \<open>FindAll\<close> refines a filter-sort-page specification and, for every page, skips the
  64-bit wrapped offset, that every write keeps the
  tables well formed, that seeding leaves every seed problem findable by its slug and a
  second seeding changes nothing, and that a submission read back equals the one
  stored except its creation time and malformed UTF-8. Of HTTP:
  every route answers JSON of its schema, a submission
  posted and then fetched comes back with its verdict, a request without code is a 400
  with the validator's message, and a foreign origin gets a 403.

  \<^bold>\<open>Where the code and the spec part.\<close> The verdict is never \<open>Time Limit Exceeded\<close>
  or \<open>Runtime Error\<close>: the code collapses every failure into \<open>Wrong Answer\<close>. An
  unsupported language is not rejected as a request but fails each test, so a problem
  without test cases is \<open>Accepted\<close> in any language. Standard error of a successful
  run is ignored. A submission read back from SQLite has lost its \<open>CreatedAt\<close>.
  A large page number makes the list offset wrap and show an earlier page.
  \<open>passed\<close> and \<open>total\<close> are omitted when zero, and \<open>Run\<close> and \<open>Get\<close> never send them.
  See the findings of the manifest.

  \<^bold>\<open>Bounds and fuel.\<close> No fuel is needed. Every loop runs over a finite list or
  string. The loops that are not structural (\<open>strip_prefixes\<close>, \<open>utf8_sanitize\<close>,
  \<open>json_quote\<close>, \<open>json_unquote\<close>, \<open>parse_items\<close>) are functions whose termination is
  proved on the length of the text they consume. Timeouts are not modelled as time: the
  environment reports whether the deadline passed.

  \<^bold>\<open>Not modelled.\<close> The external interpreters; process start-up, logging,
  \<open>ListenAndServe\<close> and signal handling in \<open>main\<close> (I/O with no state in the model);
  the response headers the CORS middleware sets; the lexing of request bodies (a body
  is a JSON value or a syntax error message); Unicode case folding beyond ASCII in
  \<open>ShouldBindJSON\<close>'s key match; rounding of \<open>float64\<close> arithmetic to 53 bits and
  the sign of zero (finite values are exact reals), and the text form of floats; SQLite's row order for a \<open>Preload\<close> without \<open>ORDER BY\<close> (the model takes the
  stored order). \<open>sqlite.DefaultTopics\<close> and \<open>sqlite.SeedProblems\<close> are not in the
  repository, so \<open>seedData\<close> takes both lists as arguments.
\<close>

section \<open>Scenarios\<close>

text \<open>
  The service of the in-memory store wired to the real executor, with processes that all
  print a given output, and a problem without test cases.
\<close>

definition judge_service :: "exec_env \<Rightarrow> mem_store Service" where
  "judge_service env = NewService mem_submission_repo mem_problem_repo (Execute (New 0) env)"

definition empty_problem_store :: mem_store where
  "empty_problem_store = ([1 \<mapsto> NewProblem ''empty'' ''Empty'' ''Easy'' ''algorithms'' [] 0 0], Map.empty)"

definition env_warns :: exec_env where
  "env_warns =
     \<lparr>env_run = (\<lambda>i c t. \<lparr>po_stdout = ''[0,1]'', po_stderr = ''DeprecationWarning'', po_err = None,
                          po_deadline = False\<rparr>),
      env_elapsed = (\<lambda>i. 9)\<rparr>"

definition sample_results :: "test_result list" where
  "sample_results =
     [\<lparr>tr_input = ''[3,3],6'', tr_expected = ''[0,1]'', tr_actual = ''[0,1]'', tr_passed = True,
       tr_runtime = 1\<rparr>,
      \<lparr>tr_input = ''[2,7,11,15],9'', tr_expected = ''[0,1]'', tr_actual = ''[0,1]'', tr_passed = True,
       tr_runtime = 1\<rparr>]"

section \<open>The judging path composed\<close>

text \<open>
  (C1) Submitting code to a problem with the real executor yields one
  result per test case of the problem, in order, and the verdict \<open>Accepted\<close> exactly when
  the process of every test case met the deadline, succeeded and printed the expected
  output up to white space at its ends.
\<close>

theorem SubmitCode_verdict:
  assumes "svc_executor s = Execute e env"
    and "pr_find_by_id (svc_problem_repo s) st pid = Inr p"
    and "SubmitCode s st uid now pid language code = Inr (sub, st')"
  shows "TotalCount sub = length (p_test_cases p) \<and>
         (\<forall>j < length (p_test_cases p). tr_input (sub_results sub ! j) = tc_input (p_test_cases p ! j)) \<and>
         (sub_status sub = StatusAccepted \<longleftrightarrow>
            (\<forall>j < length (p_test_cases p). process_accepts e env language code j (p_test_cases p ! j)))"
proof -
  have sub: "sub = SetResults (NewSubmission uid pid language code now)
                     (Execute e env language code (p_test_cases p))"
    using assms by (auto simp: SubmitCode_Inr)
  then show ?thesis
    by (auto simp: TotalCount_def SetResults_fields status_scan_eq list_all_length
        Execute_length Execute_nth execute_one_fields(1) execute_one_passed_iff)
qed

text \<open>
  (C8) With the real executor, \<open>RunCode\<close> runs exactly the visible
  test cases, in order: the inputs of its results are those of the visible test cases,
  and no result is judged against a hidden one.
\<close>

theorem RunCode_hidden_never_run:
  assumes "svc_executor s = Execute e env"
    and "pr_find_by_id (svc_problem_repo s) st pid = Inr p"
    and "RunCode s st uid now pid language code = Inr (sub, st')"
  shows "map tr_input (sub_results sub) = map tc_input (filter (\<lambda>tc. \<not> tc_is_hidden tc) (p_test_cases p)) \<and>
         TotalCount sub = length (filter (\<lambda>tc. \<not> tc_is_hidden tc) (p_test_cases p))"
proof -
  let ?vis = "filter (\<lambda>tc. \<not> tc_is_hidden tc) (p_test_cases p)"
  have sub: "sub_results sub = Execute e env language code ?vis"
    using assms by (auto simp: RunCode_Inr SetResults_fields VisibleTestCases_eq)
  have "map tr_input (Execute e env language code ?vis) = map tc_input ?vis"
    by (rule nth_equalityI) (simp_all add: Execute_length Execute_nth execute_one_fields(1))
  with sub show ?thesis
    by (simp add: TotalCount_def Execute_length)
qed

text \<open>
  (C13) A submission with a test case that ran out of time
  gets the verdict \<open>Wrong Answer\<close>, never \<open>Time Limit Exceeded\<close>, even when every other
  test case passed.
\<close>

theorem timeout_verdict_is_wrong_answer:
  assumes "svc_executor s = Execute e env"
    and "pr_find_by_id (svc_problem_repo s) st pid = Inr p"
    and "SubmitCode s st uid now pid language code = Inr (sub, st')"
    and "j < length (p_test_cases p)"
    and "build_command language code (tc_input (p_test_cases p ! j)) = Some cmd"
    and "po_deadline (env_run env j cmd (ce_timeout e))"
  shows "sub_status sub = StatusWrong \<and> sub_status sub \<noteq> StatusTimeout"
proof -
  have sub: "sub = SetResults (NewSubmission uid pid language code now)
                     (Execute e env language code (p_test_cases p))"
    using assms(1-3) by (auto simp: SubmitCode_Inr)
  have "\<not> tr_passed (Execute e env language code (p_test_cases p) ! j)"
    using assms(4-6) by (simp add: Execute_nth execute_one_fields runCode_deadline)
  then have "\<not> list_all tr_passed (Execute e env language code (p_test_cases p))"
    using assms(4) by (auto simp: list_all_length Execute_length)
  then show ?thesis
    by (simp add: sub SetResults_fields status_scan_eq)
qed

text \<open>
  (C14) An unsupported language is not refused: the submission
  is judged and stored like any other, with the verdict \<open>Wrong Answer\<close> when the problem
  has test cases and \<open>Accepted\<close> when it has none.
\<close>

theorem unsupported_language_verdict:
  assumes "svc_executor s = Execute e env"
    and "pr_find_by_id (svc_problem_repo s) st pid = Inr p"
    and "language \<notin> {''javascript'', ''python'', ''go''}"
    and "SubmitCode s st uid now pid language code = Inr (sub, st')"
  shows "sub_status sub = (if p_test_cases p = [] then StatusAccepted else StatusWrong) \<and>
         PassedCount sub = 0"
proof -
  have sub: "sub = SetResults (NewSubmission uid pid language code now)
                     (Execute e env language code (p_test_cases p))"
    using assms(1,2,4) by (auto simp: SubmitCode_Inr)
  have fails: "\<not> tr_passed (execute_one e env language code j tc)" for j tc
    using assms(3) by (simp add: execute_one_fields runCode_unsupported build_command_None_iff)
  have none: "filter tr_passed (Execute e env language code (p_test_cases p)) = []"
    using fails by (auto simp: filter_empty_conv in_set_conv_nth Execute_length Execute_nth)
  show ?thesis
  proof (cases "p_test_cases p = []")
    case True
    then show ?thesis
      by (simp add: sub SetResults_fields PassedCount_eq Execute_def)
  next
    case False
    then have "\<not> list_all tr_passed (Execute e env language code (p_test_cases p))"
      using fails by (auto simp: list_all_length Execute_length Execute_nth)
    with False none show ?thesis
      by (simp add: sub SetResults_fields status_scan_eq PassedCount_eq)
  qed
qed

text \<open>
  (C20) Through the SQLite repositories, \<open>GetSubmission\<close>
  after a successful \<open>SubmitCode\<close> returns the submission \<open>SubmitCode\<close> returned
  except in two fields: the submission was created at the clock reading \<open>now\<close> and is
  read back with Go's zero time, because \<open>toDomainSubmission\<close> never sets
  \<open>CreatedAt\<close>; and the strings of its results come back through \<open>encoding/json\<close>,
  which replaces every byte of malformed UTF-8 (a program's output may hold any bytes)
  by U+FFFD.
\<close>

theorem sqlite_submit_get_created_at:
  assumes "SubmitCode (sqlite_service ex) db uid now pid language code = Inr (sub, db')"
  shows "sub_created_at sub = now \<and>
         GetSubmission (sqlite_service ex) db' uid =
           Inr (sub\<lparr>sub_results := map sanitize_result (sub_results sub), sub_created_at := go_zero_time\<rparr>)"
  using assms sqlite_service_get_after_submit [OF assms]
  by (auto simp: SubmitCode_Inr SetResults_fields NewSubmission_fields)

section \<open>Witnesses\<close>

lemma all_less_two: "(\<forall>j < 2. P j) \<longleftrightarrow> P (0::nat) \<and> P 1"
  by (auto simp: less_2_cases_iff)

theorem SubmitCode_verdict_witness:
  "\<exists>sub st'. SubmitCode (judge_service (env_prints ''[0,1]\<newline>'')) demo_store ''u1'' 0 1
       ''javascript'' ''function twoSum(a, t) { return [0, 1]; }'' = Inr (sub, st') \<and>
     TotalCount sub = 2 \<and> sub_status sub = StatusAccepted"
proof -
  let ?s = "judge_service (env_prints ''[0,1]\<newline>'')"
  let ?c = "''function twoSum(a, t) { return [0, 1]; }''"
  obtain sub st' where r: "SubmitCode ?s demo_store ''u1'' 0 1 ''javascript'' ?c = Inr (sub, st')"
    by (simp add: SubmitCode_def judge_service_def demo_defs Let_def SetResults_fields
        NewSubmission_fields)
  have p: "pr_find_by_id (svc_problem_repo ?s) demo_store 1 = Inr demo_problem"
    by (simp add: judge_service_def demo_defs)
  have e: "svc_executor ?s = Execute (New 0) (env_prints ''[0,1]\<newline>'')"
    by (simp add: judge_service_def NewService_def)
  have v: "TotalCount sub = length (p_test_cases demo_problem) \<and>
     (sub_status sub = StatusAccepted \<longleftrightarrow>
       (\<forall>j < length (p_test_cases demo_problem).
          process_accepts (New 0) (env_prints ''[0,1]\<newline>'') ''javascript'' ?c j (p_test_cases demo_problem ! j)))"
    using SubmitCode_verdict [OF e p r] by blast
  have acc: "process_accepts (New 0) (env_prints ''[0,1]\<newline>'') ''javascript'' ?c j tc"
    if "tc_expected tc = ''[0,1]''" for j tc
    using that by (simp add: process_accepts_def env_prints_def trim_two_sum_outputs)
  have "length (p_test_cases demo_problem) = 2"
    by (simp add: demo_defs)
  moreover have "\<forall>j < 2. tc_expected (p_test_cases demo_problem ! j) = ''[0,1]''"
    by (simp add: all_less_two demo_defs)
  ultimately have "TotalCount sub = 2 \<and> sub_status sub = StatusAccepted"
    using v acc by auto
  with r show ?thesis by (intro exI conjI) auto
qed

theorem RunCode_hidden_never_run_witness:
  "\<exists>sub st'. RunCode (judge_service (env_prints ''[0,1]'')) demo_store ''u1'' 0 1 ''python'' ''pass'' =
       Inr (sub, st') \<and> map tr_input (sub_results sub) = [''[2,7,11,15],9'']"
proof -
  let ?s = "judge_service (env_prints ''[0,1]'')"
  obtain sub st' where r: "RunCode ?s demo_store ''u1'' 0 1 ''python'' ''pass'' = Inr (sub, st')"
    by (simp add: RunCode_def judge_service_def demo_defs Let_def SetResults_fields
        NewSubmission_fields)
  have p: "pr_find_by_id (svc_problem_repo ?s) demo_store 1 = Inr demo_problem"
    by (simp add: judge_service_def demo_defs)
  have e: "svc_executor ?s = Execute (New 0) (env_prints ''[0,1]'')"
    by (simp add: judge_service_def NewService_def)
  have "map tr_input (sub_results sub) =
        map tc_input (filter (\<lambda>tc. \<not> tc_is_hidden tc) (p_test_cases demo_problem))"
    using RunCode_hidden_never_run [OF e p r] by blast
  then have "map tr_input (sub_results sub) = [''[2,7,11,15],9'']"
    by (simp add: demo_defs)
  with r show ?thesis by (intro exI conjI)
qed

theorem timeout_verdict_is_wrong_answer_witness:
  "\<exists>sub st'. SubmitCode (judge_service env_timeout) demo_store ''u1'' 0 1 ''python'' ''while True: pass'' =
       Inr (sub, st') \<and> sub_status sub = StatusWrong"
proof -
  let ?s = "judge_service env_timeout"
  obtain sub st' where r: "SubmitCode ?s demo_store ''u1'' 0 1 ''python'' ''while True: pass'' = Inr (sub, st')"
    by (simp add: SubmitCode_def judge_service_def demo_defs Let_def SetResults_fields
        NewSubmission_fields)
  have p: "pr_find_by_id (svc_problem_repo ?s) demo_store 1 = Inr demo_problem"
    by (simp add: judge_service_def demo_defs)
  have e: "svc_executor ?s = Execute (New 0) env_timeout"
    by (simp add: judge_service_def NewService_def)
  have "sub_status sub = StatusWrong \<and> sub_status sub \<noteq> StatusTimeout"
    by (rule timeout_verdict_is_wrong_answer [OF e p r, of 0
          "\<lparr>cmd_path = ''python3'', cmd_args = [''-c'', wrapPython ''while True: pass'' ''[3,3],6''],
            cmd_stdin = None\<rparr>"])
       (simp_all add: demo_defs env_timeout_def)
  with r show ?thesis by auto
qed

theorem unsupported_language_verdict_witness:
  "\<exists>sub st'. SubmitCode (judge_service (env_prints ''[0,1]'')) empty_problem_store ''u1'' 0 1 ''ruby''
       ''def two_sum; end'' = Inr (sub, st') \<and> sub_status sub = StatusAccepted"
proof -
  let ?s = "judge_service (env_prints ''[0,1]'')"
  obtain sub st' where r: "SubmitCode ?s empty_problem_store ''u1'' 0 1 ''ruby'' ''def two_sum; end'' = Inr (sub, st')"
    by (simp add: SubmitCode_def judge_service_def empty_problem_store_def demo_defs Let_def
        SetResults_fields NewSubmission_fields)
  have p: "pr_find_by_id (svc_problem_repo ?s) empty_problem_store 1 =
             Inr (NewProblem ''empty'' ''Empty'' ''Easy'' ''algorithms'' [] 0 0)"
    by (simp add: judge_service_def empty_problem_store_def demo_defs)
  have e: "svc_executor ?s = Execute (New 0) (env_prints ''[0,1]'')"
    by (simp add: judge_service_def NewService_def)
  have "sub_status sub = StatusAccepted"
    using unsupported_language_verdict [OF e p _ r] by (simp add: NewProblem_def)
  with r show ?thesis by auto
qed

theorem sqlite_submit_get_created_at_witness:
  "\<exists>sub db'.
     SubmitCode (sqlite_service echo_executor) sample_db1 ''u1'' 7 1 ''python'' ''pass'' = Inr (sub, db') \<and>
     sub_created_at sub = 7 \<and>
     GetSubmission (sqlite_service echo_executor) db' ''u1'' =
       Inr (sub\<lparr>sub_results := map sanitize_result (sub_results sub), sub_created_at := go_zero_time\<rparr>)"
proof -
  let ?s = "sqlite_service echo_executor"
  have find: "pr_find_by_id (svc_problem_repo ?s) sample_db1 1 =
                Inr (toDomainProblem (preload_topics sample_db1 (preload_test_cases sample_db1
                  (hd (db_problems sample_db1)))))"
    by (simp add: sqlite_service_def NewService_def sqlite_problem_repo_def problem_FindByID_def
        first_where_def order_by_id_def sample_db1_def sample_problem_def toModelProblem_def
        gorm_model_id_def stamp_def live_def AddTopic_def AddTestCase_def NewProblem_def Let_def)
  have run: "svc_executor ?s ''python'' ''pass''
               (p_test_cases (toDomainProblem (preload_topics sample_db1 (preload_test_cases sample_db1
                  (hd (db_problems sample_db1)))))) = sample_results"
    by (simp add: sqlite_service_def NewService_def echo_executor_def toDomainProblem_fields
        sample_db1_def sample_problem_def toModelProblem_def gorm_model_id_def stamp_def live_def
        AddTopic_def AddTestCase_def NewProblem_def sample_results_def Let_def)
  obtain sub db' where r: "SubmitCode ?s sample_db1 ''u1'' 7 1 ''python'' ''pass'' = Inr (sub, db')"
    by (simp only: SubmitCode_def find run Let_def sum.case,
        simp add: sqlite_service_def NewService_def sqlite_submission_repo_def
        submission_Create_def toModelSubmission_def sample_db1_def Let_def)
  have "sub_created_at sub = 7 \<and>
        GetSubmission ?s db' ''u1'' =
          Inr (sub\<lparr>sub_results := map sanitize_result (sub_results sub), sub_created_at := go_zero_time\<rparr>)"
    using sqlite_submit_get_created_at [OF r] by simp
  with r show ?thesis by blast
qed

end
